theory Spec2Isabelle
  imports Main
begin

section \<open>Data model of the session service (src/services/session.ts)\<close>

text \<open>
  Identifiers (user ids, session ids, invite codes) are opaque strings. Timestamp columns
  are instants, counted in milliseconds; the store renders a non-null timestamp as a
  non-empty ISO string, so the JavaScript truthiness test \<open>if (data.kicked_at)\<close> on such a
  column is the test for non-null.
\<close>

type_synonym timestamp = nat

text \<open>\<open>JsonRecord\<close>: an opaque key-value object; \<open>emptyObject\<close> is the object without keys.\<close>

type_synonym JsonRecord = "(string \<times> string) list"

definition emptyObject :: JsonRecord where
  "emptyObject = []"

definition sanitizeMetadata :: "JsonRecord option \<Rightarrow> JsonRecord" where
  "sanitizeMetadata metadata = (case metadata of None \<Rightarrow> emptyObject | Some m \<Rightarrow> m)"

datatype session_status = Scheduled | Live | Completed | Cancelled

datatype role = Mentor | Student

text \<open>A row of \<open>mentorship_sessions\<close>, with the columns of \<open>SESSION_SELECT\<close>.\<close>

record session =
  sess_id :: string
  title :: string
  status :: session_status
  scheduled_at :: "timestamp option"
  duration_minutes :: "int option"
  created_at :: timestamp
  created_by :: string
  summary :: "string option"
  invite_code :: string
  allow_collab :: bool
  allow_chat :: bool
  allow_video :: bool
  metadata :: JsonRecord

text \<open>
  A row of \<open>session_participants\<close>. The surrogate key and \<open>joined_at\<close> are assigned by the
  store and never inspected by the service, so the model leaves them out.
\<close>

record participant =
  session_id :: string
  user_id :: string
  prole :: role
  kicked_at :: "timestamp option"
  can_edit :: bool
  can_share_screen :: bool

record message =
  m_session_id :: string
  m_author_id :: string
  m_content :: string

record snapshot =
  c_session_id :: string
  c_author_id :: string
  c_language :: string
  c_code :: string

record store =
  mentorship_sessions :: "session list"
  session_participants :: "participant list"
  session_messages :: "message list"
  session_code_snapshots :: "snapshot list"

subsection \<open>Errors\<close>

text \<open>The error object of the store client, as \<open>formatPostgrestError\<close> reads it.\<close>

record PostgrestError =
  pg_message :: string
  pg_details :: string
  pg_hint :: string
  pg_code :: string

definition formatPostgrestError :: "PostgrestError option \<Rightarrow> PostgrestError option" where
  "formatPostgrestError err =
     (case err of None \<Rightarrow> None
      | Some e \<Rightarrow> Some \<lparr>pg_message = pg_message e, pg_details = pg_details e,
                         pg_hint = pg_hint e, pg_code = pg_code e\<rparr>)"

text \<open>\<open>new HttpError(status, message, details)\<close>: every \<open>throw\<close> of the service is one.\<close>

datatype HttpError = HttpError (http_status: nat) (http_message: string) (http_details: "PostgrestError option")

subsection \<open>The store client\<close>

text \<open>
  Every call of the store client returns \<open>{ data, error }\<close>. Whether a call is answered or
  fails is decided outside the service, so the environment carries it: \<open>fault env k\<close> is
  the error of the \<open>k\<close>-th store call of the operation under way (\<open>None\<close>: the call is
  answered). The environment also carries what the store assigns on its own: the key,
  the invite code, the status and the creation time of a new session row, the value of
  the permission columns an insert leaves out, and the clock.
\<close>

record env =
  fault :: "nat \<Rightarrow> PostgrestError option"
  gen_session_id :: string
  gen_invite_code :: string
  gen_status :: session_status
  gen_created_at :: timestamp
  omitted_can_edit :: bool
  omitted_can_share_screen :: bool
  now :: timestamp

text \<open>A number in a template string: its decimal digits.\<close>

definition digit_char :: "nat \<Rightarrow> char" where
  "digit_char d = ''0123456789'' ! d"

function string_of_nat :: "nat \<Rightarrow> string" where
  "string_of_nat n = (if n < 10 then [digit_char n] else string_of_nat (n div 10) @ [digit_char (n mod 10)])"
  by pat_completeness auto
termination
  by (relation "measure (\<lambda>n. n)") auto

text \<open>
  \<open>.maybeSingle()\<close>: no row is \<open>data = null\<close>, one row is that row, several rows are the
  error PGRST116 of the client, whose details give the number of rows.
\<close>

definition multiple_rows :: "nat \<Rightarrow> PostgrestError" where
  "multiple_rows n =
     \<lparr>pg_message = ''JSON object requested, multiple (or no) rows returned'',
      pg_details = ''Results contain '' @ string_of_nat n @
                   '' rows, application/vnd.pgrst.object+json requires 1 row'',
      pg_hint = '''', pg_code = ''PGRST116''\<rparr>"

definition maybeSingle :: "PostgrestError option \<Rightarrow> 'a list \<Rightarrow> PostgrestError + 'a option" where
  "maybeSingle flt rows =
     (case flt of Some e \<Rightarrow> Inl e
      | None \<Rightarrow> (case rows of [] \<Rightarrow> Inr None | [r] \<Rightarrow> Inr (Some r) | _ \<Rightarrow> Inl (multiple_rows (length rows))))"

text \<open>
  \<open>.update(patch).eq(...).select(...).maybeSingle()\<close>: the rows that pass the filter are
  rewritten and returned; a failed call changes nothing.
\<close>

definition update_maybeSingle ::
  "PostgrestError option \<Rightarrow> ('a \<Rightarrow> bool) \<Rightarrow> ('a \<Rightarrow> 'a) \<Rightarrow> 'a list \<Rightarrow> (PostgrestError + 'a option) \<times> 'a list" where
  "update_maybeSingle flt P f rows =
     (case flt of Some e \<Rightarrow> (Inl e, rows)
      | None \<Rightarrow>
         (case filter P rows of
            [] \<Rightarrow> (Inr None, rows)
          | [r] \<Rightarrow> (Inr (Some (f r)), map (\<lambda>x. if P x then f x else x) rows)
          | _ \<Rightarrow> (Inl (multiple_rows (length (filter P rows))), rows)))"

text \<open>\<open>.insert(rows)\<close>: all rows are appended, or the call fails and none is.\<close>

definition insert_rows :: "PostgrestError option \<Rightarrow> 'a list \<Rightarrow> 'a list \<Rightarrow> PostgrestError option \<times> 'a list" where
  "insert_rows flt new rows = (case flt of Some e \<Rightarrow> (Some e, rows) | None \<Rightarrow> (None, rows @ new))"

text \<open>\<open>.delete().eq(...)\<close>: the rows that pass the filter are removed, unless the call fails.\<close>

definition delete_rows :: "PostgrestError option \<Rightarrow> ('a \<Rightarrow> bool) \<Rightarrow> 'a list \<Rightarrow> PostgrestError option \<times> 'a list" where
  "delete_rows flt P rows =
     (case flt of Some e \<Rightarrow> (Some e, rows) | None \<Rightarrow> (None, filter (\<lambda>x. \<not> P x) rows))"

text \<open>
  The constraints the store keeps (spec, data model): one row per session id, one
  session per invite code, one participant row per (session, user) pair.
\<close>

definition unique_participants :: "store \<Rightarrow> bool" where
  "unique_participants st = distinct (map (\<lambda>p. (session_id p, user_id p)) (session_participants st))"

definition unique_sessions :: "store \<Rightarrow> bool" where
  "unique_sessions st = (distinct (map sess_id (mentorship_sessions st)) \<and>
     distinct (map invite_code (mentorship_sessions st)))"

section \<open>The participant state machine\<close>

subsection \<open>ensureSessionParticipant\<close>

definition ensureSessionParticipant :: "env \<Rightarrow> string \<Rightarrow> string \<Rightarrow> store \<Rightarrow> (HttpError + participant) \<times> store" where
  "ensureSessionParticipant env userId sessionId st =
     (case maybeSingle (fault env 0)
             (filter (\<lambda>p. session_id p = sessionId \<and> user_id p = userId) (session_participants st)) of
        Inl e \<Rightarrow> (Inl (HttpError 500 ''Unable to verify session access'' (formatPostgrestError (Some e))), st)
      | Inr None \<Rightarrow> (Inl (HttpError 403 ''You are not a participant in this session'' None), st)
      | Inr (Some data) \<Rightarrow>
          (if kicked_at data \<noteq> None
           then (Inl (HttpError 403 ''You have been removed from this session'' None), st)
           else (Inr data, st)))"

subsection \<open>Messages and code snapshots\<close>

definition addSessionMessage :: "env \<Rightarrow> string \<Rightarrow> string \<Rightarrow> string \<Rightarrow> store \<Rightarrow> (HttpError + unit) \<times> store" where
  "addSessionMessage env sessionId userId content st =
     (case ensureSessionParticipant env userId sessionId st of
        (Inl err, st1) \<Rightarrow> (Inl err, st1)
      | (Inr _, st1) \<Rightarrow>
          (case insert_rows (fault env 1)
                  [\<lparr>m_session_id = sessionId, m_author_id = userId, m_content = content\<rparr>]
                  (session_messages st1) of
             (Some e, _) \<Rightarrow> (Inl (HttpError 500 ''Unable to store message'' (formatPostgrestError (Some e))), st1)
           | (None, rows) \<Rightarrow> (Inr (), st1\<lparr>session_messages := rows\<rparr>)))"

definition addCodeSnapshot :: "env \<Rightarrow> string \<Rightarrow> string \<Rightarrow> string \<Rightarrow> string \<Rightarrow> store \<Rightarrow> (HttpError + unit) \<times> store" where
  "addCodeSnapshot env sessionId userId code language st =
     (case ensureSessionParticipant env userId sessionId st of
        (Inl err, st1) \<Rightarrow> (Inl err, st1)
      | (Inr _, st1) \<Rightarrow>
          (case insert_rows (fault env 1)
                  [\<lparr>c_session_id = sessionId, c_author_id = userId, c_language = language, c_code = code\<rparr>]
                  (session_code_snapshots st1) of
             (Some e, _) \<Rightarrow> (Inl (HttpError 500 ''Unable to store code snapshot'' (formatPostgrestError (Some e))), st1)
           | (None, rows) \<Rightarrow> (Inr (), st1\<lparr>session_code_snapshots := rows\<rparr>)))"

subsection \<open>ensureSessionExistsWithOwner\<close>

definition ensureSessionExistsWithOwner :: "PostgrestError option \<Rightarrow> string \<Rightarrow> store \<Rightarrow> HttpError + session" where
  "ensureSessionExistsWithOwner flt sessionId st =
     (case maybeSingle flt (filter (\<lambda>s. sess_id s = sessionId) (mentorship_sessions st)) of
        Inl e \<Rightarrow> Inl (HttpError 500 ''Unable to load session'' (formatPostgrestError (Some e)))
      | Inr None \<Rightarrow> Inl (HttpError 404 ''Session not found'' None)
      | Inr (Some data) \<Rightarrow> Inr data)"

subsection \<open>createSession\<close>

text \<open>
  \<open>SessionCreateInput\<close>: an optional field that is \<open>undefined\<close> or \<open>null\<close> is \<open>None\<close> (the
  code reads each through \<open>?? null\<close> or \<open>?? true\<close>, which treats the two alike).
\<close>

record SessionCreateInput =
  in_title :: string
  in_summary :: "string option"
  in_scheduled_at :: "timestamp option"
  in_duration_minutes :: "int option"
  in_allow_collab :: "bool option"
  in_allow_chat :: "bool option"
  in_allow_video :: "bool option"
  in_metadata :: "JsonRecord option"
  participantUserIds :: "string list option"

text \<open>\<open>x ?? d\<close> on an optional value.\<close>

definition nullish :: "'a option \<Rightarrow> 'a \<Rightarrow> 'a" where
  "nullish x d = (case x of None \<Rightarrow> d | Some v \<Rightarrow> v)"

text \<open>
  \<open>Array.from(new Set(xs))\<close>: the elements of \<open>xs\<close> in the order of their first
  occurrence, each once.
\<close>

definition array_from_set :: "'a list \<Rightarrow> 'a list" where
  "array_from_set xs = rev (remdups (rev xs))"

definition uniqueStudentIds :: "string \<Rightarrow> SessionCreateInput \<Rightarrow> string list" where
  "uniqueStudentIds mentorId input =
     array_from_set (filter (\<lambda>i. i \<noteq> [] \<and> i \<noteq> mentorId) (nullish (participantUserIds input) []))"

definition mentor_row :: "string \<Rightarrow> string \<Rightarrow> participant" where
  "mentor_row sid mentorId =
     \<lparr>session_id = sid, user_id = mentorId, prole = Mentor, kicked_at = None,
      can_edit = True, can_share_screen = True\<rparr>"

text \<open>A row inserted with \<open>session_id\<close>, \<open>user_id\<close> and \<open>role\<close> only.\<close>

definition plain_row :: "env \<Rightarrow> string \<Rightarrow> string \<Rightarrow> role \<Rightarrow> participant" where
  "plain_row env sid userId r =
     \<lparr>session_id = sid, user_id = userId, prole = r, kicked_at = None,
      can_edit = omitted_can_edit env, can_share_screen = omitted_can_share_screen env\<rparr>"

definition participantRows :: "env \<Rightarrow> string \<Rightarrow> string \<Rightarrow> SessionCreateInput \<Rightarrow> participant list" where
  "participantRows env sid mentorId input =
     mentor_row sid mentorId # map (\<lambda>userId. plain_row env sid userId Student) (uniqueStudentIds mentorId input)"

definition sessionPayload :: "env \<Rightarrow> string \<Rightarrow> SessionCreateInput \<Rightarrow> session" where
  "sessionPayload env mentorId input =
     \<lparr>sess_id = gen_session_id env,
      title = in_title input,
      status = gen_status env,
      scheduled_at = in_scheduled_at input,
      duration_minutes = in_duration_minutes input,
      created_at = gen_created_at env,
      created_by = mentorId,
      summary = in_summary input,
      invite_code = gen_invite_code env,
      allow_collab = nullish (in_allow_collab input) True,
      allow_chat = nullish (in_allow_chat input) True,
      allow_video = nullish (in_allow_video input) True,
      metadata = sanitizeMetadata (in_metadata input)\<rparr>"

definition createSession :: "env \<Rightarrow> string \<Rightarrow> SessionCreateInput \<Rightarrow> store \<Rightarrow> (HttpError + session) \<times> store" where
  "createSession env mentorId input st =
     (case insert_rows (fault env 0) [sessionPayload env mentorId input] (mentorship_sessions st) of
        (Some e, _) \<Rightarrow> (Inl (HttpError 500 ''Unable to create session'' (formatPostgrestError (Some e))), st)
      | (None, sessions1) \<Rightarrow>
          (let session = sessionPayload env mentorId input;
               st1 = st\<lparr>mentorship_sessions := sessions1\<rparr>
           in case insert_rows (fault env 1) (participantRows env (sess_id session) mentorId input)
                     (session_participants st1) of
                (Some e, _) \<Rightarrow>
                  (Inl (HttpError 500 ''Unable to attach participants'' (formatPostgrestError (Some e))),
                   st1\<lparr>mentorship_sessions :=
                          snd (delete_rows (fault env 2) (\<lambda>s. sess_id s = sess_id session) (mentorship_sessions st1))\<rparr>)
              | (None, rows) \<Rightarrow> (Inr session, st1\<lparr>session_participants := rows\<rparr>)))"

subsection \<open>joinSessionByCode\<close>

definition joinSessionByCode :: "env \<Rightarrow> string \<Rightarrow> string \<Rightarrow> store \<Rightarrow> (HttpError + session) \<times> store" where
  "joinSessionByCode env userId inviteCode st =
     (case maybeSingle (fault env 0) (filter (\<lambda>s. invite_code s = inviteCode) (mentorship_sessions st)) of
        Inl e \<Rightarrow> (Inl (HttpError 500 ''Unable to look up session'' (formatPostgrestError (Some e))), st)
      | Inr None \<Rightarrow> (Inl (HttpError 404 ''No session found for that code'' None), st)
      | Inr (Some session) \<Rightarrow>
          (if status session = Completed \<or> status session = Cancelled
           then (Inl (HttpError 400 ''This session is no longer accepting participants'' None), st)
           else
             (case maybeSingle (fault env 1)
                     (filter (\<lambda>p. session_id p = sess_id session \<and> user_id p = userId) (session_participants st)) of
                Inl e \<Rightarrow> (Inl (HttpError 500 ''Unable to verify membership'' (formatPostgrestError (Some e))), st)
              | Inr (Some existing) \<Rightarrow>
                  (if kicked_at existing \<noteq> None
                   then (Inl (HttpError 403 ''You have been removed from this session'' None), st)
                   else (Inr session, st))
              | Inr None \<Rightarrow>
                  (case insert_rows (fault env 2)
                          [plain_row env (sess_id session) userId
                             (if userId = created_by session then Mentor else Student)]
                          (session_participants st) of
                     (Some e, _) \<Rightarrow> (Inl (HttpError 500 ''Unable to join session'' (formatPostgrestError (Some e))), st)
                   | (None, rows) \<Rightarrow> (Inr session, st\<lparr>session_participants := rows\<rparr>)))))"

subsection \<open>updateSessionSettings\<close>

text \<open>
  \<open>SessionUpdateInput\<close>: \<open>None\<close> is an omitted field (\<open>undefined\<close>); for a nullable column
  \<open>Some None\<close> is an explicit \<open>null\<close>.
\<close>

record SessionUpdateInput =
  up_title :: "string option"
  up_summary :: "string option option"
  up_scheduled_at :: "timestamp option option"
  up_duration_minutes :: "int option option"
  up_status :: "session_status option"
  up_allow_collab :: "bool option"
  up_allow_chat :: "bool option"
  up_allow_video :: "bool option"
  up_metadata :: "JsonRecord option option"

text \<open>The \<open>patch\<close> object: a key is present exactly when its field is \<open>Some\<close>.\<close>

record session_patch =
  p_title :: "string option"
  p_summary :: "string option option"
  p_scheduled_at :: "timestamp option option"
  p_duration_minutes :: "int option option"
  p_status :: "session_status option"
  p_allow_collab :: "bool option"
  p_allow_chat :: "bool option"
  p_allow_video :: "bool option"
  p_metadata :: "JsonRecord option"

definition build_patch :: "SessionUpdateInput \<Rightarrow> session_patch" where
  "build_patch updates =
     \<lparr>p_title = up_title updates,
      p_summary = up_summary updates,
      p_scheduled_at = up_scheduled_at updates,
      p_duration_minutes = up_duration_minutes updates,
      p_status = up_status updates,
      p_allow_collab = up_allow_collab updates,
      p_allow_chat = up_allow_chat updates,
      p_allow_video = up_allow_video updates,
      p_metadata = map_option sanitizeMetadata (up_metadata updates)\<rparr>"

definition key_of :: "string \<Rightarrow> 'a option \<Rightarrow> string list" where
  "key_of k v = (case v of None \<Rightarrow> [] | Some _ \<Rightarrow> [k])"

text \<open>\<open>Object.keys(patch)\<close>.\<close>

definition patch_keys :: "session_patch \<Rightarrow> string list" where
  "patch_keys p =
     key_of ''title'' (p_title p) @ key_of ''summary'' (p_summary p) @
     key_of ''scheduled_at'' (p_scheduled_at p) @ key_of ''duration_minutes'' (p_duration_minutes p) @
     key_of ''status'' (p_status p) @ key_of ''allow_collab'' (p_allow_collab p) @
     key_of ''allow_chat'' (p_allow_chat p) @ key_of ''allow_video'' (p_allow_video p) @
     key_of ''metadata'' (p_metadata p)"

text \<open>The row after \<open>.update(patch)\<close>: a column changes only if its key is in the patch.\<close>

definition apply_patch :: "session_patch \<Rightarrow> session \<Rightarrow> session" where
  "apply_patch p s =
     s\<lparr>title := nullish (p_title p) (title s),
       summary := nullish (p_summary p) (summary s),
       scheduled_at := nullish (p_scheduled_at p) (scheduled_at s),
       duration_minutes := nullish (p_duration_minutes p) (duration_minutes s),
       status := nullish (p_status p) (status s),
       allow_collab := nullish (p_allow_collab p) (allow_collab s),
       allow_chat := nullish (p_allow_chat p) (allow_chat s),
       allow_video := nullish (p_allow_video p) (allow_video s),
       metadata := nullish (p_metadata p) (metadata s)\<rparr>"

definition updateSessionSettings :: "env \<Rightarrow> string \<Rightarrow> string \<Rightarrow> SessionUpdateInput \<Rightarrow> store \<Rightarrow> (HttpError + session) \<times> store" where
  "updateSessionSettings env mentorId sessionId updates st =
     (let patch = build_patch updates in
      if length (patch_keys patch) = 0
      then (Inl (HttpError 400 ''No updates were provided'' None), st)
      else
        (case update_maybeSingle (fault env 0)
                (\<lambda>s. sess_id s = sessionId \<and> created_by s = mentorId) (apply_patch patch)
                (mentorship_sessions st) of
           (Inl e, _) \<Rightarrow> (Inl (HttpError 500 ''Unable to update session'' (formatPostgrestError (Some e))), st)
         | (Inr None, _) \<Rightarrow>
             (Inl (HttpError 404 ''Session not found or you do not have permission to update it'' None), st)
         | (Inr (Some data), rows) \<Rightarrow> (Inr data, st\<lparr>mentorship_sessions := rows\<rparr>)))"

subsection \<open>kickParticipant\<close>

definition kickParticipant :: "env \<Rightarrow> string \<Rightarrow> string \<Rightarrow> string \<Rightarrow> store \<Rightarrow> (HttpError + bool) \<times> store" where
  "kickParticipant env mentorId sessionId targetUserId st =
     (case ensureSessionExistsWithOwner (fault env 0) sessionId st of
        Inl err \<Rightarrow> (Inl err, st)
      | Inr session \<Rightarrow>
          (if created_by session \<noteq> mentorId
           then (Inl (HttpError 403 ''Only the session creator can remove participants'' None), st)
           else if targetUserId = mentorId
           then (Inl (HttpError 400 ''You cannot remove yourself from your own session'' None), st)
           else
             (case update_maybeSingle (fault env 1)
                     (\<lambda>p. session_id p = sessionId \<and> user_id p = targetUserId \<and> kicked_at p = None)
                     (\<lambda>p. p\<lparr>kicked_at := Some (now env), can_edit := False, can_share_screen := False\<rparr>)
                     (session_participants st) of
                (Inl e, _) \<Rightarrow> (Inl (HttpError 500 ''Unable to remove participant'' (formatPostgrestError (Some e))), st)
              | (Inr None, _) \<Rightarrow> (Inl (HttpError 404 ''Participant not found or already removed'' None), st)
              | (Inr (Some _), rows) \<Rightarrow> (Inr True, st\<lparr>session_participants := rows\<rparr>))))"

subsection \<open>updateParticipantPermissions\<close>

record PermissionChanges =
  ch_can_edit :: "bool option"
  ch_can_share_screen :: "bool option"

definition permission_keys :: "PermissionChanges \<Rightarrow> string list" where
  "permission_keys p = key_of ''can_edit'' (ch_can_edit p) @ key_of ''can_share_screen'' (ch_can_share_screen p)"

definition apply_permissions :: "PermissionChanges \<Rightarrow> participant \<Rightarrow> participant" where
  "apply_permissions p row =
     row\<lparr>can_edit := nullish (ch_can_edit p) (can_edit row),
         can_share_screen := nullish (ch_can_share_screen p) (can_share_screen row)\<rparr>"

definition updateParticipantPermissions ::
  "env \<Rightarrow> string \<Rightarrow> string \<Rightarrow> string \<Rightarrow> PermissionChanges \<Rightarrow> store \<Rightarrow> (HttpError + participant) \<times> store" where
  "updateParticipantPermissions env mentorId sessionId targetUserId changes st =
     (case ensureSessionExistsWithOwner (fault env 0) sessionId st of
        Inl err \<Rightarrow> (Inl err, st)
      | Inr session \<Rightarrow>
          (if created_by session \<noteq> mentorId
           then (Inl (HttpError 403 ''Only the session creator can update participant permissions'' None), st)
           else
             (let patch = \<lparr>ch_can_edit = ch_can_edit changes, ch_can_share_screen = ch_can_share_screen changes\<rparr> in
              if length (permission_keys patch) = 0
              then (Inl (HttpError 400 ''No permission changes provided'' None), st)
              else
                (case update_maybeSingle (fault env 1)
                        (\<lambda>p. session_id p = sessionId \<and> user_id p = targetUserId)
                        (apply_permissions patch)
                        (session_participants st) of
                   (Inl e, _) \<Rightarrow>
                     (Inl (HttpError 500 ''Unable to update participant permissions'' (formatPostgrestError (Some e))), st)
                 | (Inr None, _) \<Rightarrow> (Inl (HttpError 404 ''Participant not found'' None), st)
                 | (Inr (Some data), rows) \<Rightarrow> (Inr data, st\<lparr>session_participants := rows\<rparr>)))))"

section \<open>The execution sandbox (src/services/codeRunner.ts)\<close>

record ExecutionResult =
  "output" :: string
  error :: "string option"
  executionTime :: nat

text \<open>
  A thrown JavaScript error: its message and, when it is the rejection of a child
  process, the output captured so far (\<open>err.stdout\<close>, \<open>err.stderr\<close>).
\<close>

datatype JsError = JsError (err_message: string) (err_stdout: "string option") (err_stderr: "string option")

text \<open>
  What the operating system answers during one invocation: the directory \<open>fs.mkdtemp\<close>
  creates for a prefix (or its failure), whether \<open>fs.writeFile\<close> and \<open>fs.rm\<close> fail, what
  each command does when run under the timeout and the buffer cap (its output, or the
  rejection for a non-zero exit, a timeout or an overflow), and the two clock
  differences \<open>Date.now() - startTime\<close>: of the language runner and of \<open>executeCode\<close>.
  It also carries the lower-casing of a text that has characters outside ASCII, which
  follows the case tables of the platform.
\<close>

record sandbox_env =
  tmpdir :: string
  mkdtemp_result :: "string \<Rightarrow> JsError + string"
  writeFile_error :: "JsError option"
  exec_result :: "string \<Rightarrow> JsError + string \<times> string"
  rm_error :: "JsError option"
  elapsed :: nat
  elapsed_total :: nat
  unicode_lower :: "string \<Rightarrow> string"

text \<open>The part of the machine the sandbox touches: the directories that exist, the commands run.\<close>

record world =
  dirs :: "string list"
  spawned :: "string list"

definition path_join :: "string \<Rightarrow> string \<Rightarrow> string" where
  "path_join a b = a @ ''/'' @ b"

definition dirname :: "string \<Rightarrow> string" where
  "dirname p =
     (case dropWhile (\<lambda>c. c \<noteq> CHR ''/'') (rev p) of
        [] \<Rightarrow> ''.''
      | _ # r \<Rightarrow> (if r = [] then ''/'' else rev r))"

definition mkdtemp :: "sandbox_env \<Rightarrow> string \<Rightarrow> world \<Rightarrow> (JsError + string) \<times> world" where
  "mkdtemp env prefix w =
     (case mkdtemp_result env prefix of
        Inl e \<Rightarrow> (Inl e, w)
      | Inr d \<Rightarrow> (Inr d, w\<lparr>dirs := d # dirs w\<rparr>))"

text \<open>\<open>fs.rm(dir, { recursive: true, force: true })\<close>.\<close>

definition rm :: "sandbox_env \<Rightarrow> string \<Rightarrow> world \<Rightarrow> JsError option \<times> world" where
  "rm env dir w =
     (case rm_error env of
        Some e \<Rightarrow> (Some e, w)
      | None \<Rightarrow> (None, w\<lparr>dirs := removeAll dir (dirs w)\<rparr>))"

definition execAsync :: "sandbox_env \<Rightarrow> string \<Rightarrow> world \<Rightarrow> (JsError + string \<times> string) \<times> world" where
  "execAsync env cmd w = (exec_result env cmd, w\<lparr>spawned := spawned w @ [cmd]\<rparr>)"

definition createTempFile :: "sandbox_env \<Rightarrow> string \<Rightarrow> string \<Rightarrow> world \<Rightarrow> (JsError + string) \<times> world" where
  "createTempFile env code extension w =
     (case mkdtemp env (path_join (tmpdir env) ''code-exec-'') w of
        (Inl e, w1) \<Rightarrow> (Inl e, w1)
      | (Inr tempDir, w1) \<Rightarrow>
          (let filePath = path_join tempDir (''code'' @ extension) in
           case writeFile_error env of
             Some e \<Rightarrow> (Inl e, w1)
           | None \<Rightarrow> (Inr filePath, w1)))"

text \<open>\<open>cleanupTempFile\<close> catches (and logs) the failure of \<open>fs.rm\<close>: it never throws.\<close>

definition cleanupTempFile :: "sandbox_env \<Rightarrow> string \<Rightarrow> world \<Rightarrow> world" where
  "cleanupTempFile env filePath w = snd (rm env (dirname filePath) w)"

text \<open>
  Texts are byte strings in UTF-8. The white space of JavaScript (what \<open>trim\<close> strips and
  the class \<open>\s\<close> of a regular expression matches) is the tab, the line feed, the
  vertical tab, the form feed, the carriage return, the space, and the code points
  U+00A0, U+1680, U+2000 to U+200A, U+2028, U+2029, U+202F, U+205F, U+3000 and U+FEFF.
\<close>

definition white_space :: "string list" where
  "white_space =
     [[CHR 0x09], [CHR 0x0A], [CHR 0x0B], [CHR 0x0C], [CHR 0x0D], [CHR 0x20],
      [CHR 0xC2, CHR 0xA0], [CHR 0xE1, CHR 0x9A, CHR 0x80],
      [CHR 0xE2, CHR 0x80, CHR 0x80], [CHR 0xE2, CHR 0x80, CHR 0x81], [CHR 0xE2, CHR 0x80, CHR 0x82],
      [CHR 0xE2, CHR 0x80, CHR 0x83], [CHR 0xE2, CHR 0x80, CHR 0x84], [CHR 0xE2, CHR 0x80, CHR 0x85],
      [CHR 0xE2, CHR 0x80, CHR 0x86], [CHR 0xE2, CHR 0x80, CHR 0x87], [CHR 0xE2, CHR 0x80, CHR 0x88],
      [CHR 0xE2, CHR 0x80, CHR 0x89], [CHR 0xE2, CHR 0x80, CHR 0x8A],
      [CHR 0xE2, CHR 0x80, CHR 0xA8], [CHR 0xE2, CHR 0x80, CHR 0xA9], [CHR 0xE2, CHR 0x80, CHR 0xAF],
      [CHR 0xE2, CHR 0x81, CHR 0x9F], [CHR 0xE3, CHR 0x80, CHR 0x80], [CHR 0xEF, CHR 0xBB, CHR 0xBF]]"

text \<open>\<open>strip_prefix p s\<close>: the rest of \<open>s\<close> after the literal \<open>p\<close>, if \<open>s\<close> starts with it.\<close>

fun strip_prefix :: "string \<Rightarrow> string \<Rightarrow> string option" where
  "strip_prefix [] s = Some s"
| "strip_prefix (p # ps) [] = None"
| "strip_prefix (p # ps) (c # cs) = (if p = c then strip_prefix ps cs else None)"

text \<open>The rest of \<open>s\<close> after the first of the given texts that \<open>s\<close> starts with.\<close>

fun strip_first :: "string list \<Rightarrow> string \<Rightarrow> string option" where
  "strip_first [] s = None"
| "strip_first (p # ps) s = (case strip_prefix p s of Some r \<Rightarrow> Some r | None \<Rightarrow> strip_first ps s)"

text \<open>
  A text without the white space at its start; and the same for a reversed text, whose
  white space at the start is the white space at the end of the text.
\<close>

function skip_leading :: "string \<Rightarrow> string" where
  "skip_leading s = (case strip_first white_space s of None \<Rightarrow> s | Some r \<Rightarrow> skip_leading r)"
  by pat_completeness auto
termination
proof (relation "measure length")
  show "wf (measure length)" by simp
next
  fix s r :: string
  assume a: "strip_first white_space s = Some r"
  have sp: "strip_prefix p t = Some u \<Longrightarrow> length t = length p + length u" for p t u
    by (induction p t rule: strip_prefix.induct) (auto split: if_splits)
  have sf: "strip_first ps t = Some u \<Longrightarrow> \<forall>p \<in> set ps. p \<noteq> [] \<Longrightarrow> length u < length t" for ps t u
    by (induction ps) (auto split: option.splits dest: sp)
  have "\<forall>p \<in> set white_space. p \<noteq> []" by (simp add: white_space_def)
  with sf [OF a] show "(r, s) \<in> measure length" by simp
qed

function skip_trailing_rev :: "string \<Rightarrow> string" where
  "skip_trailing_rev s =
     (case strip_first (map rev white_space) s of None \<Rightarrow> s | Some r \<Rightarrow> skip_trailing_rev r)"
  by pat_completeness auto
termination
proof (relation "measure length")
  show "wf (measure length)" by simp
next
  fix s r :: string
  assume a: "strip_first (map rev white_space) s = Some r"
  have sp: "strip_prefix p t = Some u \<Longrightarrow> length t = length p + length u" for p t u
    by (induction p t rule: strip_prefix.induct) (auto split: if_splits)
  have sf: "strip_first ps t = Some u \<Longrightarrow> \<forall>p \<in> set ps. p \<noteq> [] \<Longrightarrow> length u < length t" for ps t u
    by (induction ps) (auto split: option.splits dest: sp)
  have "\<forall>p \<in> set (map rev white_space). p \<noteq> []" by (simp add: white_space_def)
  with sf [OF a] show "(r, s) \<in> measure length" by simp
qed

text \<open>\<open>String.prototype.trim\<close>.\<close>

definition trim :: "string \<Rightarrow> string" where
  "trim s = rev (skip_trailing_rev (rev (skip_leading s)))"

definition quoted :: "string \<Rightarrow> string" where
  "quoted s = CHR 0x22 # s @ [CHR 0x22]"

text \<open>The result of a run that exits normally: \<open>stderr.trim() || null\<close>.\<close>

definition success_result :: "sandbox_env \<Rightarrow> string \<Rightarrow> string \<Rightarrow> ExecutionResult" where
  "success_result env stdout stderr =
     \<lparr>output = trim stdout,
      error = (if trim stderr = [] then None else Some (trim stderr)),
      executionTime = elapsed env\<rparr>"

text \<open>The result of a rejected run: \<open>err.stdout?.trim() || ''\<close>, \<open>err.stderr?.trim() || err.message\<close>.\<close>

definition failure_result :: "sandbox_env \<Rightarrow> JsError \<Rightarrow> ExecutionResult" where
  "failure_result env err =
     \<lparr>output = (case err_stdout err of None \<Rightarrow> [] | Some s \<Rightarrow> trim s),
      error = Some (case err_stderr err of
                      None \<Rightarrow> err_message err
                    | Some s \<Rightarrow> (if trim s = [] then err_message err else trim s)),
      executionTime = elapsed env\<rparr>"

text \<open>
  The five runners that go through \<open>createTempFile\<close> differ in the extension and the
  command only: the file is created outside the \<open>try\<close>, the command runs inside it, and
  the \<open>finally\<close> calls \<open>cleanupTempFile\<close>.
\<close>

definition run_file :: "sandbox_env \<Rightarrow> string \<Rightarrow> string \<Rightarrow> string \<Rightarrow> world \<Rightarrow> (JsError + ExecutionResult) \<times> world" where
  "run_file env tool extension code w =
     (case createTempFile env code extension w of
        (Inl e, w1) \<Rightarrow> (Inl e, w1)
      | (Inr filePath, w1) \<Rightarrow>
          (case execAsync env (tool @ '' '' @ quoted filePath) w1 of
             (Inr (stdout, stderr), w2) \<Rightarrow> (Inr (success_result env stdout stderr), cleanupTempFile env filePath w2)
           | (Inl err, w2) \<Rightarrow> (Inr (failure_result env err), cleanupTempFile env filePath w2)))"

definition executeJavaScript :: "sandbox_env \<Rightarrow> string \<Rightarrow> world \<Rightarrow> (JsError + ExecutionResult) \<times> world" where
  "executeJavaScript env code w = run_file env ''node'' ''.js'' code w"

definition executeTypeScript :: "sandbox_env \<Rightarrow> string \<Rightarrow> world \<Rightarrow> (JsError + ExecutionResult) \<times> world" where
  "executeTypeScript env code w = run_file env ''npx ts-node'' ''.ts'' code w"

definition executePython :: "sandbox_env \<Rightarrow> string \<Rightarrow> world \<Rightarrow> (JsError + ExecutionResult) \<times> world" where
  "executePython env code w = run_file env ''python'' ''.py'' code w"

definition executeCSharp :: "sandbox_env \<Rightarrow> string \<Rightarrow> world \<Rightarrow> (JsError + ExecutionResult) \<times> world" where
  "executeCSharp env code w = run_file env ''dotnet script'' ''.cs'' code w"

definition executeGo :: "sandbox_env \<Rightarrow> string \<Rightarrow> world \<Rightarrow> (JsError + ExecutionResult) \<times> world" where
  "executeGo env code w = run_file env ''go run'' ''.go'' code w"

text \<open>\<open>extractJavaClassName\<close>: the first match of \<open>/public\s+class\s+(\w+)/\<close>.\<close>

definition is_word :: "char \<Rightarrow> bool" where
  "is_word c = (c \<in> set (''abcdefghijklmnopqrstuvwxyz'' @ ''ABCDEFGHIJKLMNOPQRSTUVWXYZ'' @ ''0123456789_''))"

text \<open>\<open>\s+\<close>: at least one white space, and then all that follow.\<close>

definition spaces1 :: "string \<Rightarrow> string option" where
  "spaces1 s = (case strip_first white_space s of None \<Rightarrow> None | Some r \<Rightarrow> Some (skip_leading r))"

definition match_class_at :: "string \<Rightarrow> string option" where
  "match_class_at s =
     (case strip_prefix ''public'' s of None \<Rightarrow> None | Some s1 \<Rightarrow>
      (case spaces1 s1 of None \<Rightarrow> None | Some s2 \<Rightarrow>
       (case strip_prefix ''class'' s2 of None \<Rightarrow> None | Some s3 \<Rightarrow>
        (case spaces1 s3 of None \<Rightarrow> None | Some s4 \<Rightarrow>
         (if takeWhile is_word s4 = [] then None else Some (takeWhile is_word s4))))))"

fun extractJavaClassName :: "string \<Rightarrow> string option" where
  "extractJavaClassName [] = None"
| "extractJavaClassName (c # cs) =
     (case match_class_at (c # cs) of Some n \<Rightarrow> Some n | None \<Rightarrow> extractJavaClassName cs)"

text \<open>
  \<open>executeJava\<close> makes its own directory and writes the file outside the \<open>try\<close>; its
  \<open>finally\<close> calls \<open>fs.rm\<close> directly, so a failure of \<open>fs.rm\<close> replaces the result by a throw.
\<close>

definition executeJava :: "sandbox_env \<Rightarrow> string \<Rightarrow> world \<Rightarrow> (JsError + ExecutionResult) \<times> world" where
  "executeJava env code w =
     (case mkdtemp env (path_join (tmpdir env) ''java-exec-'') w of
        (Inl e, w1) \<Rightarrow> (Inl e, w1)
      | (Inr tempDir, w1) \<Rightarrow>
          (let className = (case extractJavaClassName code of None \<Rightarrow> ''Main'' | Some n \<Rightarrow> n);
               filePath = path_join tempDir (className @ ''.java'')
           in case writeFile_error env of
                Some e \<Rightarrow> (Inl e, w1)
              | None \<Rightarrow>
                  (let (res, w2) =
                         (case execAsync env (''javac '' @ quoted filePath) w1 of
                            (Inl err, w2) \<Rightarrow> (failure_result env err, w2)
                          | (Inr _, w2) \<Rightarrow>
                              (case execAsync env (''java -cp '' @ quoted tempDir @ '' '' @ className) w2 of
                                 (Inl err, w3) \<Rightarrow> (failure_result env err, w3)
                               | (Inr (stdout, stderr), w3) \<Rightarrow> (success_result env stdout stderr, w3)))
                   in case rm env tempDir w2 of
                        (Some e, w3) \<Rightarrow> (Inl e, w3)
                      | (None, w3) \<Rightarrow> (Inr res, w3))))"

text \<open>
  \<open>String.prototype.toLowerCase\<close>: a text of ASCII characters has its letters A to Z
  lower-cased; any other text is lower-cased by the platform.
\<close>

definition to_lower_char :: "char \<Rightarrow> char" where
  "to_lower_char c =
     (case map_of (zip ''ABCDEFGHIJKLMNOPQRSTUVWXYZ'' ''abcdefghijklmnopqrstuvwxyz'') c of
        Some l \<Rightarrow> l
      | None \<Rightarrow> c)"

definition is_ascii :: "char \<Rightarrow> bool" where
  "is_ascii c = ((of_char c :: nat) < 128)"

definition toLowerCase :: "sandbox_env \<Rightarrow> string \<Rightarrow> string" where
  "toLowerCase env s = (if list_all is_ascii s then map to_lower_char s else unicode_lower env s)"

definition supported_languages :: "string list" where
  "supported_languages = [''javascript'', ''typescript'', ''python'', ''java'', ''csharp'', ''c#'', ''go'']"

text \<open>The \<open>switch\<close> inside the \<open>try\<close> of \<open>executeCode\<close>.\<close>

definition executeCode_try :: "sandbox_env \<Rightarrow> string \<Rightarrow> string \<Rightarrow> world \<Rightarrow> (JsError + ExecutionResult) \<times> world" where
  "executeCode_try env code language w =
     (let l = toLowerCase env language in
      if l = ''javascript'' then executeJavaScript env code w
      else if l = ''typescript'' then executeTypeScript env code w
      else if l = ''python'' then executePython env code w
      else if l = ''java'' then executeJava env code w
      else if l = ''csharp'' \<or> l = ''c#'' then executeCSharp env code w
      else if l = ''go'' then executeGo env code w
      else (Inr \<lparr>output = [],
                 error = Some (''Language '' @ quoted language @ '' is not supported for execution''),
                 executionTime = elapsed_total env\<rparr>, w))"

text \<open>
  \<open>executeCode\<close>: the \<open>catch\<close> turns a throw of the \<open>try\<close> into a result; the \<open>finally\<close>
  cleans up \<open>filePath\<close>, a variable of \<open>executeCode\<close> that is \<open>null\<close> at its declaration and
  assigned nowhere. The result type keeps the channel for a throw, to state that none
  leaves.
\<close>

definition executeCode :: "sandbox_env \<Rightarrow> string \<Rightarrow> string \<Rightarrow> world \<Rightarrow> (JsError + ExecutionResult) \<times> world" where
  "executeCode env code language w =
     (let filePath = (None :: string option);
          (r, w1) = executeCode_try env code language w;
          caught = (case r of
                      Inr res \<Rightarrow> res
                    | Inl err \<Rightarrow>
                        \<lparr>output = [],
                         error = Some (if err_message err = [] then ''Execution failed'' else err_message err),
                         executionTime = elapsed_total env\<rparr>)
      in (Inr caught, (case filePath of None \<Rightarrow> w1 | Some p \<Rightarrow> cleanupTempFile env p w1)))"

section \<open>The connection gateway (the socket handlers of the server entry file)\<close>

text \<open>
  The identity attached to a connection: the user id, and the display name the handlers
  build with \<open>user.user_metadata?.name ?? user.email\<close>.
\<close>

record AuthedUser =
  u_id :: string
  u_metadata_name :: "string option"
  u_email :: "string option"

text \<open>\<open>SocketData\<close>: the identity and the single slot for the current session.\<close>

record SocketData =
  sd_user :: AuthedUser
  sd_sessionId :: "string option"

text \<open>
  The server: the store, the machine the sandbox runs on, and the rooms (the socket ids
  that joined each room name).
\<close>

record server =
  db :: store
  host :: world
  rooms :: "string \<Rightarrow> string list"

text \<open>The clock of a handler: \<open>Date.now()\<close> as text, and \<open>new Date().toISOString()\<close>.\<close>

record clock =
  date_now :: string
  iso_now :: string

record chat_payload =
  cp_id :: "string option"
  cp_text :: "string option"
  cp_time :: "string option"

record code_payload =
  cp_code :: "string option"
  cp_language :: "string option"

text \<open>
  The \<open>language\<close> field of a \<open>code:run\<close> payload as it arrives. The annotation
  \<open>language?: string\<close> is not checked when the event is received, so the field holds any
  JSON value: it is absent, \<open>null\<close>, a string, or a value of another kind (a number, a
  boolean, an array, an object), which has no method \<open>toLowerCase\<close>. The \<open>code\<close> field is
  taken as annotated, absent or a string: \<open>executeCode\<close> is written for a string only.
\<close>

datatype js_value = JsUndefined | JsNull | JsString string | JsOther

record run_payload =
  rp_code :: "string option"
  rp_language :: js_value

text \<open>\<open>payload.language ?? 'javascript'\<close>.\<close>

definition language_or_default :: "js_value \<Rightarrow> js_value" where
  "language_or_default v =
     (case v of JsUndefined \<Rightarrow> JsString ''javascript'' | JsNull \<Rightarrow> JsString ''javascript''
      | JsString s \<Rightarrow> JsString s | JsOther \<Rightarrow> JsOther)"

text \<open>\<open>v.toLowerCase()\<close>: a \<open>TypeError\<close> is thrown when \<open>v\<close> is not a string.\<close>

definition not_a_function :: JsError where
  "not_a_function = JsError ''(intermediate value).toLowerCase is not a function'' None None"

definition call_toLowerCase :: "sandbox_env \<Rightarrow> js_value \<Rightarrow> JsError + string" where
  "call_toLowerCase env v = (case v of JsString s \<Rightarrow> Inr (toLowerCase env s) | _ \<Rightarrow> Inl not_a_function)"

datatype emitted =
    SessionJoined string
  | SessionErrorMsg string
  | ChatMessage string string string string "string option" string
  | CodeUpdate string "string option" string string string
  | RunResult string string string "string option" nat string "string option" string string

text \<open>
  What a handler sends: \<open>io.to(room).emit\<close> reaches every socket of the room,
  \<open>socket.emit\<close> reaches the socket of the request, and \<open>callback?.(res)\<close> is the
  acknowledgment \<open>{ ok, message }\<close>, sent when the client asked for one.
\<close>

datatype action =
    IoToRoomEmit string string emitted
  | SocketEmit string emitted
  | Callback bool "string option"

definition recipients :: "(string \<Rightarrow> string list) \<Rightarrow> string \<Rightarrow> action \<Rightarrow> string list" where
  "recipients rs socketId a =
     (case a of
        IoToRoomEmit room _ _ \<Rightarrow> rs room
      | SocketEmit _ _ \<Rightarrow> [socketId]
      | Callback _ _ \<Rightarrow> [socketId])"

text \<open>What a \<open>try\<close> block of a handler can throw: an \<open>HttpError\<close>, or anything else.\<close>

datatype thrown = Http HttpError | Other JsError

definition room_of :: "string \<Rightarrow> string" where
  "room_of sessionId = ''session:'' @ sessionId"

text \<open>A string that passes \<open>if (!x) throw\<close>: neither absent nor empty.\<close>

definition truthy :: "string option \<Rightarrow> string option" where
  "truthy x = (case x of None \<Rightarrow> None | Some s \<Rightarrow> (if s = [] then None else Some s))"

definition display_name :: "AuthedUser \<Rightarrow> string option" where
  "display_name user = (case u_metadata_name user of Some n \<Rightarrow> Some n | None \<Rightarrow> u_email user)"

definition ack :: "bool \<Rightarrow> bool \<Rightarrow> string option \<Rightarrow> action list" where
  "ack callback ok message = (if callback then [Callback ok message] else [])"

text \<open>The \<open>catch\<close> of every handler, with the handler's fallback message.\<close>

definition on_error :: "string \<Rightarrow> bool \<Rightarrow> thrown \<Rightarrow> action list" where
  "on_error fallback callback err =
     (let message = (case err of Http e \<Rightarrow> http_message e | Other _ \<Rightarrow> fallback) in
      ack callback False (Some message) @ [SocketEmit ''session:error'' (SessionErrorMsg message)])"

subsection \<open>session:join\<close>

definition on_session_join ::
  "env \<Rightarrow> string \<Rightarrow> string option \<Rightarrow> bool \<Rightarrow> SocketData \<Rightarrow> server \<Rightarrow> action list \<times> SocketData \<times> server" where
  "on_session_join env socketId sessionId callback data srv =
     (case truthy sessionId of
        None \<Rightarrow> (on_error ''Unable to join session'' callback (Http (HttpError 400 ''sessionId is required'' None)), data, srv)
      | Some sid \<Rightarrow>
          (case ensureSessionParticipant env (u_id (sd_user data)) sid (db srv) of
             (Inl err, st1) \<Rightarrow> (on_error ''Unable to join session'' callback (Http err), data, srv\<lparr>db := st1\<rparr>)
           | (Inr _, st1) \<Rightarrow>
               (ack callback True None @ [SocketEmit ''session:joined'' (SessionJoined sid)],
                data\<lparr>sd_sessionId := Some sid\<rparr>,
                srv\<lparr>db := st1, rooms := (rooms srv)(room_of sid := List.insert socketId (rooms srv (room_of sid)))\<rparr>)))"

subsection \<open>chat:message\<close>

definition on_chat_message ::
  "env \<Rightarrow> clock \<Rightarrow> chat_payload option \<Rightarrow> bool \<Rightarrow> SocketData \<Rightarrow> server \<Rightarrow> action list \<times> SocketData \<times> server" where
  "on_chat_message env clk payload callback data srv =
     (case truthy (sd_sessionId data) of
        None \<Rightarrow> (on_error ''Unable to send message'' callback
                   (Http (HttpError 400 ''Join a session before sending messages'' None)), data, srv)
      | Some sessionId \<Rightarrow>
          (case truthy (Option.bind payload cp_text) of
             None \<Rightarrow> (on_error ''Unable to send message'' callback
                        (Http (HttpError 400 ''Message text is required'' None)), data, srv)
           | Some text \<Rightarrow>
               (case addSessionMessage env sessionId (u_id (sd_user data)) text (db srv) of
                  (Inl err, st1) \<Rightarrow> (on_error ''Unable to send message'' callback (Http err), data, srv\<lparr>db := st1\<rparr>)
                | (Inr _, st1) \<Rightarrow>
                    (IoToRoomEmit (room_of sessionId) ''chat:message''
                       (ChatMessage (nullish (Option.bind payload cp_id) (date_now clk)) text
                          (nullish (Option.bind payload cp_time) (iso_now clk))
                          (u_id (sd_user data)) (display_name (sd_user data)) sessionId)
                     # ack callback True None,
                     data, srv\<lparr>db := st1\<rparr>))))"

subsection \<open>code:update\<close>

definition on_code_update ::
  "env \<Rightarrow> clock \<Rightarrow> code_payload option \<Rightarrow> bool \<Rightarrow> SocketData \<Rightarrow> server \<Rightarrow> action list \<times> SocketData \<times> server" where
  "on_code_update env clk payload callback data srv =
     (case truthy (sd_sessionId data) of
        None \<Rightarrow> (on_error ''Unable to update code'' callback
                   (Http (HttpError 400 ''Join a session before sharing code'' None)), data, srv)
      | Some sessionId \<Rightarrow>
          (case truthy (Option.bind payload cp_code) of
             None \<Rightarrow> (on_error ''Unable to update code'' callback
                        (Http (HttpError 400 ''Code content is required'' None)), data, srv)
           | Some code \<Rightarrow>
               (case addCodeSnapshot env sessionId (u_id (sd_user data)) code
                       (nullish (Option.bind payload cp_language) ''javascript'') (db srv) of
                  (Inl err, st1) \<Rightarrow> (on_error ''Unable to update code'' callback (Http err), data, srv\<lparr>db := st1\<rparr>)
                | (Inr _, st1) \<Rightarrow>
                    (IoToRoomEmit (room_of sessionId) ''code:update''
                       (CodeUpdate code (Option.bind payload cp_language) sessionId (u_id (sd_user data)) (iso_now clk))
                     # ack callback True None,
                     data, srv\<lparr>db := st1\<rparr>))))"

subsection \<open>code:run\<close>

definition on_code_run ::
  "sandbox_env \<Rightarrow> clock \<Rightarrow> run_payload option \<Rightarrow> bool \<Rightarrow> SocketData \<Rightarrow> server \<Rightarrow> action list \<times> SocketData \<times> server" where
  "on_code_run senv clk payload callback data srv =
     (case truthy (sd_sessionId data) of
        None \<Rightarrow> (on_error ''Unable to run code'' callback
                   (Http (HttpError 400 ''Join a session before running code'' None)), data, srv)
      | Some sessionId \<Rightarrow>
          (case truthy (Option.bind payload rp_code) of
             None \<Rightarrow> (on_error ''Unable to run code'' callback
                        (Http (HttpError 400 ''Code content is required'' None)), data, srv)
           | Some code \<Rightarrow>
               (case call_toLowerCase senv
                       (language_or_default (case payload of None \<Rightarrow> JsUndefined | Some p \<Rightarrow> rp_language p)) of
                  Inl err \<Rightarrow> (on_error ''Unable to run code'' callback (Other err), data, srv)
                | Inr language \<Rightarrow>
                    (case executeCode senv code language (host srv) of
                       (Inl err, w1) \<Rightarrow> (on_error ''Unable to run code'' callback (Other err), data, srv\<lparr>host := w1\<rparr>)
                     | (Inr result, w1) \<Rightarrow>
                         (IoToRoomEmit (room_of sessionId) ''code:run-result''
                            (RunResult (''run-'' @ date_now clk) language (output result) (error result)
                               (executionTime result) (u_id (sd_user data)) (display_name (sd_user data))
                               (u_id (sd_user data)) (iso_now clk))
                          # ack callback True None,
                          data, srv\<lparr>host := w1\<rparr>)))))"

section \<open>A small store, used to run the operations on concrete inputs\<close>

definition outage :: PostgrestError where
  "outage = \<lparr>pg_message = ''connection refused'', pg_details = [], pg_hint = [], pg_code = ''08006''\<rparr>"

definition example_env :: env where
  "example_env =
     \<lparr>fault = (\<lambda>k. None), gen_session_id = ''s2'', gen_invite_code = ''CODE2'',
      gen_status = Scheduled, gen_created_at = 1000,
      omitted_can_edit = False, omitted_can_share_screen = False, now = 2000\<rparr>"

definition example_session :: session where
  "example_session =
     \<lparr>sess_id = ''s1'', title = ''Intro'', status = Scheduled, scheduled_at = None,
      duration_minutes = Some 60, created_at = 10, created_by = ''ann'', summary = None,
      invite_code = ''CODE1'', allow_collab = True, allow_chat = True, allow_video = True,
      metadata = []\<rparr>"

definition ann_row :: participant where
  "ann_row = \<lparr>session_id = ''s1'', user_id = ''ann'', prole = Mentor, kicked_at = None,
     can_edit = True, can_share_screen = True\<rparr>"

definition bob_row :: participant where
  "bob_row = \<lparr>session_id = ''s1'', user_id = ''bob'', prole = Student, kicked_at = None,
     can_edit = True, can_share_screen = False\<rparr>"

definition eve_row :: participant where
  "eve_row = \<lparr>session_id = ''s1'', user_id = ''eve'', prole = Student, kicked_at = Some 500,
     can_edit = False, can_share_screen = False\<rparr>"

definition example_store :: store where
  "example_store =
     \<lparr>mentorship_sessions = [example_session],
      session_participants = [ann_row, bob_row, eve_row],
      session_messages = [], session_code_snapshots = []\<rparr>"

definition example_input :: SessionCreateInput where
  "example_input =
     \<lparr>in_title = ''Pairing'', in_summary = None, in_scheduled_at = None, in_duration_minutes = None,
      in_allow_collab = None, in_allow_chat = Some False, in_allow_video = None, in_metadata = None,
      participantUserIds = Some [''bob'', ''ann'', ''bob'', ''cat'']\<rparr>"

definition example_updates :: SessionUpdateInput where
  "example_updates =
     \<lparr>up_title = Some ''Renamed'', up_summary = Some None, up_scheduled_at = None,
      up_duration_minutes = None, up_status = Some Live, up_allow_collab = None,
      up_allow_chat = None, up_allow_video = None, up_metadata = None\<rparr>"

definition no_updates :: SessionUpdateInput where
  "no_updates =
     \<lparr>up_title = None, up_summary = None, up_scheduled_at = None,
      up_duration_minutes = None, up_status = None, up_allow_collab = None,
      up_allow_chat = None, up_allow_video = None, up_metadata = None\<rparr>"

definition example_changes :: PermissionChanges where
  "example_changes = \<lparr>ch_can_edit = Some True, ch_can_share_screen = None\<rparr>"

definition example_sandbox :: sandbox_env where
  "example_sandbox =
     \<lparr>tmpdir = ''/tmp'', mkdtemp_result = (\<lambda>prefix. Inr (prefix @ ''Ab12Cd'')),
      writeFile_error = None, exec_result = (\<lambda>cmd. Inr (''42'', [])), rm_error = None,
      elapsed = 7, elapsed_total = 9, unicode_lower = (\<lambda>s. s)\<rparr>"

definition disk_full :: JsError where
  "disk_full = JsError ''ENOSPC: no space left on device, write'' None None"

definition empty_world :: world where
  "empty_world = \<lparr>dirs = [], spawned = []\<rparr>"

definition example_server :: server where
  "example_server = \<lparr>db = example_store, host = empty_world, rooms = (\<lambda>room. [])\<rparr>"

definition example_clock :: clock where
  "example_clock = \<lparr>date_now = ''1700000000000'', iso_now = ''2023-11-14T22:13:20.000Z''\<rparr>"

definition bob_socket :: SocketData where
  "bob_socket = \<lparr>sd_user = \<lparr>u_id = ''bob'', u_metadata_name = Some ''Bob'', u_email = None\<rparr>,
     sd_sessionId = None\<rparr>"

definition hi_payload :: chat_payload where
  "hi_payload = \<lparr>cp_id = Some ''m1'', cp_text = Some ''hi'', cp_time = None\<rparr>"

definition run_request :: run_payload where
  "run_request = \<lparr>rp_code = Some ''console.log(42)'', rp_language = JsUndefined\<rparr>"

definition bob_joined :: SocketData where
  "bob_joined = bob_socket\<lparr>sd_sessionId := Some ''s1''\<rparr>"

definition kicked_store :: store where
  "kicked_store = example_store\<lparr>session_participants :=
     [ann_row, bob_row\<lparr>kicked_at := Some 2000, can_edit := False, can_share_screen := False\<rparr>, eve_row]\<rparr>"

definition joined_rooms :: "string \<Rightarrow> string list" where
  "joined_rooms = (\<lambda>room. [])(''session:s1'' := [''socket-bob''])"

text \<open>
  A machine whose Java compiler rejects \<open>Foo.java\<close> and whose \<open>go run\<close> fails after printing;
  every other command prints 42.
\<close>

definition broken_toolchain :: sandbox_env where
  "broken_toolchain = example_sandbox\<lparr>exec_result := (\<lambda>cmd.
     if cmd = ''javac '' @ quoted ''/tmp/java-exec-Ab12Cd/Foo.java''
     then Inl (JsError ''Command failed: javac'' (Some [])
                 (Some (''Foo.java:1: error: reached end of file'' @ [CHR 0x0A])))
     else if cmd = ''go run '' @ quoted ''/tmp/code-exec-Ab12Cd/code.go''
     then Inl (JsError ''Command failed: go run'' (Some ('' partial'' @ [CHR 0x0A])) (Some [CHR 0x0A]))
     else Inr (''42'' @ [CHR 0x0A], []))\<rparr>"

text \<open>Three more \<open>code:run\<close> payloads: a language given by name, a language that is a
  number, and an empty code.\<close>

definition named_request :: run_payload where
  "named_request = \<lparr>rp_code = Some ''console.log(42)'', rp_language = JsString ''JavaScript''\<rparr>"

definition number_request :: run_payload where
  "number_request = \<lparr>rp_code = Some ''console.log(42)'', rp_language = JsOther\<rparr>"

definition empty_request :: run_payload where
  "empty_request = \<lparr>rp_code = Some [], rp_language = JsUndefined\<rparr>"

section \<open>Properties of the participant state machine\<close>

subsection \<open>Lookups in a store that keeps its keys unique\<close>

lemma filter_unique_key:
  "distinct (map k xs) \<Longrightarrow> p \<in> set xs \<Longrightarrow> filter (\<lambda>x. k x = k p) xs = [p]"
proof (induction xs)
  case Nil
  then show ?case by simp
next
  case (Cons a xs)
  show ?case
  proof (cases "a = p")
    case True
    have "\<forall>x \<in> set xs. k x \<noteq> k p" using Cons.prems(1) True by (auto simp: image_iff)
    then have "filter (\<lambda>x. k x = k p) xs = []" by (simp add: filter_empty_conv)
    with True show ?thesis by simp
  next
    case False
    with Cons.prems have "p \<in> set xs" by simp
    moreover from this Cons.prems(1) have "k a \<noteq> k p" by auto
    ultimately show ?thesis using Cons by simp
  qed
qed

lemma filter_singletonD:
  assumes "filter P xs = [p]"
  shows "p \<in> set xs \<and> P p"
proof -
  have "p \<in> set (filter P xs)" using assms by simp
  then show ?thesis by simp
qed

lemma participant_lookup:
  assumes "unique_participants st" "p \<in> set (session_participants st)"
  shows "filter (\<lambda>x. session_id x = session_id p \<and> user_id x = user_id p) (session_participants st) = [p]"
  using filter_unique_key [of "\<lambda>p. (session_id p, user_id p)" "session_participants st" p] assms
  by (simp add: unique_participants_def)

lemma participant_lookup_none:
  assumes "\<forall>p \<in> set (session_participants st). \<not> (session_id p = sid \<and> user_id p = uid)"
  shows "filter (\<lambda>x. session_id x = sid \<and> user_id x = uid) (session_participants st) = []"
  using assms by (simp add: filter_empty_conv)

lemma filter_unique_key_and:
  assumes "distinct (map k xs)" "p \<in> set xs" "Q p"
  shows "filter (\<lambda>x. k x = k p \<and> Q x) xs = [p]"
proof -
  have "filter (\<lambda>x. k x = k p \<and> Q x) xs = filter Q (filter (\<lambda>x. k x = k p) xs)"
    by (simp add: conj_commute)
  also have "\<dots> = filter Q [p]" using filter_unique_key [OF assms(1,2)] by simp
  also have "\<dots> = [p]" using assms(3) by simp
  finally show ?thesis .
qed

lemma session_lookup_by_id:
  assumes "unique_sessions st" "s \<in> set (mentorship_sessions st)"
  shows "filter (\<lambda>x. sess_id x = sess_id s) (mentorship_sessions st) = [s]"
  using filter_unique_key [of sess_id "mentorship_sessions st" s] assms
  by (simp add: unique_sessions_def)

lemma session_lookup_by_code:
  assumes "unique_sessions st" "s \<in> set (mentorship_sessions st)"
  shows "filter (\<lambda>x. invite_code x = invite_code s) (mentorship_sessions st) = [s]"
  using filter_unique_key [of invite_code "mentorship_sessions st" s] assms
  by (simp add: unique_sessions_def)

lemma update_maybeSingle_one:
  "flt = None \<Longrightarrow> filter P rows = [r] \<Longrightarrow>
   update_maybeSingle flt P f rows = (Inr (Some (f r)), map (\<lambda>x. if P x then f x else x) rows)"
  by (simp add: update_maybeSingle_def)

lemma update_maybeSingle_none:
  "flt = None \<Longrightarrow> filter P rows = [] \<Longrightarrow> update_maybeSingle flt P f rows = (Inr None, rows)"
  by (simp add: update_maybeSingle_def)

lemma update_maybeSingle_SomeD:
  assumes "update_maybeSingle flt P f rows = (Inr (Some d), rows')"
  shows "flt = None \<and> (\<exists>r. filter P rows = [r] \<and> d = f r) \<and> rows' = map (\<lambda>x. if P x then f x else x) rows"
  using assms by (auto simp: update_maybeSingle_def split: option.splits list.splits)

lemma example_store_unique: "unique_sessions example_store \<and> unique_participants example_store"
  by (simp add: unique_sessions_def unique_participants_def example_env_def example_session_def ann_row_def bob_row_def eve_row_def example_store_def)

subsection \<open>createSession\<close>

lemma distinct_array_from_set: "distinct (array_from_set xs)"
  by (simp add: array_from_set_def)

lemma set_array_from_set: "set (array_from_set xs) = set xs"
  by (simp add: array_from_set_def)

lemma uniqueStudentIds_set:
  "set (uniqueStudentIds mentorId input) =
     {i \<in> set (nullish (participantUserIds input) []). i \<noteq> [] \<and> i \<noteq> mentorId}"
  by (auto simp: uniqueStudentIds_def set_array_from_set)

lemma createSession_ok:
  assumes "fault env 0 = None" "fault env 1 = None"
  shows "createSession env mentorId input st =
     (Inr (sessionPayload env mentorId input),
      st\<lparr>mentorship_sessions := mentorship_sessions st @ [sessionPayload env mentorId input],
         session_participants := session_participants st @
            participantRows env (gen_session_id env) mentorId input\<rparr>)"
  using assms by (simp add: createSession_def insert_rows_def Let_def sessionPayload_def)

lemma createSession_success_answered:
  assumes "fst (createSession env mentorId input st) = Inr s"
  shows "fault env 0 = None \<and> fault env 1 = None"
  using assms by (auto simp: createSession_def insert_rows_def Let_def split: option.splits)

lemma createSession_attach_failed:
  assumes "fault env 0 = None" "fault env 1 = Some e"
  shows "createSession env mentorId input st =
     (Inl (HttpError 500 ''Unable to attach participants'' (formatPostgrestError (Some e))),
      st\<lparr>mentorship_sessions :=
           snd (delete_rows (fault env 2) (\<lambda>s. sess_id s = gen_session_id env)
                  (mentorship_sessions st @ [sessionPayload env mentorId input]))\<rparr>)"
  using assms by (simp add: createSession_def insert_rows_def Let_def sessionPayload_def)

text \<open>
  Claim C1, as the code has it. A successful \<open>createSession\<close> returns the new session row,
  and the rows it adds to \<open>session_participants\<close> are exactly: the owner's row, with role
  mentor and \<open>can_edit = can_share_screen = true\<close>, followed by one student row for each
  requested id that is neither empty nor the owner's, each once. It does succeed when the
  two inserts are answered. When the participant insert fails after the session insert
  was answered, \<open>createSession\<close> fails with 500, adds no participant row, and issues the
  compensating delete; if that delete is answered, no session row with the new id is
  left. (The outcome of the delete is not inspected by the code.)
\<close>

theorem createSession_participants_and_rollback:
  "(fault env 0 = None \<and> fault env 1 = None \<longrightarrow>
      (\<exists>s. fst (createSession env mentorId input st) = Inr s))
   \<and> (\<forall>s. fst (createSession env mentorId input st) = Inr s \<longrightarrow>
        s = sessionPayload env mentorId input \<and> created_by s = mentorId \<and>
        mentorship_sessions (snd (createSession env mentorId input st)) = mentorship_sessions st @ [s] \<and>
        session_participants (snd (createSession env mentorId input st)) =
          session_participants st @
            \<lparr>session_id = sess_id s, user_id = mentorId, prole = Mentor, kicked_at = None,
              can_edit = True, can_share_screen = True\<rparr>
            # map (\<lambda>userId. plain_row env (sess_id s) userId Student) (uniqueStudentIds mentorId input) \<and>
        distinct (uniqueStudentIds mentorId input) \<and>
        set (uniqueStudentIds mentorId input) =
          {i \<in> set (nullish (participantUserIds input) []). i \<noteq> [] \<and> i \<noteq> mentorId})
   \<and> (fault env 0 = None \<and> fault env 1 \<noteq> None \<longrightarrow>
        (\<exists>d. fst (createSession env mentorId input st) = Inl (HttpError 500 ''Unable to attach participants'' d)) \<and>
        session_participants (snd (createSession env mentorId input st)) = session_participants st \<and>
        (fault env 2 = None \<longrightarrow>
           (\<forall>s \<in> set (mentorship_sessions (snd (createSession env mentorId input st))). sess_id s \<noteq> gen_session_id env)))"
proof (intro conjI allI impI ballI)
  assume "fault env 0 = None \<and> fault env 1 = None"
  then show "\<exists>s. fst (createSession env mentorId input st) = Inr s"
    by (simp add: createSession_ok)
next
  fix s assume ok: "fst (createSession env mentorId input st) = Inr s"
  note ans = createSession_success_answered [OF ok]
  note eq = createSession_ok [of env mentorId input st]
  from ok ans eq have sp: "s = sessionPayload env mentorId input" by simp
  then have sid: "sess_id s = gen_session_id env" by (simp add: sessionPayload_def)
  show "s = sessionPayload env mentorId input" by (rule sp)
  from sp show "created_by s = mentorId" by (simp add: sessionPayload_def)
  from ans eq show "mentorship_sessions (snd (createSession env mentorId input st)) = mentorship_sessions st @ [s]"
    by (simp add: sp)
  from ans eq show "session_participants (snd (createSession env mentorId input st)) =
          session_participants st @
            \<lparr>session_id = sess_id s, user_id = mentorId, prole = Mentor, kicked_at = None,
              can_edit = True, can_share_screen = True\<rparr>
            # map (\<lambda>userId. plain_row env (sess_id s) userId Student) (uniqueStudentIds mentorId input)"
    by (simp add: sid participantRows_def mentor_row_def)
  show "distinct (uniqueStudentIds mentorId input)"
    by (simp add: uniqueStudentIds_def distinct_array_from_set)
  show "set (uniqueStudentIds mentorId input) =
          {i \<in> set (nullish (participantUserIds input) []). i \<noteq> [] \<and> i \<noteq> mentorId}"
    by (rule uniqueStudentIds_set)
next
  assume f: "fault env 0 = None \<and> fault env 1 \<noteq> None"
  then obtain e where e: "fault env 1 = Some e" by auto
  note eq = createSession_attach_failed [of env e mentorId input st]
  from f e eq show "\<exists>d. fst (createSession env mentorId input st) = Inl (HttpError 500 ''Unable to attach participants'' d)"
    by simp
  from f e eq show "session_participants (snd (createSession env mentorId input st)) = session_participants st"
    by simp
  {
    fix s
    assume d: "fault env 2 = None" and s: "s \<in> set (mentorship_sessions (snd (createSession env mentorId input st)))"
    from f e eq d have "mentorship_sessions (snd (createSession env mentorId input st)) =
        filter (\<lambda>x. \<not> sess_id x = gen_session_id env)
          (mentorship_sessions st @ [sessionPayload env mentorId input])"
      by (simp add: delete_rows_def del: filter_append filter.simps)
    with s have "s \<in> set (filter (\<lambda>x. \<not> sess_id x = gen_session_id env)
          (mentorship_sessions st @ [sessionPayload env mentorId input]))"
      by simp
    then show "sess_id s \<noteq> gen_session_id env"
      by (simp del: filter_append filter.simps)
  }
qed

text \<open>
  The theorem on the small store: the requested ids \<open>bob, ann, bob, cat\<close> of owner \<open>ann\<close>
  give the rows for \<open>ann\<close> (mentor), \<open>bob\<close> and \<open>cat\<close>; and with a failing participant
  insert and an answered delete, only the old session \<open>s1\<close> is left.
\<close>

theorem createSession_participants_and_rollback_witness:
  "fst (createSession example_env ''ann'' example_input example_store) =
     Inr (sessionPayload example_env ''ann'' example_input) \<and>
   session_participants (snd (createSession example_env ''ann'' example_input example_store)) =
     [ann_row, bob_row, eve_row,
      \<lparr>session_id = ''s2'', user_id = ''ann'', prole = Mentor, kicked_at = None, can_edit = True, can_share_screen = True\<rparr>,
      \<lparr>session_id = ''s2'', user_id = ''bob'', prole = Student, kicked_at = None, can_edit = False, can_share_screen = False\<rparr>,
      \<lparr>session_id = ''s2'', user_id = ''cat'', prole = Student, kicked_at = None, can_edit = False, can_share_screen = False\<rparr>] \<and>
   fault (example_env\<lparr>fault := (\<lambda>k. if k = 1 then Some outage else None)\<rparr>) 1 \<noteq> None \<and>
   fault (example_env\<lparr>fault := (\<lambda>k. if k = 1 then Some outage else None)\<rparr>) 2 = None \<and>
   map sess_id (mentorship_sessions (snd (createSession
      (example_env\<lparr>fault := (\<lambda>k. if k = 1 then Some outage else None)\<rparr>) ''ann'' example_input example_store))) = [''s1'']"
proof -
  let ?bad = "example_env\<lparr>fault := (\<lambda>k. if k = 1 then Some outage else None)\<rparr>"
  note t = createSession_participants_and_rollback [of example_env "''ann''" example_input example_store]
  note r = createSession_participants_and_rollback [of ?bad "''ann''" example_input example_store]
  have a: "fault example_env 0 = None \<and> fault example_env 1 = None" by (simp add: example_env_def)
  with t obtain s where s: "fst (createSession example_env ''ann'' example_input example_store) = Inr s"
    by blast
  with t have sp: "s = sessionPayload example_env ''ann'' example_input"
    and ps: "session_participants (snd (createSession example_env ''ann'' example_input example_store)) =
          session_participants example_store @
            \<lparr>session_id = sess_id s, user_id = ''ann'', prole = Mentor, kicked_at = None,
              can_edit = True, can_share_screen = True\<rparr>
            # map (\<lambda>userId. plain_row example_env (sess_id s) userId Student) (uniqueStudentIds ''ann'' example_input)"
    by blast+
  have ids: "uniqueStudentIds ''ann'' example_input = [''bob'', ''cat'']"
    by (simp add: uniqueStudentIds_def array_from_set_def nullish_def example_input_def)
  have c1: "fst (createSession example_env ''ann'' example_input example_store) =
     Inr (sessionPayload example_env ''ann'' example_input)"
    using s sp by simp
  have c2: "session_participants (snd (createSession example_env ''ann'' example_input example_store)) =
     [ann_row, bob_row, eve_row,
      \<lparr>session_id = ''s2'', user_id = ''ann'', prole = Mentor, kicked_at = None, can_edit = True, can_share_screen = True\<rparr>,
      \<lparr>session_id = ''s2'', user_id = ''bob'', prole = Student, kicked_at = None, can_edit = False, can_share_screen = False\<rparr>,
      \<lparr>session_id = ''s2'', user_id = ''cat'', prole = Student, kicked_at = None, can_edit = False, can_share_screen = False\<rparr>]"
    unfolding ps ids sp by (simp add: sessionPayload_def plain_row_def example_env_def example_store_def)
  have f: "fault ?bad 0 = None \<and> fault ?bad 1 \<noteq> None" and f2: "fault ?bad 2 = None"
    by (simp_all add: example_env_def)
  from r f f2 have gone: "\<forall>s \<in> set (mentorship_sessions (snd (createSession ?bad ''ann'' example_input example_store))).
      sess_id s \<noteq> gen_session_id ?bad"
    by blast
  have c3: "map sess_id (mentorship_sessions (snd (createSession ?bad ''ann'' example_input example_store))) = [''s1'']"
    by (simp add: createSession_def insert_rows_def delete_rows_def sessionPayload_def example_env_def example_session_def ann_row_def bob_row_def eve_row_def example_store_def example_input_def outage_def)
  from c1 c2 f f2 c3 show ?thesis by blast
qed

text \<open>
  Claim C1 as worded does not hold on two inputs. An empty string among the requested
  ids is not the owner's id and survives deduplication, yet gets no row: the filter
  \<open>id && id !== mentorId\<close> drops it. And when the store fails the participant insert and the
  compensating delete as well, \<open>createSession\<close> fails with 500 while the new session row
  is still there.
\<close>

theorem createSession_claim_counterexample:
  "fst (createSession example_env ''ann'' (example_input\<lparr>participantUserIds := Some ['''', ''bob'']\<rparr>) example_store) =
     Inr (sessionPayload example_env ''ann'' example_input) \<and>
   '''' \<in> set (remdups (filter (\<lambda>i. i \<noteq> ''ann'') ['''', ''bob''])) \<and>
   \<not> (\<exists>p \<in> set (session_participants (snd (createSession example_env ''ann''
          (example_input\<lparr>participantUserIds := Some ['''', ''bob'']\<rparr>) example_store))).
        session_id p = ''s2'' \<and> user_id p = '''') \<and>
   fst (createSession (example_env\<lparr>fault := (\<lambda>k. if k = 0 then None else Some outage)\<rparr>) ''ann'' example_input example_store) =
     Inl (HttpError 500 ''Unable to attach participants'' (Some outage)) \<and>
   (\<exists>s \<in> set (mentorship_sessions (snd (createSession
        (example_env\<lparr>fault := (\<lambda>k. if k = 0 then None else Some outage)\<rparr>) ''ann'' example_input example_store))).
      sess_id s = gen_session_id example_env)"
  by (simp add: createSession_def insert_rows_def delete_rows_def sessionPayload_def participantRows_def
      uniqueStudentIds_def array_from_set_def nullish_def mentor_row_def plain_row_def
      formatPostgrestError_def sanitizeMetadata_def example_env_def example_session_def ann_row_def bob_row_def eve_row_def example_store_def example_input_def outage_def)

subsection \<open>ensureSessionParticipant\<close>

text \<open>
  Claim C2. Whatever \<open>ensureSessionParticipant\<close> returns is a row of the pair whose
  \<open>kicked_at\<close> is unset. In a store that keeps one row per (session, user) pair and answers
  the lookup, it returns that row whenever there is one, fails with 403 when the pair
  has no row, and fails with 403 when the row of the pair is kicked. The store is the
  same afterwards in every case.
\<close>

theorem ensureSessionParticipant_admission:
  "(\<forall>p. fst (ensureSessionParticipant env userId sessionId st) = Inr p \<longrightarrow>
        p \<in> set (session_participants st) \<and> session_id p = sessionId \<and> user_id p = userId \<and>
        kicked_at p = None)
   \<and> (fault env 0 = None \<and> unique_participants st \<longrightarrow>
        (\<forall>p. p \<in> set (session_participants st) \<and> session_id p = sessionId \<and> user_id p = userId \<and>
              kicked_at p = None \<longrightarrow>
           fst (ensureSessionParticipant env userId sessionId st) = Inr p)
      \<and> ((\<forall>p \<in> set (session_participants st). \<not> (session_id p = sessionId \<and> user_id p = userId)) \<longrightarrow>
           fst (ensureSessionParticipant env userId sessionId st) =
             Inl (HttpError 403 ''You are not a participant in this session'' None))
      \<and> ((\<exists>p \<in> set (session_participants st).
             session_id p = sessionId \<and> user_id p = userId \<and> kicked_at p \<noteq> None) \<longrightarrow>
           fst (ensureSessionParticipant env userId sessionId st) =
             Inl (HttpError 403 ''You have been removed from this session'' None)))
   \<and> snd (ensureSessionParticipant env userId sessionId st) = st"
proof -
  let ?rows = "filter (\<lambda>p. session_id p = sessionId \<and> user_id p = userId) (session_participants st)"
  have found: "?rows = [p]"
    if "unique_participants st" "p \<in> set (session_participants st)" "session_id p = sessionId" "user_id p = userId" for p
    using participant_lookup [OF that(1,2)] that(3,4) by simp
  have c1: "p \<in> set (session_participants st) \<and> session_id p = sessionId \<and> user_id p = userId \<and> kicked_at p = None"
    if ok: "fst (ensureSessionParticipant env userId sessionId st) = Inr p" for p
  proof -
    from ok have r: "?rows = [p] \<and> kicked_at p = None"
      by (auto simp: ensureSessionParticipant_def maybeSingle_def split: option.splits list.splits if_splits)
    then have "p \<in> set (session_participants st) \<and> session_id p = sessionId \<and> user_id p = userId"
      using filter_singletonD [of "\<lambda>p. session_id p = sessionId \<and> user_id p = userId" "session_participants st" p]
      by blast
    with r show ?thesis by simp
  qed
  have c2: "fst (ensureSessionParticipant env userId sessionId st) = Inr p"
    if "fault env 0 = None" "unique_participants st"
      "p \<in> set (session_participants st) \<and> session_id p = sessionId \<and> user_id p = userId \<and> kicked_at p = None" for p
    using that(1,3) found [of p] that(2) by (simp add: ensureSessionParticipant_def maybeSingle_def)
  have c3: "fst (ensureSessionParticipant env userId sessionId st) =
              Inl (HttpError 403 ''You are not a participant in this session'' None)"
    if "fault env 0 = None" "\<forall>p \<in> set (session_participants st). \<not> (session_id p = sessionId \<and> user_id p = userId)"
    using that(1) participant_lookup_none [OF that(2)]
    by (simp add: ensureSessionParticipant_def maybeSingle_def)
  have c4: "fst (ensureSessionParticipant env userId sessionId st) =
              Inl (HttpError 403 ''You have been removed from this session'' None)"
    if "fault env 0 = None" "unique_participants st"
      "\<exists>p \<in> set (session_participants st). session_id p = sessionId \<and> user_id p = userId \<and> kicked_at p \<noteq> None"
  proof -
    from that(3) obtain p where p: "p \<in> set (session_participants st)" "session_id p = sessionId"
        "user_id p = userId" "kicked_at p \<noteq> None"
      by blast
    show ?thesis
      using that(1) found [OF that(2) p(1-3)] p(4) by (auto simp add: ensureSessionParticipant_def maybeSingle_def)
  qed
  have c5: "snd (ensureSessionParticipant env userId sessionId st) = st"
    by (simp add: ensureSessionParticipant_def split: sum.splits option.splits)
  show ?thesis
  proof (intro conjI allI impI)
    fix p assume "fst (ensureSessionParticipant env userId sessionId st) = Inr p"
    from c1 [OF this]
    show "p \<in> set (session_participants st)" "session_id p = sessionId" "user_id p = userId" "kicked_at p = None"
      by simp_all
  next
    fix p
    assume "fault env 0 = None \<and> unique_participants st"
      and "p \<in> set (session_participants st) \<and> session_id p = sessionId \<and> user_id p = userId \<and> kicked_at p = None"
    then show "fst (ensureSessionParticipant env userId sessionId st) = Inr p"
      using c2 by blast
  next
    assume "fault env 0 = None \<and> unique_participants st"
      and "\<forall>p \<in> set (session_participants st). \<not> (session_id p = sessionId \<and> user_id p = userId)"
    then show "fst (ensureSessionParticipant env userId sessionId st) =
             Inl (HttpError 403 ''You are not a participant in this session'' None)"
      using c3 by blast
  next
    assume "fault env 0 = None \<and> unique_participants st"
      and "\<exists>p \<in> set (session_participants st).
             session_id p = sessionId \<and> user_id p = userId \<and> kicked_at p \<noteq> None"
    then show "fst (ensureSessionParticipant env userId sessionId st) =
             Inl (HttpError 403 ''You have been removed from this session'' None)"
      using c4 by blast
  next
    show "snd (ensureSessionParticipant env userId sessionId st) = st" by (rule c5)
  qed
qed

text \<open>On the small store: \<open>bob\<close> is admitted, \<open>eve\<close> (kicked) and \<open>dan\<close> (no row) are refused with 403.\<close>

theorem ensureSessionParticipant_admission_witness:
  "fault example_env 0 = None \<and> unique_participants example_store \<and>
   fst (ensureSessionParticipant example_env ''bob'' ''s1'' example_store) = Inr bob_row \<and>
   fst (ensureSessionParticipant example_env ''eve'' ''s1'' example_store) =
     Inl (HttpError 403 ''You have been removed from this session'' None) \<and>
   fst (ensureSessionParticipant example_env ''dan'' ''s1'' example_store) =
     Inl (HttpError 403 ''You are not a participant in this session'' None) \<and>
   snd (ensureSessionParticipant example_env ''eve'' ''s1'' example_store) = example_store"
proof -
  have a: "fault example_env 0 = None" by (simp add: example_env_def)
  have u: "unique_participants example_store"
    by (simp add: unique_participants_def ann_row_def bob_row_def eve_row_def example_store_def)
  note t = ensureSessionParticipant_admission [of example_env _ "''s1''" example_store]
  have "bob_row \<in> set (session_participants example_store) \<and> session_id bob_row = ''s1'' \<and>
        user_id bob_row = ''bob'' \<and> kicked_at bob_row = None"
    by (simp add: bob_row_def example_store_def)
  with t [of "''bob''"] a u have b: "fst (ensureSessionParticipant example_env ''bob'' ''s1'' example_store) = Inr bob_row"
    by blast
  have "\<exists>p \<in> set (session_participants example_store). session_id p = ''s1'' \<and> user_id p = ''eve'' \<and> kicked_at p \<noteq> None"
    by (simp add: ann_row_def bob_row_def eve_row_def example_store_def)
  with t [of "''eve''"] a u have e: "fst (ensureSessionParticipant example_env ''eve'' ''s1'' example_store) =
     Inl (HttpError 403 ''You have been removed from this session'' None)"
    by blast
  have "\<forall>p \<in> set (session_participants example_store). \<not> (session_id p = ''s1'' \<and> user_id p = ''dan'')"
    by (simp add: ann_row_def bob_row_def eve_row_def example_store_def)
  with t [of "''dan''"] a u have d: "fst (ensureSessionParticipant example_env ''dan'' ''s1'' example_store) =
     Inl (HttpError 403 ''You are not a participant in this session'' None)"
    by blast
  from t [of "''eve''"] have s: "snd (ensureSessionParticipant example_env ''eve'' ''s1'' example_store) = example_store"
    by blast
  from a u b e d s show ?thesis by blast
qed

subsection \<open>joinSessionByCode\<close>

lemma join_not_found:
  assumes "fault env 0 = None" "\<forall>s \<in> set (mentorship_sessions st). invite_code s \<noteq> inviteCode"
  shows "joinSessionByCode env userId inviteCode st = (Inl (HttpError 404 ''No session found for that code'' None), st)"
proof -
  have "filter (\<lambda>s. invite_code s = inviteCode) (mentorship_sessions st) = []"
    using assms(2) by (simp add: filter_empty_conv)
  then show ?thesis using assms(1) by (simp add: joinSessionByCode_def maybeSingle_def)
qed

lemma join_found:
  assumes "unique_sessions st" "fault env 0 = None" "s \<in> set (mentorship_sessions st)" "invite_code s = inviteCode"
  shows "maybeSingle (fault env 0) (filter (\<lambda>s. invite_code s = inviteCode) (mentorship_sessions st)) = Inr (Some s)"
  using session_lookup_by_code [OF assms(1,3)] assms(2,4) by (simp add: maybeSingle_def)

lemma join_closed:
  assumes "unique_sessions st" "fault env 0 = None" "s \<in> set (mentorship_sessions st)" "invite_code s = inviteCode"
    and "status s = Completed \<or> status s = Cancelled"
  shows "joinSessionByCode env userId inviteCode st =
     (Inl (HttpError 400 ''This session is no longer accepting participants'' None), st)"
  using join_found [OF assms(1-4)] assms(5) by (auto simp add: joinSessionByCode_def)

lemma join_existing:
  assumes "unique_sessions st" "unique_participants st" "fault env 0 = None" "fault env 1 = None"
    and "s \<in> set (mentorship_sessions st)" "invite_code s = inviteCode"
    and "status s \<noteq> Completed" "status s \<noteq> Cancelled"
    and "p \<in> set (session_participants st)" "session_id p = sess_id s" "user_id p = userId"
  shows "joinSessionByCode env userId inviteCode st =
     (if kicked_at p = None then (Inr s, st)
      else (Inl (HttpError 403 ''You have been removed from this session'' None), st))"
proof -
  have "filter (\<lambda>x. session_id x = sess_id s \<and> user_id x = userId) (session_participants st) = [p]"
    using participant_lookup [OF assms(2,9)] assms(10,11) by simp
  then show ?thesis
    using join_found [OF assms(1,3,5,6)] assms(4,7,8)
    by (simp add: joinSessionByCode_def maybeSingle_def)
qed

lemma join_new:
  assumes "unique_sessions st" "fault env 0 = None" "fault env 1 = None" "fault env 2 = None"
    and "s \<in> set (mentorship_sessions st)" "invite_code s = inviteCode"
    and "status s \<noteq> Completed" "status s \<noteq> Cancelled"
    and "\<forall>p \<in> set (session_participants st). \<not> (session_id p = sess_id s \<and> user_id p = userId)"
  shows "joinSessionByCode env userId inviteCode st =
     (Inr s, st\<lparr>session_participants := session_participants st @
        [\<lparr>session_id = sess_id s, user_id = userId,
          prole = (if userId = created_by s then Mentor else Student), kicked_at = None,
          can_edit = omitted_can_edit env, can_share_screen = omitted_can_share_screen env\<rparr>]\<rparr>)"
proof -
  have "filter (\<lambda>x. session_id x = sess_id s \<and> user_id x = userId) (session_participants st) = []"
    using assms(9) by (simp add: filter_empty_conv)
  then show ?thesis
    using join_found [OF assms(1,2,5,6)] assms(3,4,7,8)
    by (simp add: joinSessionByCode_def maybeSingle_def insert_rows_def plain_row_def)
qed

text \<open>
  Claim C3. In a store that keeps its keys unique and answers the lookups:
  \<open>joinSessionByCode\<close> fails with 404 when no session has the invite code; fails with 400
  when the session is completed or cancelled; returns the session and leaves the store as
  it is when the user has a row that is not kicked; fails with 403 when that row is
  kicked; and otherwise, the insert being answered, appends exactly one row, with role
  mentor if the user is the session's creator and student if not.
\<close>

theorem joinSessionByCode_outcomes:
  assumes "unique_sessions st" and "unique_participants st" and "fault env 0 = None"
  shows "((\<forall>s \<in> set (mentorship_sessions st). invite_code s \<noteq> inviteCode) \<longrightarrow>
            joinSessionByCode env userId inviteCode st =
              (Inl (HttpError 404 ''No session found for that code'' None), st))
       \<and> (\<forall>s. s \<in> set (mentorship_sessions st) \<and> invite_code s = inviteCode \<longrightarrow>
            (status s = Completed \<or> status s = Cancelled \<longrightarrow>
               joinSessionByCode env userId inviteCode st =
                 (Inl (HttpError 400 ''This session is no longer accepting participants'' None), st))
          \<and> (status s \<noteq> Completed \<and> status s \<noteq> Cancelled \<and> fault env 1 = None \<longrightarrow>
               (\<forall>p. p \<in> set (session_participants st) \<and> session_id p = sess_id s \<and> user_id p = userId \<longrightarrow>
                  (kicked_at p = None \<longrightarrow> joinSessionByCode env userId inviteCode st = (Inr s, st))
                \<and> (kicked_at p \<noteq> None \<longrightarrow>
                     joinSessionByCode env userId inviteCode st =
                       (Inl (HttpError 403 ''You have been removed from this session'' None), st)))
             \<and> ((\<forall>p \<in> set (session_participants st). \<not> (session_id p = sess_id s \<and> user_id p = userId))
                   \<and> fault env 2 = None \<longrightarrow>
                  joinSessionByCode env userId inviteCode st =
                    (Inr s, st\<lparr>session_participants := session_participants st @
                       [\<lparr>session_id = sess_id s, user_id = userId,
                         prole = (if userId = created_by s then Mentor else Student), kicked_at = None,
                         can_edit = omitted_can_edit env,
                         can_share_screen = omitted_can_share_screen env\<rparr>]\<rparr>))))"
proof (intro conjI allI impI)
  assume "\<forall>s \<in> set (mentorship_sessions st). invite_code s \<noteq> inviteCode"
  then show "joinSessionByCode env userId inviteCode st =
              (Inl (HttpError 404 ''No session found for that code'' None), st)"
    using assms(3) by (simp add: join_not_found)
next
  fix s assume s: "s \<in> set (mentorship_sessions st) \<and> invite_code s = inviteCode"
    and c: "status s = Completed \<or> status s = Cancelled"
  then show "joinSessionByCode env userId inviteCode st =
                 (Inl (HttpError 400 ''This session is no longer accepting participants'' None), st)"
    using join_closed [OF assms(1,3)] by blast
next
  fix s p assume s: "s \<in> set (mentorship_sessions st) \<and> invite_code s = inviteCode"
    and o: "status s \<noteq> Completed \<and> status s \<noteq> Cancelled \<and> fault env 1 = None"
    and p: "p \<in> set (session_participants st) \<and> session_id p = sess_id s \<and> user_id p = userId"
  have e: "joinSessionByCode env userId inviteCode st =
     (if kicked_at p = None then (Inr s, st)
      else (Inl (HttpError 403 ''You have been removed from this session'' None), st))"
    using join_existing [OF assms(1,2,3)] s o p by blast
  {
    assume "kicked_at p = None"
    with e show "joinSessionByCode env userId inviteCode st = (Inr s, st)" by simp
  }
  {
    assume "kicked_at p \<noteq> None"
    with e show "joinSessionByCode env userId inviteCode st =
                       (Inl (HttpError 403 ''You have been removed from this session'' None), st)"
      by simp
  }
next
  fix s assume s: "s \<in> set (mentorship_sessions st) \<and> invite_code s = inviteCode"
    and o: "status s \<noteq> Completed \<and> status s \<noteq> Cancelled \<and> fault env 1 = None"
    and n: "(\<forall>p \<in> set (session_participants st). \<not> (session_id p = sess_id s \<and> user_id p = userId))
                   \<and> fault env 2 = None"
  show "joinSessionByCode env userId inviteCode st =
                    (Inr s, st\<lparr>session_participants := session_participants st @
                       [\<lparr>session_id = sess_id s, user_id = userId,
                         prole = (if userId = created_by s then Mentor else Student), kicked_at = None,
                         can_edit = omitted_can_edit env,
                         can_share_screen = omitted_can_share_screen env\<rparr>]\<rparr>)"
    using join_new [OF assms(1,3)] s o n by blast
qed

text \<open>
  On the small store: an unknown code, \<open>bob\<close> joining again, \<open>eve\<close> joining after being
  kicked, and \<open>dan\<close> joining for the first time.
\<close>

theorem joinSessionByCode_outcomes_witness:
  "unique_sessions example_store \<and> unique_participants example_store \<and> fault example_env 0 = None \<and>
   joinSessionByCode example_env ''dan'' ''NOPE'' example_store =
     (Inl (HttpError 404 ''No session found for that code'' None), example_store) \<and>
   joinSessionByCode example_env ''bob'' ''CODE1'' example_store = (Inr example_session, example_store) \<and>
   joinSessionByCode example_env ''eve'' ''CODE1'' example_store =
     (Inl (HttpError 403 ''You have been removed from this session'' None), example_store) \<and>
   joinSessionByCode example_env ''dan'' ''CODE1'' example_store =
     (Inr example_session,
      example_store\<lparr>session_participants := [ann_row, bob_row, eve_row,
        \<lparr>session_id = ''s1'', user_id = ''dan'', prole = Student, kicked_at = None,
          can_edit = False, can_share_screen = False\<rparr>]\<rparr>)"
proof -
  have a: "fault example_env 0 = None" by (simp add: example_env_def)
  note u = example_store_unique
  note t = joinSessionByCode_outcomes [OF conjunct1 [OF u] conjunct2 [OF u] a]
  have f: "fault example_env 1 = None" "fault example_env 2 = None" by (simp_all add: example_env_def)
  have s: "example_session \<in> set (mentorship_sessions example_store) \<and> invite_code example_session = ''CODE1''
      \<and> status example_session \<noteq> Completed \<and> status example_session \<noteq> Cancelled"
    by (simp add: example_env_def example_session_def ann_row_def bob_row_def eve_row_def example_store_def)
  have "\<forall>s \<in> set (mentorship_sessions example_store). invite_code s \<noteq> ''NOPE''"
    by (simp add: example_env_def example_session_def ann_row_def bob_row_def eve_row_def example_store_def)
  with t [of "''NOPE''" "''dan''"] have c1: "joinSessionByCode example_env ''dan'' ''NOPE'' example_store =
     (Inl (HttpError 404 ''No session found for that code'' None), example_store)"
    by blast
  have "bob_row \<in> set (session_participants example_store) \<and> session_id bob_row = sess_id example_session \<and>
        user_id bob_row = ''bob'' \<and> kicked_at bob_row = None"
    by (simp add: example_env_def example_session_def ann_row_def bob_row_def eve_row_def example_store_def)
  with t [of "''CODE1''" "''bob''"] s f have c2:
    "joinSessionByCode example_env ''bob'' ''CODE1'' example_store = (Inr example_session, example_store)"
    by blast
  have "eve_row \<in> set (session_participants example_store) \<and> session_id eve_row = sess_id example_session \<and>
        user_id eve_row = ''eve'' \<and> kicked_at eve_row \<noteq> None"
    by (simp add: example_env_def example_session_def ann_row_def bob_row_def eve_row_def example_store_def)
  with t [of "''CODE1''" "''eve''"] s f have c3:
    "joinSessionByCode example_env ''eve'' ''CODE1'' example_store =
     (Inl (HttpError 403 ''You have been removed from this session'' None), example_store)"
    by blast
  have "\<forall>p \<in> set (session_participants example_store). \<not> (session_id p = sess_id example_session \<and> user_id p = ''dan'')"
    by (simp add: example_env_def example_session_def ann_row_def bob_row_def eve_row_def example_store_def)
  with t [of "''CODE1''" "''dan''"] s f have
    "joinSessionByCode example_env ''dan'' ''CODE1'' example_store =
       (Inr example_session, example_store\<lparr>session_participants := session_participants example_store @
          [\<lparr>session_id = sess_id example_session, user_id = ''dan'',
            prole = (if ''dan'' = created_by example_session then Mentor else Student), kicked_at = None,
            can_edit = omitted_can_edit example_env,
            can_share_screen = omitted_can_share_screen example_env\<rparr>]\<rparr>)"
    by blast
  then have c4: "joinSessionByCode example_env ''dan'' ''CODE1'' example_store =
     (Inr example_session,
      example_store\<lparr>session_participants := [ann_row, bob_row, eve_row,
        \<lparr>session_id = ''s1'', user_id = ''dan'', prole = Student, kicked_at = None,
          can_edit = False, can_share_screen = False\<rparr>]\<rparr>)"
    by (simp add: example_env_def example_session_def example_store_def)
  from u a c1 c2 c3 c4 show ?thesis by blast
qed

subsection \<open>kickParticipant\<close>

lemma owner_found:
  assumes "unique_sessions st" "flt = None" "s \<in> set (mentorship_sessions st)" "sess_id s = sessionId"
  shows "ensureSessionExistsWithOwner flt sessionId st = Inr s"
  using session_lookup_by_id [OF assms(1,3)] assms(2,4)
  by (simp add: ensureSessionExistsWithOwner_def maybeSingle_def)

lemma kick_not_owner:
  assumes "unique_sessions st" "fault env 0 = None" "s \<in> set (mentorship_sessions st)" "sess_id s = sessionId"
    and "created_by s \<noteq> mentorId"
  shows "kickParticipant env mentorId sessionId targetUserId st =
     (Inl (HttpError 403 ''Only the session creator can remove participants'' None), st)"
  using owner_found [OF assms(1-4)] assms(5) by (simp add: kickParticipant_def)

lemma kick_self:
  assumes "unique_sessions st" "fault env 0 = None" "s \<in> set (mentorship_sessions st)" "sess_id s = sessionId"
    and "created_by s = mentorId" "targetUserId = mentorId"
  shows "kickParticipant env mentorId sessionId targetUserId st =
     (Inl (HttpError 400 ''You cannot remove yourself from your own session'' None), st)"
  using owner_found [OF assms(1-4)] assms(5,6) by (simp add: kickParticipant_def)

lemma kick_update:
  assumes "unique_sessions st" "fault env 0 = None" "s \<in> set (mentorship_sessions st)" "sess_id s = sessionId"
    and "created_by s = mentorId" "targetUserId \<noteq> mentorId"
  shows "kickParticipant env mentorId sessionId targetUserId st =
     (case update_maybeSingle (fault env 1)
             (\<lambda>p. session_id p = sessionId \<and> user_id p = targetUserId \<and> kicked_at p = None)
             (\<lambda>p. p\<lparr>kicked_at := Some (now env), can_edit := False, can_share_screen := False\<rparr>)
             (session_participants st) of
        (Inl e, _) \<Rightarrow> (Inl (HttpError 500 ''Unable to remove participant'' (formatPostgrestError (Some e))), st)
      | (Inr None, _) \<Rightarrow> (Inl (HttpError 404 ''Participant not found or already removed'' None), st)
      | (Inr (Some _), rows) \<Rightarrow> (Inr True, st\<lparr>session_participants := rows\<rparr>))"
  using owner_found [OF assms(1-4)] assms(5,6) by (simp add: kickParticipant_def)

lemma kick_active:
  assumes "unique_sessions st" "unique_participants st" "fault env 0 = None" "fault env 1 = None"
    and "s \<in> set (mentorship_sessions st)" "sess_id s = sessionId"
    and "created_by s = mentorId" "targetUserId \<noteq> mentorId"
    and "p \<in> set (session_participants st)" "session_id p = sessionId" "user_id p = targetUserId"
        "kicked_at p = None"
  shows "kickParticipant env mentorId sessionId targetUserId st =
     (Inr True, st\<lparr>session_participants :=
        map (\<lambda>x. if session_id x = sessionId \<and> user_id x = targetUserId \<and> kicked_at x = None
                 then x\<lparr>kicked_at := Some (now env), can_edit := False, can_share_screen := False\<rparr> else x)
            (session_participants st)\<rparr>)"
proof -
  have "filter (\<lambda>x. (session_id x, user_id x) = (session_id p, user_id p) \<and> kicked_at x = None)
          (session_participants st) = [p]"
    using filter_unique_key_and [of "\<lambda>p. (session_id p, user_id p)" "session_participants st" p "\<lambda>x. kicked_at x = None"]
      assms(2,9,12) by (simp add: unique_participants_def)
  then have "filter (\<lambda>x. session_id x = sessionId \<and> user_id x = targetUserId \<and> kicked_at x = None)
          (session_participants st) = [p]"
    using assms(10,11) by (simp add: conj_assoc)
  from update_maybeSingle_one [OF assms(4) this] show ?thesis
    by (simp add: kick_update [OF assms(1,3,5,6,7,8)])
qed

lemma kick_missing:
  assumes "unique_sessions st" "fault env 0 = None" "fault env 1 = None"
    and "s \<in> set (mentorship_sessions st)" "sess_id s = sessionId"
    and "created_by s = mentorId" "targetUserId \<noteq> mentorId"
    and "\<forall>p \<in> set (session_participants st).
           \<not> (session_id p = sessionId \<and> user_id p = targetUserId \<and> kicked_at p = None)"
  shows "kickParticipant env mentorId sessionId targetUserId st =
     (Inl (HttpError 404 ''Participant not found or already removed'' None), st)"
proof -
  have "filter (\<lambda>x. session_id x = sessionId \<and> user_id x = targetUserId \<and> kicked_at x = None)
          (session_participants st) = []"
    using assms(8) by (simp add: filter_empty_conv)
  from update_maybeSingle_none [OF assms(3) this] show ?thesis
    by (simp add: kick_update [OF assms(1,2,4,5,6,7)])
qed

lemma kick_success_row:
  assumes "fst (kickParticipant env mentorId sessionId targetUserId st) = Inr b"
  shows "\<exists>p \<in> set (session_participants st).
           session_id p = sessionId \<and> user_id p = targetUserId \<and> kicked_at p = None"
proof -
  from assms obtain d rows where
    "update_maybeSingle (fault env 1)
             (\<lambda>p. session_id p = sessionId \<and> user_id p = targetUserId \<and> kicked_at p = None)
             (\<lambda>p. p\<lparr>kicked_at := Some (now env), can_edit := False, can_share_screen := False\<rparr>)
             (session_participants st) = (Inr (Some d), rows)"
    by (auto simp: kickParticipant_def split: sum.splits if_splits prod.splits option.splits)
  from update_maybeSingle_SomeD [OF this] obtain r where
    "filter (\<lambda>p. session_id p = sessionId \<and> user_id p = targetUserId \<and> kicked_at p = None)
       (session_participants st) = [r]"
    by blast
  from filter_singletonD [OF this] show ?thesis by blast
qed

text \<open>
  Claim C4, for a session that exists (the checks run in the order of the code: creator
  first, then self-removal). \<open>kickParticipant\<close> fails with 403 when the caller is not the
  session's creator; fails with 400 when the creator targets themself; succeeds only if
  the target has a row whose \<open>kicked_at\<close> is unset, and then sets \<open>kicked_at\<close> to the clock
  and both permission flags to false on that row and touches no other row; and fails
  with the same 404 when the target has no row or a row that is already kicked.
\<close>

theorem kickParticipant_outcomes:
  assumes "unique_sessions st" and "unique_participants st" and "fault env 0 = None"
    and "s \<in> set (mentorship_sessions st)" and "sess_id s = sessionId"
  shows "(created_by s \<noteq> mentorId \<longrightarrow>
            kickParticipant env mentorId sessionId targetUserId st =
              (Inl (HttpError 403 ''Only the session creator can remove participants'' None), st))
       \<and> (created_by s = mentorId \<and> targetUserId = mentorId \<longrightarrow>
            kickParticipant env mentorId sessionId targetUserId st =
              (Inl (HttpError 400 ''You cannot remove yourself from your own session'' None), st))
       \<and> (\<forall>b. fst (kickParticipant env mentorId sessionId targetUserId st) = Inr b \<longrightarrow>
            (\<exists>p \<in> set (session_participants st).
               session_id p = sessionId \<and> user_id p = targetUserId \<and> kicked_at p = None))
       \<and> (created_by s = mentorId \<and> targetUserId \<noteq> mentorId \<and> fault env 1 = None \<longrightarrow>
            (\<forall>p. p \<in> set (session_participants st) \<and> session_id p = sessionId \<and>
                  user_id p = targetUserId \<and> kicked_at p = None \<longrightarrow>
               kickParticipant env mentorId sessionId targetUserId st =
                 (Inr True, st\<lparr>session_participants :=
                    map (\<lambda>x. if session_id x = sessionId \<and> user_id x = targetUserId \<and> kicked_at x = None
                             then x\<lparr>kicked_at := Some (now env), can_edit := False, can_share_screen := False\<rparr>
                             else x)
                        (session_participants st)\<rparr>))
          \<and> ((\<forall>p \<in> set (session_participants st).
                  \<not> (session_id p = sessionId \<and> user_id p = targetUserId \<and> kicked_at p = None)) \<longrightarrow>
               kickParticipant env mentorId sessionId targetUserId st =
                 (Inl (HttpError 404 ''Participant not found or already removed'' None), st)))"
proof (intro conjI allI impI)
  assume "created_by s \<noteq> mentorId"
  then show "kickParticipant env mentorId sessionId targetUserId st =
              (Inl (HttpError 403 ''Only the session creator can remove participants'' None), st)"
    by (rule kick_not_owner [OF assms(1,3,4,5)])
next
  assume "created_by s = mentorId \<and> targetUserId = mentorId"
  then show "kickParticipant env mentorId sessionId targetUserId st =
              (Inl (HttpError 400 ''You cannot remove yourself from your own session'' None), st)"
    using kick_self [OF assms(1,3,4,5)] by blast
next
  fix b assume "fst (kickParticipant env mentorId sessionId targetUserId st) = Inr b"
  then show "\<exists>p \<in> set (session_participants st).
               session_id p = sessionId \<and> user_id p = targetUserId \<and> kicked_at p = None"
    by (rule kick_success_row)
next
  fix p assume o: "created_by s = mentorId \<and> targetUserId \<noteq> mentorId \<and> fault env 1 = None"
    and p: "p \<in> set (session_participants st) \<and> session_id p = sessionId \<and>
                  user_id p = targetUserId \<and> kicked_at p = None"
  show "kickParticipant env mentorId sessionId targetUserId st =
                 (Inr True, st\<lparr>session_participants :=
                    map (\<lambda>x. if session_id x = sessionId \<and> user_id x = targetUserId \<and> kicked_at x = None
                             then x\<lparr>kicked_at := Some (now env), can_edit := False, can_share_screen := False\<rparr>
                             else x)
                        (session_participants st)\<rparr>)"
    using kick_active [OF assms(1,2,3) _ assms(4,5)] o p by blast
next
  assume o: "created_by s = mentorId \<and> targetUserId \<noteq> mentorId \<and> fault env 1 = None"
    and n: "\<forall>p \<in> set (session_participants st).
                  \<not> (session_id p = sessionId \<and> user_id p = targetUserId \<and> kicked_at p = None)"
  show "kickParticipant env mentorId sessionId targetUserId st =
                 (Inl (HttpError 404 ''Participant not found or already removed'' None), st)"
    using kick_missing [OF assms(1,3) _ assms(4,5)] o n by blast
qed

text \<open>
  On the small store: \<open>bob\<close> is not the creator; \<open>ann\<close> cannot remove herself; \<open>ann\<close>
  kicks \<open>bob\<close>; \<open>eve\<close> is already kicked and \<open>dan\<close> has no row, both 404.
\<close>

theorem kickParticipant_outcomes_witness:
  "unique_sessions example_store \<and> unique_participants example_store \<and> fault example_env 0 = None \<and>
   example_session \<in> set (mentorship_sessions example_store) \<and> sess_id example_session = ''s1'' \<and>
   kickParticipant example_env ''bob'' ''s1'' ''eve'' example_store =
     (Inl (HttpError 403 ''Only the session creator can remove participants'' None), example_store) \<and>
   kickParticipant example_env ''ann'' ''s1'' ''ann'' example_store =
     (Inl (HttpError 400 ''You cannot remove yourself from your own session'' None), example_store) \<and>
   kickParticipant example_env ''ann'' ''s1'' ''bob'' example_store =
     (Inr True, example_store\<lparr>session_participants :=
        [ann_row, bob_row\<lparr>kicked_at := Some 2000, can_edit := False, can_share_screen := False\<rparr>, eve_row]\<rparr>) \<and>
   kickParticipant example_env ''ann'' ''s1'' ''eve'' example_store =
     (Inl (HttpError 404 ''Participant not found or already removed'' None), example_store) \<and>
   kickParticipant example_env ''ann'' ''s1'' ''dan'' example_store =
     (Inl (HttpError 404 ''Participant not found or already removed'' None), example_store)"
proof -
  have a: "fault example_env 0 = None" and f: "fault example_env 1 = None" by (simp_all add: example_env_def)
  note u = example_store_unique
  have s: "example_session \<in> set (mentorship_sessions example_store)" and i: "sess_id example_session = ''s1''"
    by (simp_all add: example_env_def example_session_def ann_row_def bob_row_def eve_row_def example_store_def)
  note t = kickParticipant_outcomes [OF conjunct1 [OF u] conjunct2 [OF u] a s i]
  have o: "created_by example_session = ''ann''" "created_by example_session \<noteq> ''bob''"
    by (simp_all add: example_env_def example_session_def ann_row_def bob_row_def eve_row_def example_store_def)
  from t [of "''bob''" "''eve''"] o have c1: "kickParticipant example_env ''bob'' ''s1'' ''eve'' example_store =
     (Inl (HttpError 403 ''Only the session creator can remove participants'' None), example_store)"
    by blast
  from t [of "''ann''" "''ann''"] o have c2: "kickParticipant example_env ''ann'' ''s1'' ''ann'' example_store =
     (Inl (HttpError 400 ''You cannot remove yourself from your own session'' None), example_store)"
    by blast
  have "bob_row \<in> set (session_participants example_store) \<and> session_id bob_row = ''s1'' \<and>
        user_id bob_row = ''bob'' \<and> kicked_at bob_row = None" and ne: "''bob'' \<noteq> ''ann''"
    by (simp_all add: example_env_def example_session_def ann_row_def bob_row_def eve_row_def example_store_def)
  with t [of "''ann''" "''bob''"] o f have
    "kickParticipant example_env ''ann'' ''s1'' ''bob'' example_store =
       (Inr True, example_store\<lparr>session_participants :=
          map (\<lambda>x. if session_id x = ''s1'' \<and> user_id x = ''bob'' \<and> kicked_at x = None
                   then x\<lparr>kicked_at := Some (now example_env), can_edit := False, can_share_screen := False\<rparr>
                   else x)
              (session_participants example_store)\<rparr>)"
    by blast
  then have c3: "kickParticipant example_env ''ann'' ''s1'' ''bob'' example_store =
     (Inr True, example_store\<lparr>session_participants :=
        [ann_row, bob_row\<lparr>kicked_at := Some 2000, can_edit := False, can_share_screen := False\<rparr>, eve_row]\<rparr>)"
    by (simp add: example_env_def example_session_def ann_row_def bob_row_def eve_row_def example_store_def)
  have "\<forall>p \<in> set (session_participants example_store).
          \<not> (session_id p = ''s1'' \<and> user_id p = ''eve'' \<and> kicked_at p = None)" and "''eve'' \<noteq> ''ann''"
    by (simp_all add: example_env_def example_session_def ann_row_def bob_row_def eve_row_def example_store_def)
  with t [of "''ann''" "''eve''"] o f have c4: "kickParticipant example_env ''ann'' ''s1'' ''eve'' example_store =
     (Inl (HttpError 404 ''Participant not found or already removed'' None), example_store)"
    by blast
  have "\<forall>p \<in> set (session_participants example_store).
          \<not> (session_id p = ''s1'' \<and> user_id p = ''dan'' \<and> kicked_at p = None)" and "''dan'' \<noteq> ''ann''"
    by (simp_all add: example_env_def example_session_def ann_row_def bob_row_def eve_row_def example_store_def)
  with t [of "''ann''" "''dan''"] o f have c5: "kickParticipant example_env ''ann'' ''s1'' ''dan'' example_store =
     (Inl (HttpError 404 ''Participant not found or already removed'' None), example_store)"
    by blast
  from u a s i c1 c2 c3 c4 c5 show ?thesis by blast
qed

subsection \<open>updateSessionSettings\<close>

lemma key_of_empty: "key_of k v = [] \<longleftrightarrow> v = None"
  by (simp add: key_of_def split: option.splits)

lemma patch_keys_empty:
  "patch_keys (build_patch updates) = [] \<longleftrightarrow>
     (up_title updates = None \<and> up_summary updates = None \<and> up_scheduled_at updates = None \<and>
      up_duration_minutes updates = None \<and> up_status updates = None \<and> up_allow_collab updates = None \<and>
      up_allow_chat updates = None \<and> up_allow_video updates = None \<and> up_metadata updates = None)"
  by (simp add: patch_keys_def build_patch_def key_of_empty)

lemma update_empty_patch:
  assumes "patch_keys (build_patch updates) = []"
  shows "updateSessionSettings env mentorId sessionId updates st =
     (Inl (HttpError 400 ''No updates were provided'' None), st)"
  using assms by (simp add: updateSessionSettings_def Let_def)

lemma update_no_row:
  assumes "patch_keys (build_patch updates) \<noteq> []" "fault env 0 = None"
    and "\<forall>s \<in> set (mentorship_sessions st). \<not> (sess_id s = sessionId \<and> created_by s = mentorId)"
  shows "updateSessionSettings env mentorId sessionId updates st =
     (Inl (HttpError 404 ''Session not found or you do not have permission to update it'' None), st)"
proof -
  have "filter (\<lambda>s. sess_id s = sessionId \<and> created_by s = mentorId) (mentorship_sessions st) = []"
    using assms(3) by (simp add: filter_empty_conv)
  from update_maybeSingle_none [OF assms(2) this] show ?thesis
    using assms(1) by (simp add: updateSessionSettings_def Let_def)
qed

lemma update_owner:
  assumes "patch_keys (build_patch updates) \<noteq> []" "fault env 0 = None" "unique_sessions st"
    and "s \<in> set (mentorship_sessions st)" "sess_id s = sessionId" "created_by s = mentorId"
  shows "updateSessionSettings env mentorId sessionId updates st =
     (Inr (apply_patch (build_patch updates) s),
      st\<lparr>mentorship_sessions :=
           map (\<lambda>x. if sess_id x = sessionId \<and> created_by x = mentorId
                    then apply_patch (build_patch updates) x else x) (mentorship_sessions st)\<rparr>)"
proof -
  have "filter (\<lambda>x. sess_id x = sess_id s \<and> created_by x = mentorId) (mentorship_sessions st) = [s]"
    using filter_unique_key_and [of sess_id "mentorship_sessions st" s "\<lambda>x. created_by x = mentorId"] assms(3,4,6)
    by (simp add: unique_sessions_def)
  then have "filter (\<lambda>x. sess_id x = sessionId \<and> created_by x = mentorId) (mentorship_sessions st) = [s]"
    using assms(5) by simp
  from update_maybeSingle_one [OF assms(2) this] show ?thesis
    using assms(1) by (simp add: updateSessionSettings_def Let_def)
qed

lemma update_success_row:
  assumes "fst (updateSessionSettings env mentorId sessionId updates st) = Inr d"
  shows "(\<exists>s \<in> set (mentorship_sessions st). sess_id s = sessionId \<and> created_by s = mentorId \<and>
            d = apply_patch (build_patch updates) s) \<and>
         snd (updateSessionSettings env mentorId sessionId updates st) =
           st\<lparr>mentorship_sessions :=
                map (\<lambda>x. if sess_id x = sessionId \<and> created_by x = mentorId
                         then apply_patch (build_patch updates) x else x) (mentorship_sessions st)\<rparr>"
proof -
  let ?P = "\<lambda>s. sess_id s = sessionId \<and> created_by s = mentorId"
  from assms obtain rows where u:
    "update_maybeSingle (fault env 0) ?P (apply_patch (build_patch updates)) (mentorship_sessions st) = (Inr (Some d), rows)"
    and r: "snd (updateSessionSettings env mentorId sessionId updates st) = st\<lparr>mentorship_sessions := rows\<rparr>"
    by (auto simp: updateSessionSettings_def Let_def split: sum.splits if_splits prod.splits option.splits)
  from update_maybeSingle_SomeD [OF u] obtain s where
    s: "filter ?P (mentorship_sessions st) = [s]" "d = apply_patch (build_patch updates) s"
    and rows: "rows = map (\<lambda>x. if ?P x then apply_patch (build_patch updates) x else x) (mentorship_sessions st)"
    by blast
  from filter_singletonD [OF s(1)] s(2) r rows show ?thesis by blast
qed

lemma apply_patch_fields:
  "title (apply_patch (build_patch u) s) = nullish (up_title u) (title s) \<and>
   summary (apply_patch (build_patch u) s) = nullish (up_summary u) (summary s) \<and>
   scheduled_at (apply_patch (build_patch u) s) = nullish (up_scheduled_at u) (scheduled_at s) \<and>
   duration_minutes (apply_patch (build_patch u) s) = nullish (up_duration_minutes u) (duration_minutes s) \<and>
   status (apply_patch (build_patch u) s) = nullish (up_status u) (status s) \<and>
   allow_collab (apply_patch (build_patch u) s) = nullish (up_allow_collab u) (allow_collab s) \<and>
   allow_chat (apply_patch (build_patch u) s) = nullish (up_allow_chat u) (allow_chat s) \<and>
   allow_video (apply_patch (build_patch u) s) = nullish (up_allow_video u) (allow_video s) \<and>
   metadata (apply_patch (build_patch u) s) =
     nullish (map_option sanitizeMetadata (up_metadata u)) (metadata s) \<and>
   sess_id (apply_patch (build_patch u) s) = sess_id s \<and>
   created_by (apply_patch (build_patch u) s) = created_by s \<and>
   created_at (apply_patch (build_patch u) s) = created_at s \<and>
   invite_code (apply_patch (build_patch u) s) = invite_code s"
  by (simp add: apply_patch_def build_patch_def)

text \<open>
  Claim C5, as the code has it. \<open>updateSessionSettings\<close> fails with 400 when no field is
  supplied, whatever the store would answer (no store call is made). With a field
  supplied, it fails with 404 when no session with that id is owned by the caller: a
  caller who is not the owner gets the same 404 as for a missing session. For the owner
  it succeeds, and on success each column is the supplied value if the field was
  supplied and the old value if it was omitted; the id, creator, creation time and invite
  code never change, and no other row changes.
\<close>

theorem updateSessionSettings_outcomes:
  "(patch_keys (build_patch updates) = [] \<longrightarrow>
      updateSessionSettings env mentorId sessionId updates st =
        (Inl (HttpError 400 ''No updates were provided'' None), st))
   \<and> (patch_keys (build_patch updates) \<noteq> [] \<and> fault env 0 = None \<and>
      (\<forall>s \<in> set (mentorship_sessions st). \<not> (sess_id s = sessionId \<and> created_by s = mentorId)) \<longrightarrow>
      updateSessionSettings env mentorId sessionId updates st =
        (Inl (HttpError 404 ''Session not found or you do not have permission to update it'' None), st))
   \<and> (\<forall>s. patch_keys (build_patch updates) \<noteq> [] \<and> fault env 0 = None \<and> unique_sessions st \<and>
          s \<in> set (mentorship_sessions st) \<and> sess_id s = sessionId \<and> created_by s = mentorId \<longrightarrow>
          fst (updateSessionSettings env mentorId sessionId updates st) = Inr (apply_patch (build_patch updates) s))
   \<and> (\<forall>d. fst (updateSessionSettings env mentorId sessionId updates st) = Inr d \<longrightarrow>
        (\<exists>s \<in> set (mentorship_sessions st). sess_id s = sessionId \<and> created_by s = mentorId \<and>
           title d = nullish (up_title updates) (title s) \<and>
           summary d = nullish (up_summary updates) (summary s) \<and>
           scheduled_at d = nullish (up_scheduled_at updates) (scheduled_at s) \<and>
           duration_minutes d = nullish (up_duration_minutes updates) (duration_minutes s) \<and>
           status d = nullish (up_status updates) (status s) \<and>
           allow_collab d = nullish (up_allow_collab updates) (allow_collab s) \<and>
           allow_chat d = nullish (up_allow_chat updates) (allow_chat s) \<and>
           allow_video d = nullish (up_allow_video updates) (allow_video s) \<and>
           metadata d = nullish (map_option sanitizeMetadata (up_metadata updates)) (metadata s) \<and>
           sess_id d = sess_id s \<and> created_by d = created_by s \<and> created_at d = created_at s \<and>
           invite_code d = invite_code s) \<and>
        snd (updateSessionSettings env mentorId sessionId updates st) =
          st\<lparr>mentorship_sessions :=
               map (\<lambda>x. if sess_id x = sessionId \<and> created_by x = mentorId
                        then apply_patch (build_patch updates) x else x) (mentorship_sessions st)\<rparr>)"
proof (intro conjI allI impI)
  assume "patch_keys (build_patch updates) = []"
  then show "updateSessionSettings env mentorId sessionId updates st =
        (Inl (HttpError 400 ''No updates were provided'' None), st)"
    by (rule update_empty_patch)
next
  assume "patch_keys (build_patch updates) \<noteq> [] \<and> fault env 0 = None \<and>
      (\<forall>s \<in> set (mentorship_sessions st). \<not> (sess_id s = sessionId \<and> created_by s = mentorId))"
  then show "updateSessionSettings env mentorId sessionId updates st =
        (Inl (HttpError 404 ''Session not found or you do not have permission to update it'' None), st)"
    using update_no_row by blast
next
  fix s assume "patch_keys (build_patch updates) \<noteq> [] \<and> fault env 0 = None \<and> unique_sessions st \<and>
          s \<in> set (mentorship_sessions st) \<and> sess_id s = sessionId \<and> created_by s = mentorId"
  then show "fst (updateSessionSettings env mentorId sessionId updates st) = Inr (apply_patch (build_patch updates) s)"
    using update_owner [of updates env st s sessionId mentorId] by simp
next
  fix d assume ok: "fst (updateSessionSettings env mentorId sessionId updates st) = Inr d"
  from update_success_row [OF ok] obtain s where
    s: "s \<in> set (mentorship_sessions st)" "sess_id s = sessionId" "created_by s = mentorId"
       "d = apply_patch (build_patch updates) s"
    by blast
  show "\<exists>s \<in> set (mentorship_sessions st). sess_id s = sessionId \<and> created_by s = mentorId \<and>
           title d = nullish (up_title updates) (title s) \<and>
           summary d = nullish (up_summary updates) (summary s) \<and>
           scheduled_at d = nullish (up_scheduled_at updates) (scheduled_at s) \<and>
           duration_minutes d = nullish (up_duration_minutes updates) (duration_minutes s) \<and>
           status d = nullish (up_status updates) (status s) \<and>
           allow_collab d = nullish (up_allow_collab updates) (allow_collab s) \<and>
           allow_chat d = nullish (up_allow_chat updates) (allow_chat s) \<and>
           allow_video d = nullish (up_allow_video updates) (allow_video s) \<and>
           metadata d = nullish (map_option sanitizeMetadata (up_metadata updates)) (metadata s) \<and>
           sess_id d = sess_id s \<and> created_by d = created_by s \<and> created_at d = created_at s \<and>
           invite_code d = invite_code s"
    using s(1-3) apply_patch_fields [of updates s] unfolding s(4) by (intro bexI [of _ s]) simp_all
  show "snd (updateSessionSettings env mentorId sessionId updates st) =
          st\<lparr>mentorship_sessions :=
               map (\<lambda>x. if sess_id x = sessionId \<and> created_by x = mentorId
                        then apply_patch (build_patch updates) x else x) (mentorship_sessions st)\<rparr>"
    using update_success_row [OF ok] by blast
qed

text \<open>
  On the small store: the empty patch, a patch by \<open>bob\<close> (not the owner), and a patch by
  \<open>ann\<close> that renames the session and sets it live.
\<close>

theorem updateSessionSettings_outcomes_witness:
  "patch_keys (build_patch no_updates) = [] \<and>
   updateSessionSettings example_env ''ann'' ''s1'' no_updates example_store =
     (Inl (HttpError 400 ''No updates were provided'' None), example_store) \<and>
   updateSessionSettings example_env ''bob'' ''s1'' example_updates example_store =
     (Inl (HttpError 404 ''Session not found or you do not have permission to update it'' None), example_store) \<and>
   fst (updateSessionSettings example_env ''ann'' ''s1'' example_updates example_store) =
     Inr (example_session\<lparr>title := ''Renamed'', status := Live\<rparr>)"
proof -
  note t = updateSessionSettings_outcomes [of _ example_env _ "''s1''" example_store]
  have e: "patch_keys (build_patch no_updates) = []"
    by (simp add: patch_keys_def build_patch_def key_of_def no_updates_def)
  with t [of no_updates "''ann''"] have c1: "updateSessionSettings example_env ''ann'' ''s1'' no_updates example_store =
     (Inl (HttpError 400 ''No updates were provided'' None), example_store)"
    by blast
  have n: "patch_keys (build_patch example_updates) \<noteq> []" and a: "fault example_env 0 = None"
    by (simp_all add: patch_keys_def build_patch_def key_of_def example_updates_def example_env_def)
  have "\<forall>s \<in> set (mentorship_sessions example_store). \<not> (sess_id s = ''s1'' \<and> created_by s = ''bob'')"
    by (simp add: example_env_def example_session_def ann_row_def bob_row_def eve_row_def example_store_def)
  with t [of example_updates "''bob''"] n a have c2:
    "updateSessionSettings example_env ''bob'' ''s1'' example_updates example_store =
     (Inl (HttpError 404 ''Session not found or you do not have permission to update it'' None), example_store)"
    by blast
  have "example_session \<in> set (mentorship_sessions example_store) \<and> sess_id example_session = ''s1'' \<and>
        created_by example_session = ''ann''"
    by (simp add: example_env_def example_session_def ann_row_def bob_row_def eve_row_def example_store_def)
  with t [of example_updates "''ann''"] n a example_store_unique have
    "fst (updateSessionSettings example_env ''ann'' ''s1'' example_updates example_store) =
       Inr (apply_patch (build_patch example_updates) example_session)"
    by blast
  then have c3: "fst (updateSessionSettings example_env ''ann'' ''s1'' example_updates example_store) =
     Inr (example_session\<lparr>title := ''Renamed'', status := Live\<rparr>)"
    by (simp add: apply_patch_def build_patch_def nullish_def example_updates_def example_session_def)
  from e c1 c2 c3 show ?thesis by blast
qed

text \<open>
  Claim C5 as worded says 403 for a caller who is not the owner. The code filters the
  update by \<open>created_by\<close> in the store and reports the empty result as 404: \<open>bob\<close>, who does
  not own session \<open>s1\<close>, gets 404 and not 403.
\<close>

theorem updateSessionSettings_claim_counterexample:
  "created_by example_session \<noteq> ''bob'' \<and>
   example_session \<in> set (mentorship_sessions example_store) \<and>
   fault example_env 0 = None \<and>
   fst (updateSessionSettings example_env ''bob'' (sess_id example_session) example_updates example_store) =
     Inl (HttpError 404 ''Session not found or you do not have permission to update it'' None) \<and>
   \<not> (\<exists>m d. fst (updateSessionSettings example_env ''bob'' (sess_id example_session) example_updates example_store) =
            Inl (HttpError 403 m d))"
  by (simp add: updateSessionSettings_def update_maybeSingle_def patch_keys_def build_patch_def key_of_def
      example_updates_def example_env_def example_session_def ann_row_def bob_row_def eve_row_def example_store_def)

subsection \<open>updateParticipantPermissions\<close>

lemma permission_keys_empty:
  "permission_keys c = [] \<longleftrightarrow> ch_can_edit c = None \<and> ch_can_share_screen c = None"
  by (simp add: permission_keys_def key_of_empty)

text \<open>
  Claim C9. \<open>updateParticipantPermissions\<close> never reads \<open>kicked_at\<close>: for the owner of an
  existing session and any row of the target, kicked or not, a call that supplies
  \<open>can_edit\<close> or \<open>can_share_screen\<close> succeeds, writes the supplied flags to that row, and
  leaves its \<open>kicked_at\<close> and its role as they were. So the flags that \<open>kickParticipant\<close>
  set to false can be set to true again on a row that stays kicked.
\<close>

theorem updateParticipantPermissions_ignores_kicked:
  assumes "unique_sessions st" and "unique_participants st"
    and "fault env 0 = None" and "fault env 1 = None"
    and "s \<in> set (mentorship_sessions st)" and "sess_id s = sessionId" and "created_by s = mentorId"
    and "p \<in> set (session_participants st)" and "session_id p = sessionId" and "user_id p = targetUserId"
    and "ch_can_edit changes \<noteq> None \<or> ch_can_share_screen changes \<noteq> None"
  shows "updateParticipantPermissions env mentorId sessionId targetUserId changes st =
           (Inr (p\<lparr>can_edit := nullish (ch_can_edit changes) (can_edit p),
                   can_share_screen := nullish (ch_can_share_screen changes) (can_share_screen p)\<rparr>),
            st\<lparr>session_participants :=
                 map (\<lambda>x. if session_id x = sessionId \<and> user_id x = targetUserId
                          then x\<lparr>can_edit := nullish (ch_can_edit changes) (can_edit x),
                                 can_share_screen := nullish (ch_can_share_screen changes) (can_share_screen x)\<rparr>
                          else x)
                     (session_participants st)\<rparr>)
         \<and> p\<lparr>can_edit := nullish (ch_can_edit changes) (can_edit p),
              can_share_screen := nullish (ch_can_share_screen changes) (can_share_screen p)\<rparr>
             \<in> set (session_participants (snd (updateParticipantPermissions env mentorId sessionId targetUserId changes st)))
         \<and> kicked_at (p\<lparr>can_edit := nullish (ch_can_edit changes) (can_edit p),
              can_share_screen := nullish (ch_can_share_screen changes) (can_share_screen p)\<rparr>) = kicked_at p
         \<and> prole (p\<lparr>can_edit := nullish (ch_can_edit changes) (can_edit p),
              can_share_screen := nullish (ch_can_share_screen changes) (can_share_screen p)\<rparr>) = prole p"
proof -
  let ?c = "\<lparr>ch_can_edit = ch_can_edit changes, ch_can_share_screen = ch_can_share_screen changes\<rparr>"
  have keys: "permission_keys ?c \<noteq> []"
    using assms(11) by (simp add: permission_keys_empty)
  have "filter (\<lambda>x. session_id x = sessionId \<and> user_id x = targetUserId) (session_participants st) = [p]"
    using participant_lookup [OF assms(2,8)] assms(9,10) by simp
  from update_maybeSingle_one [OF assms(4) this, of "apply_permissions ?c"]
  have eq: "updateParticipantPermissions env mentorId sessionId targetUserId changes st =
           (Inr (p\<lparr>can_edit := nullish (ch_can_edit changes) (can_edit p),
                   can_share_screen := nullish (ch_can_share_screen changes) (can_share_screen p)\<rparr>),
            st\<lparr>session_participants :=
                 map (\<lambda>x. if session_id x = sessionId \<and> user_id x = targetUserId
                          then x\<lparr>can_edit := nullish (ch_can_edit changes) (can_edit x),
                                 can_share_screen := nullish (ch_can_share_screen changes) (can_share_screen x)\<rparr>
                          else x)
                     (session_participants st)\<rparr>)"
    using owner_found [OF assms(1,3,5,6)] assms(7) keys
    by (simp add: updateParticipantPermissions_def Let_def apply_permissions_def)
  have mem: "p\<lparr>can_edit := nullish (ch_can_edit changes) (can_edit p),
              can_share_screen := nullish (ch_can_share_screen changes) (can_share_screen p)\<rparr>
             \<in> set (session_participants (snd (updateParticipantPermissions env mentorId sessionId targetUserId changes st)))"
    unfolding eq using assms(8,9,10) by (auto simp: image_iff intro!: bexI [of _ p])
  from eq mem show ?thesis by simp
qed

text \<open>
  On the small store: \<open>eve\<close> was kicked at 500 with \<open>can_edit = false\<close>; the owner sets
  \<open>can_edit\<close> to true, and the row is still kicked at 500.
\<close>

theorem updateParticipantPermissions_ignores_kicked_witness:
  "kicked_at eve_row = Some 500 \<and> can_edit eve_row = False \<and>
   updateParticipantPermissions example_env ''ann'' ''s1'' ''eve'' example_changes example_store =
     (Inr (eve_row\<lparr>can_edit := True\<rparr>),
      example_store\<lparr>session_participants := [ann_row, bob_row, eve_row\<lparr>can_edit := True\<rparr>]\<rparr>) \<and>
   kicked_at (eve_row\<lparr>can_edit := True\<rparr>) = Some 500 \<and> prole (eve_row\<lparr>can_edit := True\<rparr>) = Student"
proof -
  have a: "fault example_env 0 = None" and f: "fault example_env 1 = None" by (simp_all add: example_env_def)
  note u = example_store_unique
  have s: "example_session \<in> set (mentorship_sessions example_store)" and i: "sess_id example_session = ''s1''"
    and o: "created_by example_session = ''ann''"
    and p: "eve_row \<in> set (session_participants example_store)" "session_id eve_row = ''s1''" "user_id eve_row = ''eve''"
    and c: "ch_can_edit example_changes \<noteq> None \<or> ch_can_share_screen example_changes \<noteq> None"
    by (simp_all add: example_env_def example_session_def ann_row_def bob_row_def eve_row_def example_store_def example_changes_def)
  note t = updateParticipantPermissions_ignores_kicked [OF conjunct1 [OF u] conjunct2 [OF u] a f s i o p c]
  have k: "kicked_at eve_row = Some 500 \<and> can_edit eve_row = False" by (simp add: eve_row_def)
  from t have c1: "updateParticipantPermissions example_env ''ann'' ''s1'' ''eve'' example_changes example_store =
     (Inr (eve_row\<lparr>can_edit := True\<rparr>),
      example_store\<lparr>session_participants := [ann_row, bob_row, eve_row\<lparr>can_edit := True\<rparr>]\<rparr>)"
    by (simp add: example_env_def example_session_def ann_row_def bob_row_def eve_row_def example_store_def example_changes_def nullish_def)
  have c2: "kicked_at (eve_row\<lparr>can_edit := True\<rparr>) = Some 500 \<and> prole (eve_row\<lparr>can_edit := True\<rparr>) = Student"
    by (simp add: eve_row_def)
  from k c1 c2 show ?thesis by blast
qed

section \<open>Properties of the execution sandbox\<close>

text \<open>The string functions on examples.\<close>

lemma toLowerCase_JavaScript: "toLowerCase env ''JavaScript'' = ''javascript''"
  by (simp add: toLowerCase_def is_ascii_def to_lower_char_def)

lemma toLowerCase_Ruby: "toLowerCase env ''Ruby'' = ''ruby''"
  by (simp add: toLowerCase_def is_ascii_def to_lower_char_def)

lemma extractJavaClassName_example:
  "extractJavaClassName (''import x; public'' @ [CHR 0xC2, CHR 0xA0, CHR 0x0A] @ ''class Foo9 { }'') = Some ''Foo9''"
  by (simp add: match_class_at_def spaces1_def white_space_def is_word_def)

lemma trim_example: "trim ([CHR 0xEF, CHR 0xBB, CHR 0xBF] @ ''  a b '' @ [CHR 0x0A, CHR 0xC2, CHR 0xA0]) = ''a b''"
  by (simp add: trim_def white_space_def)

lemma multiple_rows_example:
  "pg_details (multiple_rows 12) = ''Results contain 12 rows, application/vnd.pgrst.object+json requires 1 row''"
  by (simp add: multiple_rows_def digit_char_def)

lemma dirname_path_join:
  assumes "d \<noteq> []" "CHR ''/'' \<notin> set f"
  shows "dirname (path_join d f) = d"
proof -
  have "dropWhile (\<lambda>c. c \<noteq> CHR ''/'') (rev f @ CHR ''/'' # rev d) = CHR ''/'' # rev d"
    using assms(2) by (auto simp: dropWhile_append3)
  then show ?thesis using assms(1) by (simp add: dirname_def path_join_def)
qed

text \<open>What \<open>executeCode\<close> returns, from what its \<open>try\<close> returns or throws.\<close>

lemma executeCode_caught:
  "fst (executeCode env code language w) =
     Inr (case fst (executeCode_try env code language w) of
            Inr res \<Rightarrow> res
          | Inl err \<Rightarrow>
              \<lparr>output = [],
               error = Some (if err_message err = [] then ''Execution failed'' else err_message err),
               executionTime = elapsed_total env\<rparr>)"
  by (simp add: executeCode_def Let_def split_beta)

lemma executeCode_world:
  "snd (executeCode env code language w) = snd (executeCode_try env code language w)"
  by (simp add: executeCode_def Let_def split_beta)

lemma executeCode_try_unsupported:
  assumes "toLowerCase env language \<notin> set supported_languages"
  shows "executeCode_try env code language w =
     (Inr \<lparr>output = [],
           error = Some (''Language '' @ quoted language @ '' is not supported for execution''),
           executionTime = elapsed_total env\<rparr>, w)"
  using assms by (simp add: executeCode_try_def supported_languages_def Let_def)

lemma executeCode_try_file:
  assumes "(toLowerCase env language, tool, extension) \<in>
     set [(''javascript'', ''node'', ''.js''), (''typescript'', ''npx ts-node'', ''.ts''),
          (''python'', ''python'', ''.py''), (''csharp'', ''dotnet script'', ''.cs''),
          (''c#'', ''dotnet script'', ''.cs''), (''go'', ''go run'', ''.go'')]"
  shows "executeCode_try env code language w = run_file env tool extension code w"
  using assms
  by (auto simp: executeCode_try_def Let_def executeJavaScript_def executeTypeScript_def
      executePython_def executeCSharp_def executeGo_def)

lemma executeCode_try_java:
  assumes "toLowerCase env language = ''java''"
  shows "executeCode_try env code language w = executeJava env code w"
  using assms by (simp add: executeCode_try_def Let_def)

text \<open>The four ways a runner that goes through \<open>createTempFile\<close> ends.\<close>

lemma run_file_no_directory:
  assumes "mkdtemp_result env (path_join (tmpdir env) ''code-exec-'') = Inl e"
  shows "run_file env tool extension code w = (Inl e, w)"
  using assms by (simp add: run_file_def createTempFile_def mkdtemp_def)

lemma run_file_write_failure:
  assumes "mkdtemp_result env (path_join (tmpdir env) ''code-exec-'') = Inr d" "writeFile_error env = Some e"
  shows "run_file env tool extension code w = (Inl e, w\<lparr>dirs := d # dirs w\<rparr>)"
  using assms by (simp add: run_file_def createTempFile_def mkdtemp_def)

lemma run_file_rejected:
  assumes "mkdtemp_result env (path_join (tmpdir env) ''code-exec-'') = Inr d" "writeFile_error env = None"
    and "exec_result env (tool @ '' '' @ quoted (path_join d (''code'' @ extension))) = Inl err"
  shows "fst (run_file env tool extension code w) =
     Inr \<lparr>output = (case err_stdout err of None \<Rightarrow> [] | Some s \<Rightarrow> trim s),
          error = Some (case err_stderr err of
                          None \<Rightarrow> err_message err
                        | Some s \<Rightarrow> (if trim s = [] then err_message err else trim s)),
          executionTime = elapsed env\<rparr>"
  using assms
  by (simp add: run_file_def createTempFile_def mkdtemp_def execAsync_def failure_result_def)

lemma run_file_ok:
  assumes "mkdtemp_result env (path_join (tmpdir env) ''code-exec-'') = Inr d" "writeFile_error env = None"
    and "exec_result env (tool @ '' '' @ quoted (path_join d (''code'' @ extension))) = Inr (out, err_out)"
  shows "fst (run_file env tool extension code w) =
     Inr \<lparr>output = trim out,
          error = (if trim err_out = [] then None else Some (trim err_out)),
          executionTime = elapsed env\<rparr>"
  using assms
  by (simp add: run_file_def createTempFile_def mkdtemp_def execAsync_def success_result_def)

text \<open>The six ways \<open>executeJava\<close> ends.\<close>

lemma executeJava_no_directory:
  assumes "mkdtemp_result env (path_join (tmpdir env) ''java-exec-'') = Inl e"
  shows "executeJava env code w = (Inl e, w)"
  using assms by (simp add: executeJava_def mkdtemp_def)

lemma executeJava_write_failure:
  assumes "mkdtemp_result env (path_join (tmpdir env) ''java-exec-'') = Inr d" "writeFile_error env = Some e"
  shows "executeJava env code w = (Inl e, w\<lparr>dirs := d # dirs w\<rparr>)"
  using assms by (simp add: executeJava_def mkdtemp_def Let_def)

lemma executeJava_rm_failure:
  assumes "mkdtemp_result env (path_join (tmpdir env) ''java-exec-'') = Inr d" "writeFile_error env = None"
    and "rm_error env = Some e"
  shows "fst (executeJava env code w) = Inl e"
  using assms
  by (simp add: executeJava_def mkdtemp_def Let_def rm_def split_beta split: sum.splits prod.splits)

lemma executeJava_javac_rejected:
  assumes "mkdtemp_result env (path_join (tmpdir env) ''java-exec-'') = Inr d" "writeFile_error env = None"
    and "rm_error env = None"
    and "className = (case extractJavaClassName code of None \<Rightarrow> ''Main'' | Some n \<Rightarrow> n)"
    and "exec_result env (''javac '' @ quoted (path_join d (className @ ''.java''))) = Inl err"
  shows "fst (executeJava env code w) =
     Inr \<lparr>output = (case err_stdout err of None \<Rightarrow> [] | Some s \<Rightarrow> trim s),
          error = Some (case err_stderr err of
                          None \<Rightarrow> err_message err
                        | Some s \<Rightarrow> (if trim s = [] then err_message err else trim s)),
          executionTime = elapsed env\<rparr>"
  using assms
  by (simp add: executeJava_def mkdtemp_def Let_def rm_def execAsync_def failure_result_def)

lemma executeJava_java_rejected:
  assumes "mkdtemp_result env (path_join (tmpdir env) ''java-exec-'') = Inr d" "writeFile_error env = None"
    and "rm_error env = None"
    and "className = (case extractJavaClassName code of None \<Rightarrow> ''Main'' | Some n \<Rightarrow> n)"
    and "exec_result env (''javac '' @ quoted (path_join d (className @ ''.java''))) = Inr compiled"
    and "exec_result env (''java -cp '' @ quoted d @ '' '' @ className) = Inl err"
  shows "fst (executeJava env code w) =
     Inr \<lparr>output = (case err_stdout err of None \<Rightarrow> [] | Some s \<Rightarrow> trim s),
          error = Some (case err_stderr err of
                          None \<Rightarrow> err_message err
                        | Some s \<Rightarrow> (if trim s = [] then err_message err else trim s)),
          executionTime = elapsed env\<rparr>"
  using assms
  by (simp add: executeJava_def mkdtemp_def Let_def rm_def execAsync_def failure_result_def)

lemma executeJava_ok:
  assumes "mkdtemp_result env (path_join (tmpdir env) ''java-exec-'') = Inr d" "writeFile_error env = None"
    and "rm_error env = None"
    and "className = (case extractJavaClassName code of None \<Rightarrow> ''Main'' | Some n \<Rightarrow> n)"
    and "exec_result env (''javac '' @ quoted (path_join d (className @ ''.java''))) = Inr compiled"
    and "exec_result env (''java -cp '' @ quoted d @ '' '' @ className) = Inr (out, err_out)"
  shows "fst (executeJava env code w) =
     Inr \<lparr>output = trim out,
          error = (if trim err_out = [] then None else Some (trim err_out)),
          executionTime = elapsed env\<rparr>"
  using assms
  by (simp add: executeJava_def mkdtemp_def Let_def rm_def execAsync_def success_result_def)

text \<open>
  When \<open>fs.mkdtemp\<close> has made the directory and \<open>fs.writeFile\<close> fails, a runner throws
  with the directory in place, and \<open>executeCode\<close> returns with it still in place. When the
  file is written and \<open>fs.rm\<close> works, the runner removes the directory, whatever the
  command did.
\<close>

lemma executeCode_write_failure:
  assumes "mkdtemp_result env (path_join (tmpdir env) ''code-exec-'') = Inr d" "writeFile_error env = Some e"
    and "toLowerCase env language \<in> {''javascript'', ''typescript'', ''python'', ''csharp'', ''c#'', ''go''}"
  shows "snd (executeCode env code language w) = w\<lparr>dirs := d # dirs w\<rparr>"
  using assms(3) run_file_write_failure [OF assms(1,2)]
  by (auto simp: executeCode_world executeCode_try_def Let_def executeJavaScript_def executeTypeScript_def
      executePython_def executeCSharp_def executeGo_def)

lemma run_file_cleanup:
  assumes "mkdtemp_result env (path_join (tmpdir env) ''code-exec-'') = Inr d" "d \<noteq> []"
    and "CHR ''/'' \<notin> set extension" "writeFile_error env = None" "rm_error env = None"
  shows "dirs (snd (run_file env tool extension code w)) = removeAll d (dirs w)"
proof -
  have "dirname (path_join d (''code'' @ extension)) = d"
    using assms(2,3) by (intro dirname_path_join) simp_all
  then show ?thesis
    using assms(1,4,5)
    by (simp add: run_file_def createTempFile_def mkdtemp_def execAsync_def cleanupTempFile_def rm_def
        split: sum.splits prod.splits)
qed

text \<open>
  Claim C6 does not hold on the code. \<open>executeCode\<close> is run for JavaScript on a machine
  where \<open>fs.mkdtemp\<close> creates \<open>/tmp/code-exec-Ab12Cd\<close> and \<open>fs.writeFile\<close> then fails (the disk
  is full): the failure is returned in the \<open>error\<close> field, and the directory is still
  there when \<open>executeCode\<close> returns. The file is written before the runner's \<open>try\<close>, so
  its \<open>finally\<close> does not run, and the \<open>finally\<close> of \<open>executeCode\<close> tests a variable that is
  always \<open>null\<close>. On the same machine without the write failure the directory is removed.
\<close>

theorem executeCode_leaves_directory_when_write_fails:
  "executeCode (example_sandbox\<lparr>writeFile_error := Some disk_full\<rparr>) ''console.log(42)'' ''JavaScript'' empty_world =
     (Inr \<lparr>output = [], error = Some ''ENOSPC: no space left on device, write'', executionTime = 9\<rparr>,
      \<lparr>dirs = [''/tmp/code-exec-Ab12Cd''], spawned = []\<rparr>)
   \<and> executeCode example_sandbox ''console.log(42)'' ''JavaScript'' empty_world =
     (Inr \<lparr>output = ''42'', error = None, executionTime = 7\<rparr>,
      \<lparr>dirs = [], spawned = [''node '' @ quoted ''/tmp/code-exec-Ab12Cd/code.js'']\<rparr>)"
  by (simp add: executeCode_def executeCode_try_def toLowerCase_JavaScript executeJavaScript_def run_file_def
      createTempFile_def mkdtemp_def path_join_def execAsync_def cleanupTempFile_def rm_def dirname_def
      success_result_def trim_def white_space_def example_sandbox_def disk_full_def empty_world_def)

text \<open>
  Claim C7. \<open>executeCode\<close> throws nothing: for every input it returns a result. What it
  returns is given case by case.
  \<^item> A language whose lower-cased name is not in the supported set: empty output, the
    error \<open>Language "..." is not supported for execution\<close> (never empty), the total elapsed
    time, and the machine as before, with no directory made and no command run.
  \<^item> A language run from a file (JavaScript, TypeScript, Python, C#, Go, each with its
    tool and extension): if \<open>fs.mkdtemp\<close> or \<open>fs.writeFile\<close> fails, the runner throws, and
    \<open>executeCode\<close> returns empty output and, as the error, the message of what was thrown
    (\<open>Execution failed\<close> if that message is empty); if the command is rejected (non-zero
    exit, timeout, overflow), the result has the trimmed standard output of the
    rejection and, as the error, its trimmed standard error, or its message when
    there is none, which is not empty when the message is not; if the command
    succeeds, the result has its trimmed output, and its trimmed standard error as
    the error when that is not empty.
  \<^item> Java, with the class name taken from the code (\<open>Main\<close> when there is none): the
    same for \<open>fs.mkdtemp\<close> and \<open>fs.writeFile\<close>; a failure of \<open>fs.rm\<close> in the \<open>finally\<close> of the
    runner is thrown and comes back as the error; a rejection of \<open>javac\<close>, or of \<open>java\<close>
    after \<open>javac\<close> succeeded, comes back as for the other runners; and so does success.
\<close>

theorem executeCode_failures_are_data:
  "(toLowerCase env language \<notin> set supported_languages \<longrightarrow>
      executeCode env code language w =
        (Inr \<lparr>output = [],
              error = Some (''Language '' @ quoted language @ '' is not supported for execution''),
              executionTime = elapsed_total env\<rparr>, w)
      \<and> ''Language '' @ quoted language @ '' is not supported for execution'' \<noteq> [])
   \<and> (\<exists>r. fst (executeCode env code language w) = Inr r)
   \<and> (\<forall>tool extension.
        (toLowerCase env language, tool, extension) \<in>
          set [(''javascript'', ''node'', ''.js''), (''typescript'', ''npx ts-node'', ''.ts''),
               (''python'', ''python'', ''.py''), (''csharp'', ''dotnet script'', ''.cs''),
               (''c#'', ''dotnet script'', ''.cs''), (''go'', ''go run'', ''.go'')] \<longrightarrow>
        (\<forall>e. mkdtemp_result env (path_join (tmpdir env) ''code-exec-'') = Inl e \<longrightarrow>
           fst (executeCode env code language w) =
             Inr \<lparr>output = [],
                  error = Some (if err_message e = [] then ''Execution failed'' else err_message e),
                  executionTime = elapsed_total env\<rparr>)
      \<and> (\<forall>d e. mkdtemp_result env (path_join (tmpdir env) ''code-exec-'') = Inr d \<and>
                writeFile_error env = Some e \<longrightarrow>
           fst (executeCode env code language w) =
             Inr \<lparr>output = [],
                  error = Some (if err_message e = [] then ''Execution failed'' else err_message e),
                  executionTime = elapsed_total env\<rparr>)
      \<and> (\<forall>d err. mkdtemp_result env (path_join (tmpdir env) ''code-exec-'') = Inr d \<and>
                writeFile_error env = None \<and>
                exec_result env (tool @ '' '' @ quoted (path_join d (''code'' @ extension))) = Inl err \<longrightarrow>
           fst (executeCode env code language w) =
             Inr \<lparr>output = (case err_stdout err of None \<Rightarrow> [] | Some s \<Rightarrow> trim s),
                  error = Some (case err_stderr err of
                                  None \<Rightarrow> err_message err
                                | Some s \<Rightarrow> (if trim s = [] then err_message err else trim s)),
                  executionTime = elapsed env\<rparr>
           \<and> (err_message err \<noteq> [] \<longrightarrow>
                (case err_stderr err of
                   None \<Rightarrow> err_message err
                 | Some s \<Rightarrow> (if trim s = [] then err_message err else trim s)) \<noteq> []))
      \<and> (\<forall>d out err_out. mkdtemp_result env (path_join (tmpdir env) ''code-exec-'') = Inr d \<and>
                writeFile_error env = None \<and>
                exec_result env (tool @ '' '' @ quoted (path_join d (''code'' @ extension))) = Inr (out, err_out) \<longrightarrow>
           fst (executeCode env code language w) =
             Inr \<lparr>output = trim out,
                  error = (if trim err_out = [] then None else Some (trim err_out)),
                  executionTime = elapsed env\<rparr>))
   \<and> (\<forall>className.
        toLowerCase env language = ''java'' \<and>
        className = (case extractJavaClassName code of None \<Rightarrow> ''Main'' | Some n \<Rightarrow> n) \<longrightarrow>
        (\<forall>e. mkdtemp_result env (path_join (tmpdir env) ''java-exec-'') = Inl e \<longrightarrow>
           fst (executeCode env code language w) =
             Inr \<lparr>output = [],
                  error = Some (if err_message e = [] then ''Execution failed'' else err_message e),
                  executionTime = elapsed_total env\<rparr>)
      \<and> (\<forall>d e. mkdtemp_result env (path_join (tmpdir env) ''java-exec-'') = Inr d \<and>
                (writeFile_error env = Some e \<or> writeFile_error env = None \<and> rm_error env = Some e) \<longrightarrow>
           fst (executeCode env code language w) =
             Inr \<lparr>output = [],
                  error = Some (if err_message e = [] then ''Execution failed'' else err_message e),
                  executionTime = elapsed_total env\<rparr>)
      \<and> (\<forall>d err compiled.
                mkdtemp_result env (path_join (tmpdir env) ''java-exec-'') = Inr d \<and>
                writeFile_error env = None \<and> rm_error env = None \<and>
                (exec_result env (''javac '' @ quoted (path_join d (className @ ''.java''))) = Inl err \<or>
                 exec_result env (''javac '' @ quoted (path_join d (className @ ''.java''))) = Inr compiled \<and>
                 exec_result env (''java -cp '' @ quoted d @ '' '' @ className) = Inl err) \<longrightarrow>
           fst (executeCode env code language w) =
             Inr \<lparr>output = (case err_stdout err of None \<Rightarrow> [] | Some s \<Rightarrow> trim s),
                  error = Some (case err_stderr err of
                                  None \<Rightarrow> err_message err
                                | Some s \<Rightarrow> (if trim s = [] then err_message err else trim s)),
                  executionTime = elapsed env\<rparr>)
      \<and> (\<forall>d compiled out err_out.
                mkdtemp_result env (path_join (tmpdir env) ''java-exec-'') = Inr d \<and>
                writeFile_error env = None \<and> rm_error env = None \<and>
                exec_result env (''javac '' @ quoted (path_join d (className @ ''.java''))) = Inr compiled \<and>
                exec_result env (''java -cp '' @ quoted d @ '' '' @ className) = Inr (out, err_out) \<longrightarrow>
           fst (executeCode env code language w) =
             Inr \<lparr>output = trim out,
                  error = (if trim err_out = [] then None else Some (trim err_out)),
                  executionTime = elapsed env\<rparr>))"
proof (intro conjI allI impI)
  assume u: "toLowerCase env language \<notin> set supported_languages"
  show "executeCode env code language w =
        (Inr \<lparr>output = [],
              error = Some (''Language '' @ quoted language @ '' is not supported for execution''),
              executionTime = elapsed_total env\<rparr>, w)"
    using executeCode_caught [of env code language w] executeCode_world [of env code language w]
    by (simp add: executeCode_try_unsupported [OF u] prod_eq_iff)
  show "''Language '' @ quoted language @ '' is not supported for execution'' \<noteq> []"
    by simp
next
  show "\<exists>r. fst (executeCode env code language w) = Inr r"
    using executeCode_caught by blast
next
  fix tool extension e
  assume r: "(toLowerCase env language, tool, extension) \<in>
          set [(''javascript'', ''node'', ''.js''), (''typescript'', ''npx ts-node'', ''.ts''),
               (''python'', ''python'', ''.py''), (''csharp'', ''dotnet script'', ''.cs''),
               (''c#'', ''dotnet script'', ''.cs''), (''go'', ''go run'', ''.go'')]"
    and m: "mkdtemp_result env (path_join (tmpdir env) ''code-exec-'') = Inl e"
  show "fst (executeCode env code language w) =
             Inr \<lparr>output = [],
                  error = Some (if err_message e = [] then ''Execution failed'' else err_message e),
                  executionTime = elapsed_total env\<rparr>"
    by (simp add: executeCode_caught executeCode_try_file [OF r] run_file_no_directory [OF m])
next
  fix tool extension d e
  assume r: "(toLowerCase env language, tool, extension) \<in>
          set [(''javascript'', ''node'', ''.js''), (''typescript'', ''npx ts-node'', ''.ts''),
               (''python'', ''python'', ''.py''), (''csharp'', ''dotnet script'', ''.cs''),
               (''c#'', ''dotnet script'', ''.cs''), (''go'', ''go run'', ''.go'')]"
    and m: "mkdtemp_result env (path_join (tmpdir env) ''code-exec-'') = Inr d \<and> writeFile_error env = Some e"
  then show "fst (executeCode env code language w) =
             Inr \<lparr>output = [],
                  error = Some (if err_message e = [] then ''Execution failed'' else err_message e),
                  executionTime = elapsed_total env\<rparr>"
    by (simp add: executeCode_caught executeCode_try_file [OF r] run_file_write_failure)
next
  fix tool extension d err
  assume r: "(toLowerCase env language, tool, extension) \<in>
          set [(''javascript'', ''node'', ''.js''), (''typescript'', ''npx ts-node'', ''.ts''),
               (''python'', ''python'', ''.py''), (''csharp'', ''dotnet script'', ''.cs''),
               (''c#'', ''dotnet script'', ''.cs''), (''go'', ''go run'', ''.go'')]"
    and m: "mkdtemp_result env (path_join (tmpdir env) ''code-exec-'') = Inr d \<and>
                writeFile_error env = None \<and>
                exec_result env (tool @ '' '' @ quoted (path_join d (''code'' @ extension))) = Inl err"
  from m have "fst (run_file env tool extension code w) =
     Inr \<lparr>output = (case err_stdout err of None \<Rightarrow> [] | Some s \<Rightarrow> trim s),
          error = Some (case err_stderr err of
                          None \<Rightarrow> err_message err
                        | Some s \<Rightarrow> (if trim s = [] then err_message err else trim s)),
          executionTime = elapsed env\<rparr>"
    using run_file_rejected by blast
  then show "fst (executeCode env code language w) =
             Inr \<lparr>output = (case err_stdout err of None \<Rightarrow> [] | Some s \<Rightarrow> trim s),
                  error = Some (case err_stderr err of
                                  None \<Rightarrow> err_message err
                                | Some s \<Rightarrow> (if trim s = [] then err_message err else trim s)),
                  executionTime = elapsed env\<rparr>"
    by (simp add: executeCode_caught executeCode_try_file [OF r])
  {
    assume "err_message err \<noteq> []"
    then show "(case err_stderr err of
                   None \<Rightarrow> err_message err
                 | Some s \<Rightarrow> (if trim s = [] then err_message err else trim s)) \<noteq> []"
      by (simp split: option.splits)
  }
next
  fix tool extension d out err_out
  assume r: "(toLowerCase env language, tool, extension) \<in>
          set [(''javascript'', ''node'', ''.js''), (''typescript'', ''npx ts-node'', ''.ts''),
               (''python'', ''python'', ''.py''), (''csharp'', ''dotnet script'', ''.cs''),
               (''c#'', ''dotnet script'', ''.cs''), (''go'', ''go run'', ''.go'')]"
    and m: "mkdtemp_result env (path_join (tmpdir env) ''code-exec-'') = Inr d \<and>
                writeFile_error env = None \<and>
                exec_result env (tool @ '' '' @ quoted (path_join d (''code'' @ extension))) = Inr (out, err_out)"
  from m have "fst (run_file env tool extension code w) =
     Inr \<lparr>output = trim out,
          error = (if trim err_out = [] then None else Some (trim err_out)),
          executionTime = elapsed env\<rparr>"
    using run_file_ok by blast
  then show "fst (executeCode env code language w) =
             Inr \<lparr>output = trim out,
                  error = (if trim err_out = [] then None else Some (trim err_out)),
                  executionTime = elapsed env\<rparr>"
    by (simp add: executeCode_caught executeCode_try_file [OF r])
next
  fix className e
  assume j: "toLowerCase env language = ''java'' \<and>
        className = (case extractJavaClassName code of None \<Rightarrow> ''Main'' | Some n \<Rightarrow> n)"
    and m: "mkdtemp_result env (path_join (tmpdir env) ''java-exec-'') = Inl e"
  from j have t: "executeCode_try env code language w = executeJava env code w"
    by (simp add: executeCode_try_java)
  show "fst (executeCode env code language w) =
             Inr \<lparr>output = [],
                  error = Some (if err_message e = [] then ''Execution failed'' else err_message e),
                  executionTime = elapsed_total env\<rparr>"
    by (simp add: executeCode_caught t executeJava_no_directory [OF m])
next
  fix className d e
  assume j: "toLowerCase env language = ''java'' \<and>
        className = (case extractJavaClassName code of None \<Rightarrow> ''Main'' | Some n \<Rightarrow> n)"
    and m: "mkdtemp_result env (path_join (tmpdir env) ''java-exec-'') = Inr d \<and>
                (writeFile_error env = Some e \<or> writeFile_error env = None \<and> rm_error env = Some e)"
  from j have t: "executeCode_try env code language w = executeJava env code w"
    by (simp add: executeCode_try_java)
  from m have "fst (executeJava env code w) = Inl e"
    using executeJava_write_failure [of env d e code w] executeJava_rm_failure [of env d e code w] by auto
  then show "fst (executeCode env code language w) =
             Inr \<lparr>output = [],
                  error = Some (if err_message e = [] then ''Execution failed'' else err_message e),
                  executionTime = elapsed_total env\<rparr>"
    by (simp add: executeCode_caught t)
next
  fix className d err compiled
  assume j: "toLowerCase env language = ''java'' \<and>
        className = (case extractJavaClassName code of None \<Rightarrow> ''Main'' | Some n \<Rightarrow> n)"
    and m: "mkdtemp_result env (path_join (tmpdir env) ''java-exec-'') = Inr d \<and>
                writeFile_error env = None \<and> rm_error env = None \<and>
                (exec_result env (''javac '' @ quoted (path_join d (className @ ''.java''))) = Inl err \<or>
                 exec_result env (''javac '' @ quoted (path_join d (className @ ''.java''))) = Inr compiled \<and>
                 exec_result env (''java -cp '' @ quoted d @ '' '' @ className) = Inl err)"
  from j have t: "executeCode_try env code language w = executeJava env code w"
    by (simp add: executeCode_try_java)
  from j m have "fst (executeJava env code w) =
     Inr \<lparr>output = (case err_stdout err of None \<Rightarrow> [] | Some s \<Rightarrow> trim s),
          error = Some (case err_stderr err of
                          None \<Rightarrow> err_message err
                        | Some s \<Rightarrow> (if trim s = [] then err_message err else trim s)),
          executionTime = elapsed env\<rparr>"
    using executeJava_javac_rejected [of env d className code err w]
      executeJava_java_rejected [of env d className code compiled err w]
    by blast
  then show "fst (executeCode env code language w) =
             Inr \<lparr>output = (case err_stdout err of None \<Rightarrow> [] | Some s \<Rightarrow> trim s),
                  error = Some (case err_stderr err of
                                  None \<Rightarrow> err_message err
                                | Some s \<Rightarrow> (if trim s = [] then err_message err else trim s)),
                  executionTime = elapsed env\<rparr>"
    by (simp add: executeCode_caught t)
next
  fix className d compiled out err_out
  assume j: "toLowerCase env language = ''java'' \<and>
        className = (case extractJavaClassName code of None \<Rightarrow> ''Main'' | Some n \<Rightarrow> n)"
    and m: "mkdtemp_result env (path_join (tmpdir env) ''java-exec-'') = Inr d \<and>
                writeFile_error env = None \<and> rm_error env = None \<and>
                exec_result env (''javac '' @ quoted (path_join d (className @ ''.java''))) = Inr compiled \<and>
                exec_result env (''java -cp '' @ quoted d @ '' '' @ className) = Inr (out, err_out)"
  from j have t: "executeCode_try env code language w = executeJava env code w"
    by (simp add: executeCode_try_java)
  from j m have "fst (executeJava env code w) =
     Inr \<lparr>output = trim out,
          error = (if trim err_out = [] then None else Some (trim err_out)),
          executionTime = elapsed env\<rparr>"
    using executeJava_ok [of env d className code compiled out err_out w] by blast
  then show "fst (executeCode env code language w) =
             Inr \<lparr>output = trim out,
                  error = (if trim err_out = [] then None else Some (trim err_out)),
                  executionTime = elapsed env\<rparr>"
    by (simp add: executeCode_caught t)
qed

text \<open>
  On the example machines: \<open>Ruby\<close> is not supported; a Python run whose file cannot be
  written comes back with the message of the write failure; a Go run that fails comes
  back with what it printed and the message of the rejection, its standard error
  being blank; a Java class that does not compile comes back with the compiler's
  message; and a Python run that works comes back with its output and no error.
\<close>

theorem executeCode_failures_are_data_witness:
  "toLowerCase example_sandbox ''Ruby'' \<notin> set supported_languages \<and>
   executeCode example_sandbox ''puts 1'' ''Ruby'' empty_world =
     (Inr \<lparr>output = [], error = Some (''Language '' @ quoted ''Ruby'' @ '' is not supported for execution''),
           executionTime = 9\<rparr>, empty_world) \<and>
   fst (executeCode (example_sandbox\<lparr>writeFile_error := Some disk_full\<rparr>) ''print(1)'' ''python'' empty_world) =
     Inr \<lparr>output = [], error = Some ''ENOSPC: no space left on device, write'', executionTime = 9\<rparr> \<and>
   fst (executeCode broken_toolchain ''package main'' ''Go'' empty_world) =
     Inr \<lparr>output = ''partial'', error = Some ''Command failed: go run'', executionTime = 7\<rparr> \<and>
   fst (executeCode broken_toolchain ''public class Foo {'' ''Java'' empty_world) =
     Inr \<lparr>output = [], error = Some ''Foo.java:1: error: reached end of file'', executionTime = 7\<rparr> \<and>
   fst (executeCode broken_toolchain ''print(42)'' ''Python'' empty_world) =
     Inr \<lparr>output = ''42'', error = None, executionTime = 7\<rparr>"
proof -
  note t = executeCode_failures_are_data
  have u: "toLowerCase example_sandbox ''Ruby'' \<notin> set supported_languages"
    by (simp add: toLowerCase_Ruby supported_languages_def)
  with t [of example_sandbox "''Ruby''" "''puts 1''" empty_world]
  have "executeCode example_sandbox ''puts 1'' ''Ruby'' empty_world =
     (Inr \<lparr>output = [], error = Some (''Language '' @ quoted ''Ruby'' @ '' is not supported for execution''),
           executionTime = elapsed_total example_sandbox\<rparr>, empty_world)"
    by blast
  then have c1: "executeCode example_sandbox ''puts 1'' ''Ruby'' empty_world =
     (Inr \<lparr>output = [], error = Some (''Language '' @ quoted ''Ruby'' @ '' is not supported for execution''),
           executionTime = 9\<rparr>, empty_world)"
    by (simp add: example_sandbox_def)
  let ?full = "example_sandbox\<lparr>writeFile_error := Some disk_full\<rparr>"
  have py: "toLowerCase env ''python'' = ''python''" "toLowerCase env ''Python'' = ''python''"
    and go: "toLowerCase env ''Go'' = ''go''" and java: "toLowerCase env ''Java'' = ''java''" for env
    by (simp_all add: toLowerCase_def is_ascii_def to_lower_char_def)
  have "mkdtemp_result ?full (path_join (tmpdir ?full) ''code-exec-'') = Inr ''/tmp/code-exec-Ab12Cd'' \<and>
        writeFile_error ?full = Some disk_full"
    by (simp add: example_sandbox_def path_join_def)
  with t [of ?full "''python''" "''print(1)''" empty_world]
  have "fst (executeCode ?full ''print(1)'' ''python'' empty_world) =
     Inr \<lparr>output = [], error = Some (if err_message disk_full = [] then ''Execution failed'' else err_message disk_full),
          executionTime = elapsed_total ?full\<rparr>"
    by (simp add: py)
  then have c2: "fst (executeCode ?full ''print(1)'' ''python'' empty_world) =
     Inr \<lparr>output = [], error = Some ''ENOSPC: no space left on device, write'', executionTime = 9\<rparr>"
    by (simp add: disk_full_def example_sandbox_def)
  have d: "mkdtemp_result broken_toolchain (path_join (tmpdir broken_toolchain) ''code-exec-'') = Inr ''/tmp/code-exec-Ab12Cd''"
    "mkdtemp_result broken_toolchain (path_join (tmpdir broken_toolchain) ''java-exec-'') = Inr ''/tmp/java-exec-Ab12Cd''"
    "writeFile_error broken_toolchain = None" "rm_error broken_toolchain = None"
    "elapsed broken_toolchain = 7"
    by (simp_all add: broken_toolchain_def example_sandbox_def path_join_def)
  have "exec_result broken_toolchain (''go run'' @ '' '' @ quoted (path_join ''/tmp/code-exec-Ab12Cd'' (''code'' @ ''.go''))) =
      Inl (JsError ''Command failed: go run'' (Some ('' partial'' @ [CHR 0x0A])) (Some [CHR 0x0A]))"
    by (simp add: broken_toolchain_def path_join_def quoted_def)
  with t [of broken_toolchain "''Go''" "''package main''" empty_world] d
  have "fst (executeCode broken_toolchain ''package main'' ''Go'' empty_world) =
     Inr \<lparr>output = trim ('' partial'' @ [CHR 0x0A]),
          error = Some (if trim [CHR 0x0A] = [] then ''Command failed: go run'' else trim [CHR 0x0A]),
          executionTime = 7\<rparr>"
    by (simp add: go)
  then have c3: "fst (executeCode broken_toolchain ''package main'' ''Go'' empty_world) =
     Inr \<lparr>output = ''partial'', error = Some ''Command failed: go run'', executionTime = 7\<rparr>"
    by (simp add: trim_def white_space_def)
  have cls: "(case extractJavaClassName ''public class Foo {'' of None \<Rightarrow> ''Main'' | Some n \<Rightarrow> n) = ''Foo''"
    by (simp add: match_class_at_def spaces1_def white_space_def is_word_def)
  have "exec_result broken_toolchain (''javac '' @ quoted (path_join ''/tmp/java-exec-Ab12Cd'' (''Foo'' @ ''.java''))) =
      Inl (JsError ''Command failed: javac'' (Some [])
                 (Some (''Foo.java:1: error: reached end of file'' @ [CHR 0x0A])))"
    by (simp add: broken_toolchain_def path_join_def quoted_def)
  with t [of broken_toolchain "''Java''" "''public class Foo {''" empty_world] d cls
  have "fst (executeCode broken_toolchain ''public class Foo {'' ''Java'' empty_world) =
     Inr \<lparr>output = trim [],
          error = Some (if trim (''Foo.java:1: error: reached end of file'' @ [CHR 0x0A]) = [] then ''Command failed: javac''
                        else trim (''Foo.java:1: error: reached end of file'' @ [CHR 0x0A])),
          executionTime = 7\<rparr>"
    by (simp add: java)
  then have c4: "fst (executeCode broken_toolchain ''public class Foo {'' ''Java'' empty_world) =
     Inr \<lparr>output = [], error = Some ''Foo.java:1: error: reached end of file'', executionTime = 7\<rparr>"
    by (simp add: trim_def white_space_def)
  have "exec_result broken_toolchain (''python'' @ '' '' @ quoted (path_join ''/tmp/code-exec-Ab12Cd'' (''code'' @ ''.py''))) =
      Inr (''42'' @ [CHR 0x0A], [])"
    by (simp add: broken_toolchain_def path_join_def quoted_def)
  with t [of broken_toolchain "''Python''" "''print(42)''" empty_world] d
  have "fst (executeCode broken_toolchain ''print(42)'' ''Python'' empty_world) =
     Inr \<lparr>output = trim (''42'' @ [CHR 0x0A]), error = (if trim [] = [] then None else Some (trim [])),
          executionTime = 7\<rparr>"
    by (simp add: py)
  then have c5: "fst (executeCode broken_toolchain ''print(42)'' ''Python'' empty_world) =
     Inr \<lparr>output = ''42'', error = None, executionTime = 7\<rparr>"
    by (simp add: trim_def white_space_def)
  from u c1 c2 c3 c4 c5 show ?thesis by simp
qed

section \<open>Properties of the connection gateway\<close>

text \<open>The two writes either append their row or leave the store as it was.\<close>

lemma addSessionMessage_ok:
  assumes "fst (addSessionMessage env sessionId userId content st) = Inr u"
  shows "snd (addSessionMessage env sessionId userId content st) =
           st\<lparr>session_messages := session_messages st @
              [\<lparr>m_session_id = sessionId, m_author_id = userId, m_content = content\<rparr>]\<rparr>
         \<and> (\<exists>p. fst (ensureSessionParticipant env userId sessionId st) = Inr p) \<and> fault env 1 = None"
  using assms
  by (auto simp: addSessionMessage_def ensureSessionParticipant_def insert_rows_def
      split: sum.splits option.splits if_splits prod.splits)

lemma addSessionMessage_failed:
  assumes "fst (addSessionMessage env sessionId userId content st) = Inl err"
  shows "snd (addSessionMessage env sessionId userId content st) = st"
  using assms
  by (auto simp: addSessionMessage_def ensureSessionParticipant_def insert_rows_def
      split: sum.splits option.splits if_splits prod.splits)

lemma addSessionMessage_refused:
  assumes "fst (ensureSessionParticipant env userId sessionId st) = Inl err"
  shows "fst (addSessionMessage env sessionId userId content st) = Inl err"
  using assms by (auto simp: addSessionMessage_def split: sum.splits prod.splits)

lemma addCodeSnapshot_ok:
  assumes "fst (addCodeSnapshot env sessionId userId code language st) = Inr u"
  shows "snd (addCodeSnapshot env sessionId userId code language st) =
           st\<lparr>session_code_snapshots := session_code_snapshots st @
              [\<lparr>c_session_id = sessionId, c_author_id = userId, c_language = language, c_code = code\<rparr>]\<rparr>
         \<and> (\<exists>p. fst (ensureSessionParticipant env userId sessionId st) = Inr p) \<and> fault env 1 = None"
  using assms
  by (auto simp: addCodeSnapshot_def ensureSessionParticipant_def insert_rows_def
      split: sum.splits option.splits if_splits prod.splits)

lemma addCodeSnapshot_failed:
  assumes "fst (addCodeSnapshot env sessionId userId code language st) = Inl err"
  shows "snd (addCodeSnapshot env sessionId userId code language st) = st"
  using assms
  by (auto simp: addCodeSnapshot_def ensureSessionParticipant_def insert_rows_def
      split: sum.splits option.splits if_splits prod.splits)

lemma addCodeSnapshot_refused:
  assumes "fst (ensureSessionParticipant env userId sessionId st) = Inl err"
  shows "fst (addCodeSnapshot env sessionId userId code language st) = Inl err"
  using assms by (auto simp: addCodeSnapshot_def split: sum.splits prod.splits)

lemma on_error_no_broadcast: "IoToRoomEmit room ev pl \<notin> set (on_error fallback callback err)"
  by (simp add: on_error_def ack_def Let_def)

lemma ack_no_broadcast: "IoToRoomEmit room ev pl \<notin> set (ack callback ok message)"
  by (simp add: ack_def)

lemma chat_broadcast_stored:
  assumes "IoToRoomEmit room ev pl \<in> set (fst (on_chat_message env clk payload callback data srv))"
  shows "\<exists>sessionId body.
           truthy (sd_sessionId data) = Some sessionId \<and> truthy (Option.bind payload cp_text) = Some body \<and>
           fst (addSessionMessage env sessionId (u_id (sd_user data)) body (db srv)) = Inr () \<and>
           db (snd (snd (on_chat_message env clk payload callback data srv))) =
             (db srv)\<lparr>session_messages := session_messages (db srv) @
                [\<lparr>m_session_id = sessionId, m_author_id = u_id (sd_user data), m_content = body\<rparr>]\<rparr>"
proof (cases "truthy (sd_sessionId data)")
  case None
  with assms show ?thesis by (simp add: on_chat_message_def on_error_no_broadcast)
next
  case (Some sessionId)
  note sid = this
  show ?thesis
  proof (cases "truthy (Option.bind payload cp_text)")
    case None
    with assms sid show ?thesis by (simp add: on_chat_message_def on_error_no_broadcast)
  next
    case (Some body)
    obtain r st1 where a: "addSessionMessage env sessionId (u_id (sd_user data)) body (db srv) = (r, st1)"
      by (cases "addSessionMessage env sessionId (u_id (sd_user data)) body (db srv)")
    show ?thesis
    proof (cases r)
      case (Inl err)
      with assms sid Some a show ?thesis by (simp add: on_chat_message_def on_error_no_broadcast)
    next
      case (Inr u)
      from a Inr have "fst (addSessionMessage env sessionId (u_id (sd_user data)) body (db srv)) = Inr ()"
        by simp
      moreover from addSessionMessage_ok [OF this] a
      have "st1 = (db srv)\<lparr>session_messages := session_messages (db srv) @
                [\<lparr>m_session_id = sessionId, m_author_id = u_id (sd_user data), m_content = body\<rparr>]\<rparr>"
        by simp
      ultimately show ?thesis using sid Some a Inr by (simp add: on_chat_message_def)
    qed
  qed
qed

lemma chat_failure_reported:
  assumes "truthy (sd_sessionId data) = Some sessionId" "truthy (Option.bind payload cp_text) = Some body"
    and "fst (addSessionMessage env sessionId (u_id (sd_user data)) body (db srv)) = Inl err"
  shows "on_chat_message env clk payload callback data srv =
     (ack callback False (Some (http_message err)) @ [SocketEmit ''session:error'' (SessionErrorMsg (http_message err))],
      data, srv)"
proof -
  from assms(3) addSessionMessage_failed [OF assms(3)]
  have "addSessionMessage env sessionId (u_id (sd_user data)) body (db srv) = (Inl err, db srv)"
    by (simp add: prod_eq_iff)
  then show ?thesis using assms(1,2) by (simp add: on_chat_message_def on_error_def Let_def)
qed

lemma code_update_broadcast_stored:
  assumes "IoToRoomEmit room ev pl \<in> set (fst (on_code_update env clk payload callback data srv))"
  shows "\<exists>sessionId code.
           truthy (sd_sessionId data) = Some sessionId \<and> truthy (Option.bind payload cp_code) = Some code \<and>
           fst (addCodeSnapshot env sessionId (u_id (sd_user data)) code
                  (nullish (Option.bind payload cp_language) ''javascript'') (db srv)) = Inr () \<and>
           db (snd (snd (on_code_update env clk payload callback data srv))) =
             (db srv)\<lparr>session_code_snapshots := session_code_snapshots (db srv) @
                [\<lparr>c_session_id = sessionId, c_author_id = u_id (sd_user data),
                  c_language = nullish (Option.bind payload cp_language) ''javascript'', c_code = code\<rparr>]\<rparr>"
proof (cases "truthy (sd_sessionId data)")
  case None
  with assms show ?thesis by (simp add: on_code_update_def on_error_no_broadcast)
next
  case (Some sessionId)
  note sid = this
  show ?thesis
  proof (cases "truthy (Option.bind payload cp_code)")
    case None
    with assms sid show ?thesis by (simp add: on_code_update_def on_error_no_broadcast)
  next
    case (Some code)
    let ?lang = "nullish (Option.bind payload cp_language) ''javascript''"
    obtain r st1 where a: "addCodeSnapshot env sessionId (u_id (sd_user data)) code ?lang (db srv) = (r, st1)"
      by (cases "addCodeSnapshot env sessionId (u_id (sd_user data)) code ?lang (db srv)")
    show ?thesis
    proof (cases r)
      case (Inl err)
      with assms sid Some a show ?thesis by (simp add: on_code_update_def on_error_no_broadcast)
    next
      case (Inr u)
      from a Inr have "fst (addCodeSnapshot env sessionId (u_id (sd_user data)) code ?lang (db srv)) = Inr ()"
        by simp
      moreover from addCodeSnapshot_ok [OF this] a
      have "st1 = (db srv)\<lparr>session_code_snapshots := session_code_snapshots (db srv) @
                [\<lparr>c_session_id = sessionId, c_author_id = u_id (sd_user data),
                  c_language = ?lang, c_code = code\<rparr>]\<rparr>"
        by simp
      ultimately show ?thesis using sid Some a Inr by (simp add: on_code_update_def)
    qed
  qed
qed

lemma code_update_failure_reported:
  assumes "truthy (sd_sessionId data) = Some sessionId" "truthy (Option.bind payload cp_code) = Some code"
    and "fst (addCodeSnapshot env sessionId (u_id (sd_user data)) code
                (nullish (Option.bind payload cp_language) ''javascript'') (db srv)) = Inl err"
  shows "on_code_update env clk payload callback data srv =
     (ack callback False (Some (http_message err)) @ [SocketEmit ''session:error'' (SessionErrorMsg (http_message err))],
      data, srv)"
proof -
  from assms(3) addCodeSnapshot_failed [OF assms(3)]
  have "addCodeSnapshot env sessionId (u_id (sd_user data)) code
          (nullish (Option.bind payload cp_language) ''javascript'') (db srv) = (Inl err, db srv)"
    by (simp add: prod_eq_iff)
  then show ?thesis using assms(1,2) by (simp add: on_code_update_def on_error_def Let_def)
qed

text \<open>
  Claim C8. For \<open>chat:message\<close> and \<open>code:update\<close>: if the handler emits to the room, then
  the write (\<open>addSessionMessage\<close>, \<open>addCodeSnapshot\<close>) succeeded and the store holds the new
  row; if the write fails, or the admission check inside it refuses the sender, the
  handler emits nothing to the room, leaves the store as it was, and sends the sender
  the acknowledgment \<open>{ ok: false, message }\<close> (when the client asked for one) and the
  \<open>session:error\<close> event; and if the write succeeds the handler does emit to the room and
  acknowledges \<open>ok: true\<close>.
\<close>

theorem durability_precedes_broadcast:
  "(\<forall>room ev pl. IoToRoomEmit room ev pl \<in> set (fst (on_chat_message env clk payload callback data srv)) \<longrightarrow>
      (\<exists>sessionId body.
         truthy (sd_sessionId data) = Some sessionId \<and> truthy (Option.bind payload cp_text) = Some body \<and>
         fst (addSessionMessage env sessionId (u_id (sd_user data)) body (db srv)) = Inr () \<and>
         db (snd (snd (on_chat_message env clk payload callback data srv))) =
           (db srv)\<lparr>session_messages := session_messages (db srv) @
              [\<lparr>m_session_id = sessionId, m_author_id = u_id (sd_user data), m_content = body\<rparr>]\<rparr>))
   \<and> (\<forall>sessionId body err.
        truthy (sd_sessionId data) = Some sessionId \<and> truthy (Option.bind payload cp_text) = Some body \<and>
        (fst (addSessionMessage env sessionId (u_id (sd_user data)) body (db srv)) = Inl err \<or>
         fst (ensureSessionParticipant env (u_id (sd_user data)) sessionId (db srv)) = Inl err) \<longrightarrow>
        on_chat_message env clk payload callback data srv =
          (ack callback False (Some (http_message err)) @
             [SocketEmit ''session:error'' (SessionErrorMsg (http_message err))], data, srv))
   \<and> (\<forall>sessionId body.
        truthy (sd_sessionId data) = Some sessionId \<and> truthy (Option.bind payload cp_text) = Some body \<and>
        fst (addSessionMessage env sessionId (u_id (sd_user data)) body (db srv)) = Inr () \<longrightarrow>
        fst (on_chat_message env clk payload callback data srv) =
          IoToRoomEmit (room_of sessionId) ''chat:message''
            (ChatMessage (nullish (Option.bind payload cp_id) (date_now clk)) body
               (nullish (Option.bind payload cp_time) (iso_now clk))
               (u_id (sd_user data)) (display_name (sd_user data)) sessionId)
          # ack callback True None)
   \<and> (\<forall>room ev pl. IoToRoomEmit room ev pl \<in> set (fst (on_code_update env clk cpayload callback data srv)) \<longrightarrow>
        (\<exists>sessionId code.
           truthy (sd_sessionId data) = Some sessionId \<and> truthy (Option.bind cpayload cp_code) = Some code \<and>
           fst (addCodeSnapshot env sessionId (u_id (sd_user data)) code
                  (nullish (Option.bind cpayload cp_language) ''javascript'') (db srv)) = Inr () \<and>
           db (snd (snd (on_code_update env clk cpayload callback data srv))) =
             (db srv)\<lparr>session_code_snapshots := session_code_snapshots (db srv) @
                [\<lparr>c_session_id = sessionId, c_author_id = u_id (sd_user data),
                  c_language = nullish (Option.bind cpayload cp_language) ''javascript'', c_code = code\<rparr>]\<rparr>))
   \<and> (\<forall>sessionId code err.
        truthy (sd_sessionId data) = Some sessionId \<and> truthy (Option.bind cpayload cp_code) = Some code \<and>
        (fst (addCodeSnapshot env sessionId (u_id (sd_user data)) code
                (nullish (Option.bind cpayload cp_language) ''javascript'') (db srv)) = Inl err \<or>
         fst (ensureSessionParticipant env (u_id (sd_user data)) sessionId (db srv)) = Inl err) \<longrightarrow>
        on_code_update env clk cpayload callback data srv =
          (ack callback False (Some (http_message err)) @
             [SocketEmit ''session:error'' (SessionErrorMsg (http_message err))], data, srv))
   \<and> (\<forall>sessionId code.
        truthy (sd_sessionId data) = Some sessionId \<and> truthy (Option.bind cpayload cp_code) = Some code \<and>
        fst (addCodeSnapshot env sessionId (u_id (sd_user data)) code
               (nullish (Option.bind cpayload cp_language) ''javascript'') (db srv)) = Inr () \<longrightarrow>
        fst (on_code_update env clk cpayload callback data srv) =
          IoToRoomEmit (room_of sessionId) ''code:update''
            (CodeUpdate code (Option.bind cpayload cp_language) sessionId (u_id (sd_user data)) (iso_now clk))
          # ack callback True None)"
proof (intro conjI allI impI)
  fix room ev pl
  assume "IoToRoomEmit room ev pl \<in> set (fst (on_chat_message env clk payload callback data srv))"
  then show "\<exists>sessionId body.
         truthy (sd_sessionId data) = Some sessionId \<and> truthy (Option.bind payload cp_text) = Some body \<and>
         fst (addSessionMessage env sessionId (u_id (sd_user data)) body (db srv)) = Inr () \<and>
         db (snd (snd (on_chat_message env clk payload callback data srv))) =
           (db srv)\<lparr>session_messages := session_messages (db srv) @
              [\<lparr>m_session_id = sessionId, m_author_id = u_id (sd_user data), m_content = body\<rparr>]\<rparr>"
    by (rule chat_broadcast_stored)
next
  fix sessionId body err
  assume a: "truthy (sd_sessionId data) = Some sessionId \<and> truthy (Option.bind payload cp_text) = Some body \<and>
        (fst (addSessionMessage env sessionId (u_id (sd_user data)) body (db srv)) = Inl err \<or>
         fst (ensureSessionParticipant env (u_id (sd_user data)) sessionId (db srv)) = Inl err)"
  then have "fst (addSessionMessage env sessionId (u_id (sd_user data)) body (db srv)) = Inl err"
    using addSessionMessage_refused by blast
  with a show "on_chat_message env clk payload callback data srv =
          (ack callback False (Some (http_message err)) @
             [SocketEmit ''session:error'' (SessionErrorMsg (http_message err))], data, srv)"
    using chat_failure_reported by blast
next
  fix sessionId body
  assume "truthy (sd_sessionId data) = Some sessionId \<and> truthy (Option.bind payload cp_text) = Some body \<and>
        fst (addSessionMessage env sessionId (u_id (sd_user data)) body (db srv)) = Inr ()"
  then show "fst (on_chat_message env clk payload callback data srv) =
          IoToRoomEmit (room_of sessionId) ''chat:message''
            (ChatMessage (nullish (Option.bind payload cp_id) (date_now clk)) body
               (nullish (Option.bind payload cp_time) (iso_now clk))
               (u_id (sd_user data)) (display_name (sd_user data)) sessionId)
          # ack callback True None"
    by (auto simp: on_chat_message_def split: prod.splits sum.splits)
next
  fix room ev pl
  assume "IoToRoomEmit room ev pl \<in> set (fst (on_code_update env clk cpayload callback data srv))"
  then show "\<exists>sessionId code.
           truthy (sd_sessionId data) = Some sessionId \<and> truthy (Option.bind cpayload cp_code) = Some code \<and>
           fst (addCodeSnapshot env sessionId (u_id (sd_user data)) code
                  (nullish (Option.bind cpayload cp_language) ''javascript'') (db srv)) = Inr () \<and>
           db (snd (snd (on_code_update env clk cpayload callback data srv))) =
             (db srv)\<lparr>session_code_snapshots := session_code_snapshots (db srv) @
                [\<lparr>c_session_id = sessionId, c_author_id = u_id (sd_user data),
                  c_language = nullish (Option.bind cpayload cp_language) ''javascript'', c_code = code\<rparr>]\<rparr>"
    by (rule code_update_broadcast_stored)
next
  fix sessionId code err
  assume a: "truthy (sd_sessionId data) = Some sessionId \<and> truthy (Option.bind cpayload cp_code) = Some code \<and>
        (fst (addCodeSnapshot env sessionId (u_id (sd_user data)) code
                (nullish (Option.bind cpayload cp_language) ''javascript'') (db srv)) = Inl err \<or>
         fst (ensureSessionParticipant env (u_id (sd_user data)) sessionId (db srv)) = Inl err)"
  then have "fst (addCodeSnapshot env sessionId (u_id (sd_user data)) code
                (nullish (Option.bind cpayload cp_language) ''javascript'') (db srv)) = Inl err"
    using addCodeSnapshot_refused by blast
  with a show "on_code_update env clk cpayload callback data srv =
          (ack callback False (Some (http_message err)) @
             [SocketEmit ''session:error'' (SessionErrorMsg (http_message err))], data, srv)"
    using code_update_failure_reported by blast
next
  fix sessionId code
  assume "truthy (sd_sessionId data) = Some sessionId \<and> truthy (Option.bind cpayload cp_code) = Some code \<and>
        fst (addCodeSnapshot env sessionId (u_id (sd_user data)) code
               (nullish (Option.bind cpayload cp_language) ''javascript'') (db srv)) = Inr ()"
  then show "fst (on_code_update env clk cpayload callback data srv) =
          IoToRoomEmit (room_of sessionId) ''code:update''
            (CodeUpdate code (Option.bind cpayload cp_language) sessionId (u_id (sd_user data)) (iso_now clk))
          # ack callback True None"
    by (auto simp: on_code_update_def split: prod.splits sum.splits)
qed

text \<open>
  On the example server: \<open>bob\<close> says \<open>hi\<close> and the message is stored and broadcast; with a
  store that fails the insert, and with \<open>bob\<close> kicked, only \<open>bob\<close> hears of the error.
\<close>

theorem durability_precedes_broadcast_witness:
  "on_chat_message example_env example_clock (Some hi_payload) True bob_joined example_server =
     ([IoToRoomEmit ''session:s1'' ''chat:message''
         (ChatMessage ''m1'' ''hi'' ''2023-11-14T22:13:20.000Z'' ''bob'' (Some ''Bob'') ''s1''),
       Callback True None],
      bob_joined,
      example_server\<lparr>db := example_store\<lparr>session_messages :=
        [\<lparr>m_session_id = ''s1'', m_author_id = ''bob'', m_content = ''hi''\<rparr>]\<rparr>\<rparr>) \<and>
   on_chat_message (example_env\<lparr>fault := (\<lambda>k. if k = 1 then Some outage else None)\<rparr>) example_clock
       (Some hi_payload) True bob_joined example_server =
     ([Callback False (Some ''Unable to store message''),
       SocketEmit ''session:error'' (SessionErrorMsg ''Unable to store message'')],
      bob_joined, example_server) \<and>
   on_chat_message example_env example_clock (Some hi_payload) True bob_joined (example_server\<lparr>db := kicked_store\<rparr>) =
     ([Callback False (Some ''You have been removed from this session''),
       SocketEmit ''session:error'' (SessionErrorMsg ''You have been removed from this session'')],
      bob_joined, example_server\<lparr>db := kicked_store\<rparr>)"
proof -
  let ?bad = "example_env\<lparr>fault := (\<lambda>k. if k = 1 then Some outage else None)\<rparr>"
  note t = durability_precedes_broadcast [where payload = "Some hi_payload" and clk = example_clock
      and callback = True and data = bob_joined]
  have s: "truthy (sd_sessionId bob_joined) = Some ''s1''" "truthy (Option.bind (Some hi_payload) cp_text) = Some ''hi''"
    and u: "u_id (sd_user bob_joined) = ''bob''"
    by (simp_all add: truthy_def example_server_def example_clock_def bob_socket_def hi_payload_def bob_joined_def)
  have ok: "addSessionMessage example_env ''s1'' ''bob'' ''hi'' example_store =
      (Inr (), example_store\<lparr>session_messages := [\<lparr>m_session_id = ''s1'', m_author_id = ''bob'', m_content = ''hi''\<rparr>]\<rparr>)"
    by (simp add: addSessionMessage_def ensureSessionParticipant_def maybeSingle_def insert_rows_def example_env_def example_session_def ann_row_def bob_row_def eve_row_def example_store_def outage_def)
  have c1: "on_chat_message example_env example_clock (Some hi_payload) True bob_joined example_server =
     ([IoToRoomEmit ''session:s1'' ''chat:message''
         (ChatMessage ''m1'' ''hi'' ''2023-11-14T22:13:20.000Z'' ''bob'' (Some ''Bob'') ''s1''),
       Callback True None],
      bob_joined,
      example_server\<lparr>db := example_store\<lparr>session_messages :=
        [\<lparr>m_session_id = ''s1'', m_author_id = ''bob'', m_content = ''hi''\<rparr>]\<rparr>\<rparr>)"
    using s ok by (simp add: on_chat_message_def ack_def room_of_def nullish_def display_name_def example_server_def example_clock_def bob_socket_def hi_payload_def bob_joined_def)
  have "fst (addSessionMessage ?bad ''s1'' ''bob'' ''hi'' example_store) =
      Inl (HttpError 500 ''Unable to store message'' (Some outage))"
    by (simp add: addSessionMessage_def ensureSessionParticipant_def maybeSingle_def insert_rows_def
        formatPostgrestError_def example_env_def example_session_def ann_row_def bob_row_def eve_row_def example_store_def outage_def)
  with t [of ?bad example_server] s u have c2:
    "on_chat_message ?bad example_clock (Some hi_payload) True bob_joined example_server =
     ([Callback False (Some ''Unable to store message''),
       SocketEmit ''session:error'' (SessionErrorMsg ''Unable to store message'')],
      bob_joined, example_server)"
    by (simp add: ack_def example_server_def)
  have "fst (ensureSessionParticipant example_env ''bob'' ''s1'' kicked_store) =
      Inl (HttpError 403 ''You have been removed from this session'' None)"
    by (simp add: ensureSessionParticipant_def maybeSingle_def kicked_store_def example_env_def example_session_def ann_row_def bob_row_def eve_row_def example_store_def outage_def)
  with t [of example_env "example_server\<lparr>db := kicked_store\<rparr>"] s u have c3:
    "on_chat_message example_env example_clock (Some hi_payload) True bob_joined (example_server\<lparr>db := kicked_store\<rparr>) =
     ([Callback False (Some ''You have been removed from this session''),
       SocketEmit ''session:error'' (SessionErrorMsg ''You have been removed from this session'')],
      bob_joined, example_server\<lparr>db := kicked_store\<rparr>)"
    by (simp add: ack_def)
  from c1 c2 c3 show ?thesis by blast
qed

text \<open>The \<open>catch\<close> of a handler, by what was thrown; and the four ways \<open>code:run\<close> ends.\<close>

lemma on_error_http:
  "on_error fallback callback (Http (HttpError status_code message details)) =
     ack callback False (Some message) @ [SocketEmit ''session:error'' (SessionErrorMsg message)]"
  by (simp add: on_error_def Let_def)

lemma on_error_other:
  "on_error fallback callback (Other err) =
     ack callback False (Some fallback) @ [SocketEmit ''session:error'' (SessionErrorMsg fallback)]"
  by (simp add: on_error_def Let_def)

lemma code_run_no_slot:
  assumes "sd_sessionId data = None \<or> sd_sessionId data = Some []"
  shows "on_code_run senv clk payload callback data srv =
     (ack callback False (Some ''Join a session before running code'') @
        [SocketEmit ''session:error'' (SessionErrorMsg ''Join a session before running code'')], data, srv)"
  using assms by (auto simp: on_code_run_def truthy_def on_error_http)

lemma code_run_no_code:
  assumes "sd_sessionId data = Some sessionId" "sessionId \<noteq> []"
    and "payload = None \<or> (\<exists>p. payload = Some p \<and> (rp_code p = None \<or> rp_code p = Some []))"
  shows "on_code_run senv clk payload callback data srv =
     (ack callback False (Some ''Code content is required'') @
        [SocketEmit ''session:error'' (SessionErrorMsg ''Code content is required'')], data, srv)"
  using assms by (auto simp: on_code_run_def truthy_def on_error_http)

lemma code_run_not_a_string:
  assumes "sd_sessionId data = Some sessionId" "sessionId \<noteq> []"
    and "payload = Some p" "rp_code p = Some code" "code \<noteq> []" "rp_language p = JsOther"
  shows "on_code_run senv clk payload callback data srv =
     (ack callback False (Some ''Unable to run code'') @
        [SocketEmit ''session:error'' (SessionErrorMsg ''Unable to run code'')], data, srv)"
  using assms
  by (simp add: on_code_run_def truthy_def language_or_default_def call_toLowerCase_def on_error_other)

lemma code_run_runs:
  assumes "sd_sessionId data = Some sessionId" "sessionId \<noteq> []"
    and "payload = Some p" "rp_code p = Some code" "code \<noteq> []"
    and "rp_language p = JsUndefined \<and> language = ''javascript'' \<or>
         rp_language p = JsNull \<and> language = ''javascript'' \<or> rp_language p = JsString language"
  shows "\<exists>result w1.
           executeCode senv code (toLowerCase senv language) (host srv) = (Inr result, w1) \<and>
           on_code_run senv clk payload callback data srv =
             (IoToRoomEmit (room_of sessionId) ''code:run-result''
                (RunResult (''run-'' @ date_now clk) (toLowerCase senv language)
                   (output result) (error result) (executionTime result)
                   (u_id (sd_user data)) (display_name (sd_user data)) (u_id (sd_user data)) (iso_now clk))
              # ack callback True None,
              data, srv\<lparr>host := w1\<rparr>)"
proof -
  obtain r w1 where e: "executeCode senv code (toLowerCase senv language) (host srv) = (r, w1)"
    by (cases "executeCode senv code (toLowerCase senv language) (host srv)")
  from executeCode_caught [of senv code "toLowerCase senv language" "host srv"] e
  obtain result where r: "r = Inr result"
    by auto
  have l: "call_toLowerCase senv (language_or_default (rp_language p)) = Inr (toLowerCase senv language)"
    using assms(6) by (auto simp: language_or_default_def call_toLowerCase_def)
  have "on_code_run senv clk payload callback data srv =
             (IoToRoomEmit (room_of sessionId) ''code:run-result''
                (RunResult (''run-'' @ date_now clk) (toLowerCase senv language)
                   (output result) (error result) (executionTime result)
                   (u_id (sd_user data)) (display_name (sd_user data)) (u_id (sd_user data)) (iso_now clk))
              # ack callback True None,
              data, srv\<lparr>host := w1\<rparr>)"
    using assms(1-5) l e r by (simp add: on_code_run_def truthy_def)
  with e r show ?thesis by blast
qed

lemma code_run_store:
  "db (snd (snd (on_code_run senv clk payload callback data srv))) = db srv \<and>
   fst (on_code_run senv clk payload callback data (srv\<lparr>db := st\<rparr>)) =
     fst (on_code_run senv clk payload callback data srv)"
  by (simp add: on_code_run_def split: option.splits sum.splits prod.splits)

text \<open>
  Claim C10, with the one case it leaves out. \<open>code:run\<close> refuses a connection whose slot
  is unset or empty with \<open>Join a session before running code\<close>, and a payload that is absent
  or whose code is absent or empty with \<open>Code content is required\<close>. These are its only
  checks, but not its only refusal: a language that is neither absent, \<open>null\<close> nor text
  makes \<open>toLowerCase\<close> throw inside the \<open>try\<close>, and is answered \<open>Unable to run code\<close>. Each
  refusal goes to the sender alone, and leaves the connection and the server as they
  were. In every other case, the slot being set and the code not empty, the handler
  runs the snippet in the lower-cased language (\<open>javascript\<close> when none is given), emits
  \<open>code:run-result\<close> with \<open>io.to(room)\<close>, which reaches every socket of the room with no
  exception for the sender, and acknowledges \<open>ok: true\<close>. The store is not written, and
  what the handler emits is the same for every store: the participant row of the
  user, kicked or not, is never read.
\<close>

theorem code_run_checks_only_the_slot:
  "(sd_sessionId data = None \<or> sd_sessionId data = Some [] \<longrightarrow>
      on_code_run senv clk payload callback data srv =
        (ack callback False (Some ''Join a session before running code'') @
           [SocketEmit ''session:error'' (SessionErrorMsg ''Join a session before running code'')], data, srv))
   \<and> (\<forall>sessionId.
        sd_sessionId data = Some sessionId \<and> sessionId \<noteq> [] \<and>
        (payload = None \<or> (\<exists>p. payload = Some p \<and> (rp_code p = None \<or> rp_code p = Some []))) \<longrightarrow>
        on_code_run senv clk payload callback data srv =
          (ack callback False (Some ''Code content is required'') @
             [SocketEmit ''session:error'' (SessionErrorMsg ''Code content is required'')], data, srv))
   \<and> (\<forall>sessionId p code.
        sd_sessionId data = Some sessionId \<and> sessionId \<noteq> [] \<and>
        payload = Some p \<and> rp_code p = Some code \<and> code \<noteq> [] \<and> rp_language p = JsOther \<longrightarrow>
        on_code_run senv clk payload callback data srv =
          (ack callback False (Some ''Unable to run code'') @
             [SocketEmit ''session:error'' (SessionErrorMsg ''Unable to run code'')], data, srv))
   \<and> (\<forall>sessionId p code language.
        sd_sessionId data = Some sessionId \<and> sessionId \<noteq> [] \<and>
        payload = Some p \<and> rp_code p = Some code \<and> code \<noteq> [] \<and>
        (rp_language p = JsUndefined \<and> language = ''javascript'' \<or>
         rp_language p = JsNull \<and> language = ''javascript'' \<or> rp_language p = JsString language) \<longrightarrow>
        (\<exists>result w1.
           executeCode senv code (toLowerCase senv language) (host srv) = (Inr result, w1) \<and>
           on_code_run senv clk payload callback data srv =
             (IoToRoomEmit (room_of sessionId) ''code:run-result''
                (RunResult (''run-'' @ date_now clk) (toLowerCase senv language)
                   (output result) (error result) (executionTime result)
                   (u_id (sd_user data)) (display_name (sd_user data)) (u_id (sd_user data)) (iso_now clk))
              # ack callback True None,
              data, srv\<lparr>host := w1\<rparr>) \<and>
           recipients (rooms srv) socketId
             (IoToRoomEmit (room_of sessionId) ''code:run-result''
                (RunResult (''run-'' @ date_now clk) (toLowerCase senv language)
                   (output result) (error result) (executionTime result)
                   (u_id (sd_user data)) (display_name (sd_user data)) (u_id (sd_user data)) (iso_now clk)))
             = rooms srv (room_of sessionId)))
   \<and> db (snd (snd (on_code_run senv clk payload callback data srv))) = db srv
   \<and> fst (on_code_run senv clk payload callback data (srv\<lparr>db := st\<rparr>)) =
       fst (on_code_run senv clk payload callback data srv)"
proof (intro conjI allI impI)
  assume "sd_sessionId data = None \<or> sd_sessionId data = Some []"
  then show "on_code_run senv clk payload callback data srv =
        (ack callback False (Some ''Join a session before running code'') @
           [SocketEmit ''session:error'' (SessionErrorMsg ''Join a session before running code'')], data, srv)"
    by (rule code_run_no_slot)
next
  fix sessionId
  assume "sd_sessionId data = Some sessionId \<and> sessionId \<noteq> [] \<and>
        (payload = None \<or> (\<exists>p. payload = Some p \<and> (rp_code p = None \<or> rp_code p = Some [])))"
  then show "on_code_run senv clk payload callback data srv =
          (ack callback False (Some ''Code content is required'') @
             [SocketEmit ''session:error'' (SessionErrorMsg ''Code content is required'')], data, srv)"
    using code_run_no_code [of data sessionId payload] by blast
next
  fix sessionId p code
  assume "sd_sessionId data = Some sessionId \<and> sessionId \<noteq> [] \<and>
        payload = Some p \<and> rp_code p = Some code \<and> code \<noteq> [] \<and> rp_language p = JsOther"
  then show "on_code_run senv clk payload callback data srv =
          (ack callback False (Some ''Unable to run code'') @
             [SocketEmit ''session:error'' (SessionErrorMsg ''Unable to run code'')], data, srv)"
    using code_run_not_a_string [of data sessionId payload p code] by blast
next
  fix sessionId p code language
  assume a: "sd_sessionId data = Some sessionId \<and> sessionId \<noteq> [] \<and>
        payload = Some p \<and> rp_code p = Some code \<and> code \<noteq> [] \<and>
        (rp_language p = JsUndefined \<and> language = ''javascript'' \<or>
         rp_language p = JsNull \<and> language = ''javascript'' \<or> rp_language p = JsString language)"
  from a code_run_runs [of data sessionId payload p code language senv srv clk callback]
  obtain result w1 where
    "executeCode senv code (toLowerCase senv language) (host srv) = (Inr result, w1) \<and>
           on_code_run senv clk payload callback data srv =
             (IoToRoomEmit (room_of sessionId) ''code:run-result''
                (RunResult (''run-'' @ date_now clk) (toLowerCase senv language)
                   (output result) (error result) (executionTime result)
                   (u_id (sd_user data)) (display_name (sd_user data)) (u_id (sd_user data)) (iso_now clk))
              # ack callback True None,
              data, srv\<lparr>host := w1\<rparr>)"
    by blast
  then show "\<exists>result w1.
           executeCode senv code (toLowerCase senv language) (host srv) = (Inr result, w1) \<and>
           on_code_run senv clk payload callback data srv =
             (IoToRoomEmit (room_of sessionId) ''code:run-result''
                (RunResult (''run-'' @ date_now clk) (toLowerCase senv language)
                   (output result) (error result) (executionTime result)
                   (u_id (sd_user data)) (display_name (sd_user data)) (u_id (sd_user data)) (iso_now clk))
              # ack callback True None,
              data, srv\<lparr>host := w1\<rparr>) \<and>
           recipients (rooms srv) socketId
             (IoToRoomEmit (room_of sessionId) ''code:run-result''
                (RunResult (''run-'' @ date_now clk) (toLowerCase senv language)
                   (output result) (error result) (executionTime result)
                   (u_id (sd_user data)) (display_name (sd_user data)) (u_id (sd_user data)) (iso_now clk)))
             = rooms srv (room_of sessionId)"
    by (auto simp: recipients_def)
next
  show "db (snd (snd (on_code_run senv clk payload callback data srv))) = db srv"
    using code_run_store by blast
next
  show "fst (on_code_run senv clk payload callback data (srv\<lparr>db := st\<rparr>)) =
       fst (on_code_run senv clk payload callback data srv)"
    using code_run_store by blast
qed

text \<open>
  On the example server: \<open>bob\<close> joins session \<open>s1\<close>, the owner kicks him, the admission
  check now refuses him, and his \<open>code:run\<close> still runs and is broadcast to the room, with
  the language absent or given as \<open>JavaScript\<close>. Before he joins, his \<open>code:run\<close> is refused;
  so are an empty code, an absent payload and a language that is a number.
\<close>

theorem code_run_checks_only_the_slot_witness:
  "on_session_join example_env ''socket-bob'' (Some ''s1'') True bob_socket example_server =
     ([Callback True None, SocketEmit ''session:joined'' (SessionJoined ''s1'')],
      bob_joined, example_server\<lparr>rooms := joined_rooms\<rparr>) \<and>
   snd (kickParticipant example_env ''ann'' ''s1'' ''bob'' example_store) = kicked_store \<and>
   fst (ensureSessionParticipant example_env ''bob'' ''s1'' kicked_store) =
     Inl (HttpError 403 ''You have been removed from this session'' None) \<and>
   on_code_run example_sandbox example_clock (Some run_request) True bob_joined
       (example_server\<lparr>db := kicked_store, rooms := joined_rooms\<rparr>) =
     ([IoToRoomEmit ''session:s1'' ''code:run-result''
         (RunResult ''run-1700000000000'' ''javascript'' ''42'' None 7 ''bob'' (Some ''Bob'') ''bob''
            ''2023-11-14T22:13:20.000Z''),
       Callback True None],
      bob_joined,
      example_server\<lparr>db := kicked_store, rooms := joined_rooms,
        host := \<lparr>dirs = [], spawned = [''node '' @ quoted ''/tmp/code-exec-Ab12Cd/code.js'']\<rparr>\<rparr>) \<and>
   on_code_run example_sandbox example_clock (Some named_request) True bob_joined
       (example_server\<lparr>db := kicked_store, rooms := joined_rooms\<rparr>) =
     ([IoToRoomEmit ''session:s1'' ''code:run-result''
         (RunResult ''run-1700000000000'' ''javascript'' ''42'' None 7 ''bob'' (Some ''Bob'') ''bob''
            ''2023-11-14T22:13:20.000Z''),
       Callback True None],
      bob_joined,
      example_server\<lparr>db := kicked_store, rooms := joined_rooms,
        host := \<lparr>dirs = [], spawned = [''node '' @ quoted ''/tmp/code-exec-Ab12Cd/code.js'']\<rparr>\<rparr>) \<and>
   recipients joined_rooms ''socket-bob''
     (IoToRoomEmit ''session:s1'' ''code:run-result''
         (RunResult ''run-1700000000000'' ''javascript'' ''42'' None 7 ''bob'' (Some ''Bob'') ''bob''
            ''2023-11-14T22:13:20.000Z'')) = [''socket-bob''] \<and>
   on_code_run example_sandbox example_clock (Some run_request) True bob_socket
       (example_server\<lparr>rooms := joined_rooms\<rparr>) =
     ([Callback False (Some ''Join a session before running code''),
       SocketEmit ''session:error'' (SessionErrorMsg ''Join a session before running code'')],
      bob_socket, example_server\<lparr>rooms := joined_rooms\<rparr>) \<and>
   on_code_run example_sandbox example_clock (Some empty_request) True bob_joined
       (example_server\<lparr>rooms := joined_rooms\<rparr>) =
     ([Callback False (Some ''Code content is required''),
       SocketEmit ''session:error'' (SessionErrorMsg ''Code content is required'')],
      bob_joined, example_server\<lparr>rooms := joined_rooms\<rparr>) \<and>
   on_code_run example_sandbox example_clock None True bob_joined
       (example_server\<lparr>rooms := joined_rooms\<rparr>) =
     ([Callback False (Some ''Code content is required''),
       SocketEmit ''session:error'' (SessionErrorMsg ''Code content is required'')],
      bob_joined, example_server\<lparr>rooms := joined_rooms\<rparr>) \<and>
   on_code_run example_sandbox example_clock (Some number_request) True bob_joined
       (example_server\<lparr>rooms := joined_rooms\<rparr>) =
     ([Callback False (Some ''Unable to run code''),
       SocketEmit ''session:error'' (SessionErrorMsg ''Unable to run code'')],
      bob_joined, example_server\<lparr>rooms := joined_rooms\<rparr>)"
proof -
  let ?srv = "example_server\<lparr>db := kicked_store, rooms := joined_rooms\<rparr>"
  let ?open = "example_server\<lparr>rooms := joined_rooms\<rparr>"
  note t = code_run_checks_only_the_slot
  note t1 = t [THEN conjunct1, rule_format]
  note t2 = t [THEN conjunct2, THEN conjunct1, rule_format]
  note t3 = t [THEN conjunct2, THEN conjunct2, THEN conjunct1, rule_format]
  note t4 = t [THEN conjunct2, THEN conjunct2, THEN conjunct2, THEN conjunct1, rule_format]
  have slot: "sd_sessionId bob_joined = Some ''s1''" "''s1'' \<noteq> []"
    by (simp_all add: bob_joined_def bob_socket_def)
  have no_slot: "sd_sessionId bob_socket = None"
    by (simp add: bob_socket_def)
  have x: "executeCode example_sandbox ''console.log(42)'' ''javascript'' empty_world =
     (Inr \<lparr>output = ''42'', error = None, executionTime = 7\<rparr>,
      \<lparr>dirs = [], spawned = [''node '' @ quoted ''/tmp/code-exec-Ab12Cd/code.js'']\<rparr>)"
    by (simp add: executeCode_def executeCode_try_def toLowerCase_def is_ascii_def to_lower_char_def
        executeJavaScript_def run_file_def createTempFile_def mkdtemp_def path_join_def execAsync_def
        cleanupTempFile_def rm_def dirname_def success_result_def trim_def white_space_def
        example_sandbox_def empty_world_def)
  have l1: "toLowerCase example_sandbox ''javascript'' = ''javascript''"
    and l2: "toLowerCase example_sandbox ''JavaScript'' = ''javascript''"
    by (simp_all add: toLowerCase_def is_ascii_def to_lower_char_def)
  have h: "host ?srv = empty_world"
    by (simp add: example_server_def)
  have run: "on_code_run example_sandbox example_clock (Some p) True bob_joined ?srv =
     ([IoToRoomEmit ''session:s1'' ''code:run-result''
         (RunResult ''run-1700000000000'' ''javascript'' ''42'' None 7 ''bob'' (Some ''Bob'') ''bob''
            ''2023-11-14T22:13:20.000Z''),
       Callback True None],
      bob_joined,
      example_server\<lparr>db := kicked_store, rooms := joined_rooms,
        host := \<lparr>dirs = [], spawned = [''node '' @ quoted ''/tmp/code-exec-Ab12Cd/code.js'']\<rparr>\<rparr>)"
    if p: "rp_code p = Some ''console.log(42)''"
      "rp_language p = JsUndefined \<and> language = ''javascript'' \<or>
       rp_language p = JsNull \<and> language = ''javascript'' \<or> rp_language p = JsString language"
      and l: "toLowerCase example_sandbox language = ''javascript''"
    for p language
  proof -
    have pre: "sd_sessionId bob_joined = Some ''s1'' \<and> ''s1'' \<noteq> [] \<and>
        Some p = Some p \<and> rp_code p = Some ''console.log(42)'' \<and> ''console.log(42)'' \<noteq> [] \<and>
        (rp_language p = JsUndefined \<and> language = ''javascript'' \<or>
         rp_language p = JsNull \<and> language = ''javascript'' \<or> rp_language p = JsString language)"
      using slot p by simp
    from t4 [OF pre, of example_sandbox ?srv example_clock True "''socket-bob''"]
    obtain result w1 where
      e: "executeCode example_sandbox ''console.log(42)'' (toLowerCase example_sandbox language) (host ?srv) =
            (Inr result, w1)"
      and r: "on_code_run example_sandbox example_clock (Some p) True bob_joined ?srv =
             (IoToRoomEmit (room_of ''s1'') ''code:run-result''
                (RunResult (''run-'' @ date_now example_clock) (toLowerCase example_sandbox language)
                   (output result) (error result) (executionTime result)
                   (u_id (sd_user bob_joined)) (display_name (sd_user bob_joined)) (u_id (sd_user bob_joined))
                   (iso_now example_clock))
              # ack True True None,
              bob_joined, ?srv\<lparr>host := w1\<rparr>)"
      by blast
    from e have "executeCode example_sandbox ''console.log(42)'' ''javascript'' empty_world = (Inr result, w1)"
      unfolding l h .
    with x have res: "result = \<lparr>output = ''42'', error = None, executionTime = 7\<rparr>"
      and w: "w1 = \<lparr>dirs = [], spawned = [''node '' @ quoted ''/tmp/code-exec-Ab12Cd/code.js'']\<rparr>"
      by simp_all
    show ?thesis
      unfolding r l res w
      by (simp add: room_of_def ack_def display_name_def example_clock_def bob_joined_def bob_socket_def)
  qed
  have c4: "on_code_run example_sandbox example_clock (Some run_request) True bob_joined ?srv =
     ([IoToRoomEmit ''session:s1'' ''code:run-result''
         (RunResult ''run-1700000000000'' ''javascript'' ''42'' None 7 ''bob'' (Some ''Bob'') ''bob''
            ''2023-11-14T22:13:20.000Z''),
       Callback True None],
      bob_joined,
      example_server\<lparr>db := kicked_store, rooms := joined_rooms,
        host := \<lparr>dirs = [], spawned = [''node '' @ quoted ''/tmp/code-exec-Ab12Cd/code.js'']\<rparr>\<rparr>)"
    by (rule run [of run_request "''javascript''"]) (simp_all add: run_request_def l1)
  have c5: "on_code_run example_sandbox example_clock (Some named_request) True bob_joined ?srv =
     ([IoToRoomEmit ''session:s1'' ''code:run-result''
         (RunResult ''run-1700000000000'' ''javascript'' ''42'' None 7 ''bob'' (Some ''Bob'') ''bob''
            ''2023-11-14T22:13:20.000Z''),
       Callback True None],
      bob_joined,
      example_server\<lparr>db := kicked_store, rooms := joined_rooms,
        host := \<lparr>dirs = [], spawned = [''node '' @ quoted ''/tmp/code-exec-Ab12Cd/code.js'']\<rparr>\<rparr>)"
    by (rule run [of named_request "''JavaScript''"]) (simp_all add: named_request_def l2)
  have a: "ack True False (Some m) @ [SocketEmit ''session:error'' (SessionErrorMsg m)] =
           [Callback False (Some m), SocketEmit ''session:error'' (SessionErrorMsg m)]" for m
    by (simp add: ack_def)
  have c7: "on_code_run example_sandbox example_clock (Some run_request) True bob_socket ?open =
     ([Callback False (Some ''Join a session before running code''),
       SocketEmit ''session:error'' (SessionErrorMsg ''Join a session before running code'')],
      bob_socket, ?open)"
  proof -
    have pre: "sd_sessionId bob_socket = None \<or> sd_sessionId bob_socket = Some []"
      using no_slot by simp
    show ?thesis
      using t1 [OF pre, of example_sandbox example_clock "Some run_request" True ?open] unfolding a .
  qed
  have c8: "on_code_run example_sandbox example_clock (Some empty_request) True bob_joined ?open =
     ([Callback False (Some ''Code content is required''),
       SocketEmit ''session:error'' (SessionErrorMsg ''Code content is required'')],
      bob_joined, ?open)"
  proof -
    have pre: "sd_sessionId bob_joined = Some ''s1'' \<and> ''s1'' \<noteq> [] \<and>
        (Some empty_request = None \<or>
         (\<exists>p. Some empty_request = Some p \<and> (rp_code p = None \<or> rp_code p = Some [])))"
      using slot by (simp add: empty_request_def)
    show ?thesis
      using t2 [OF pre, of example_sandbox example_clock True ?open] unfolding a .
  qed
  have c9: "on_code_run example_sandbox example_clock None True bob_joined ?open =
     ([Callback False (Some ''Code content is required''),
       SocketEmit ''session:error'' (SessionErrorMsg ''Code content is required'')],
      bob_joined, ?open)"
  proof -
    have pre: "sd_sessionId bob_joined = Some ''s1'' \<and> ''s1'' \<noteq> [] \<and>
        (None = None \<or> (\<exists>p. None = Some p \<and> (rp_code p = None \<or> rp_code p = Some [])))"
      using slot by simp
    show ?thesis
      using t2 [OF pre, of example_sandbox example_clock True ?open] unfolding a .
  qed
  have c10: "on_code_run example_sandbox example_clock (Some number_request) True bob_joined ?open =
     ([Callback False (Some ''Unable to run code''),
       SocketEmit ''session:error'' (SessionErrorMsg ''Unable to run code'')],
      bob_joined, ?open)"
  proof -
    have pre: "sd_sessionId bob_joined = Some ''s1'' \<and> ''s1'' \<noteq> [] \<and>
        Some number_request = Some number_request \<and> rp_code number_request = Some ''console.log(42)'' \<and>
        ''console.log(42)'' \<noteq> [] \<and> rp_language number_request = JsOther"
      using slot by (simp add: number_request_def)
    show ?thesis
      using t3 [OF pre, of example_sandbox example_clock True ?open] unfolding a .
  qed
  have c1: "on_session_join example_env ''socket-bob'' (Some ''s1'') True bob_socket example_server =
     ([Callback True None, SocketEmit ''session:joined'' (SessionJoined ''s1'')],
      bob_joined, example_server\<lparr>rooms := joined_rooms\<rparr>)"
    by (simp add: on_session_join_def truthy_def ensureSessionParticipant_def maybeSingle_def ack_def
        room_of_def example_server_def example_clock_def bob_socket_def bob_joined_def joined_rooms_def
        example_env_def example_session_def ann_row_def bob_row_def eve_row_def example_store_def)
  have c2: "snd (kickParticipant example_env ''ann'' ''s1'' ''bob'' example_store) = kicked_store"
    by (simp add: kickParticipant_def ensureSessionExistsWithOwner_def maybeSingle_def update_maybeSingle_def
        kicked_store_def example_env_def example_session_def ann_row_def bob_row_def eve_row_def example_store_def)
  have c3: "fst (ensureSessionParticipant example_env ''bob'' ''s1'' kicked_store) =
     Inl (HttpError 403 ''You have been removed from this session'' None)"
    by (simp add: ensureSessionParticipant_def maybeSingle_def kicked_store_def example_env_def
        example_session_def ann_row_def bob_row_def eve_row_def example_store_def)
  have c6: "recipients joined_rooms ''socket-bob''
     (IoToRoomEmit ''session:s1'' ''code:run-result''
         (RunResult ''run-1700000000000'' ''javascript'' ''42'' None 7 ''bob'' (Some ''Bob'') ''bob''
            ''2023-11-14T22:13:20.000Z'')) = [''socket-bob'']"
    by (simp add: recipients_def joined_rooms_def)
  show ?thesis
    apply (intro conjI)
    apply (rule c1)
    apply (rule c2)
    apply (rule c3)
    apply (rule c4)
    apply (rule c5)
    apply (rule c6)
    apply (rule c7)
    apply (rule c8)
    apply (rule c9)
    apply (rule c10)
    done
qed

text \<open>
  Claim C10 as worded says that every \<open>code:run\<close> on a connection whose slot is set is run
  and broadcast. On the example server \<open>bob\<close>, whose slot records \<open>s1\<close>, sends a non-empty
  code with a language that is a number: nothing is run, nothing is emitted to the
  room, and the acknowledgment is \<open>ok: false\<close>.
\<close>

theorem code_run_claim_counterexample:
  "sd_sessionId bob_joined = Some ''s1'' \<and>
   rp_code number_request = Some ''console.log(42)'' \<and>
   rp_language number_request = JsOther \<and>
   on_code_run example_sandbox example_clock (Some number_request) True bob_joined
       (example_server\<lparr>rooms := joined_rooms\<rparr>) =
     ([Callback False (Some ''Unable to run code''),
       SocketEmit ''session:error'' (SessionErrorMsg ''Unable to run code'')],
      bob_joined, example_server\<lparr>rooms := joined_rooms\<rparr>) \<and>
   \<not> (\<exists>room ev pl. IoToRoomEmit room ev pl \<in> set (fst
          (on_code_run example_sandbox example_clock (Some number_request) True bob_joined
             (example_server\<lparr>rooms := joined_rooms\<rparr>)))) \<and>
   Callback True None \<notin> set (fst
          (on_code_run example_sandbox example_clock (Some number_request) True bob_joined
             (example_server\<lparr>rooms := joined_rooms\<rparr>))) \<and>
   spawned (host (snd (snd
          (on_code_run example_sandbox example_clock (Some number_request) True bob_joined
             (example_server\<lparr>rooms := joined_rooms\<rparr>))))) = []"
proof -
  have r: "on_code_run example_sandbox example_clock (Some number_request) True bob_joined
       (example_server\<lparr>rooms := joined_rooms\<rparr>) =
     ([Callback False (Some ''Unable to run code''),
       SocketEmit ''session:error'' (SessionErrorMsg ''Unable to run code'')],
      bob_joined, example_server\<lparr>rooms := joined_rooms\<rparr>)"
    by (simp add: on_code_run_def truthy_def language_or_default_def call_toLowerCase_def on_error_def
        Let_def ack_def number_request_def bob_joined_def bob_socket_def)
  have s: "sd_sessionId bob_joined = Some ''s1''" "rp_code number_request = Some ''console.log(42)''"
    "rp_language number_request = JsOther"
    by (simp_all add: number_request_def bob_joined_def bob_socket_def)
  have h: "spawned (host (example_server\<lparr>rooms := joined_rooms\<rparr>)) = []"
    by (simp add: example_server_def empty_world_def)
  show ?thesis
    unfolding r using s h by simp
qed

end
